theory Spec2Isabelle
  imports Main
begin

section \<open>JavaScript values\<close>

text \<open>
  The exporter (\<^verbatim>\<open>src/assessment/ocsf-exporter.js\<close>, class \<^verbatim>\<open>OCSFExporter\<close>) is
  untyped JavaScript that turns two objects, \<^verbatim>\<open>results\<close> and \<^verbatim>\<open>answers\<close>, into
  object literals.  Values are modelled as JSON data extended with \<^verbatim>\<open>undefined\<close> (the
  value of a missing property) and with the built-in functions that a property read
  can reach through \<^verbatim>\<open>Object.prototype\<close>.

  \<^item> Numbers are integers (\<open>JNum\<close>): the exporter never calculates with a number of
    its input, it tests truthiness, converts to text and passes the value on.
  \<^item> Strings are byte sequences (UTF-8); the Hebrew literals of the source are
    written out byte by byte.
  \<^item> An object is the list of its own enumerable properties in enumeration order.
    The value of a property of an input object is data and is never callable.  Arrays
    and objects of the input are read-only for the exporter and are modelled by
    value; the one object the exporter writes to lives in a store (see below).
  \<^item> \<open>JFunction name arity\<close> is a built-in function object; such a value arises
    only as the result of a read that reaches \<^verbatim>\<open>Object.prototype\<close>.
\<close>

datatype jsval =
    JUndefined
  | JNull
  | JBool bool
  | JNum int
  | JStr string
  | JArr "jsval list"
  | JObj "(string \<times> jsval) list"
  | JFunction string nat

type_synonym props = "(string \<times> jsval) list"

subsection \<open>Exceptions\<close>

text \<open>
  The exporter has no \<^verbatim>\<open>throw\<close> and no \<^verbatim>\<open>try\<close>; what can end a call early is a
  \<^verbatim>\<open>TypeError\<close> raised by the language: a call of something that is not a function,
  or a conversion of an object that has no usable \<^verbatim>\<open>toString\<close>.  A computation that
  can raise returns \<open>Inl TypeError\<close>; \<open>and_then\<close> runs the next step only after a
  normal return.
\<close>

datatype error = TypeError

definition and_then :: "error + 'a \<Rightarrow> ('a \<Rightarrow> error + 'b) \<Rightarrow> error + 'b" where
  "and_then m f = (case m of Inl e \<Rightarrow> Inl e | Inr x \<Rightarrow> f x)"

subsection \<open>What the exporter takes from the platform\<close>

text \<open>
  Library behaviour that depends on the calendar, the locale or the floating-point
  printer is a parameter of the model: the ISO-8601 rendering of a millisecond
  timestamp (\<^verbatim>\<open>new Date(t).toISOString()\<close>, which does not raise for a time that
  \<^verbatim>\<open>Date.now()\<close> returned), \<^verbatim>\<open>Number.prototype.toLocaleString\<close>, the
  separator that \<^verbatim>\<open>Array.prototype.toLocaleString\<close> puts between elements, whether a
  string converts to a number greater than zero (\<^verbatim>\<open>ToNumber(s) > 0\<close>), and the text
  of a number whose magnitude is \<^verbatim>\<open>2 ** 53\<close> or more (the shortest digits that
  identify the floating-point value, in exponential notation from \<^verbatim>\<open>1e21\<close> on).
\<close>

record platform =
  toISOString :: "int \<Rightarrow> string"
  numberToLocaleString :: "int \<Rightarrow> string"
  listSeparator :: string
  stringPositive :: "string \<Rightarrow> bool"
  largeNumberToString :: "int \<Rightarrow> string"

subsection \<open>Conversion to text\<close>

function show_nat :: "nat \<Rightarrow> string" where
  "show_nat n =
     (if n < 10 then [''0123456789'' ! n]
      else show_nat (n div 10) @ [''0123456789'' ! (n mod 10)])"
  by pat_completeness auto
termination
  by (relation "measure id") auto

definition show_int :: "int \<Rightarrow> string" where
  "show_int i = (if i < 0 then CHR ''-'' # show_nat (nat (- i)) else show_nat (nat i))"

text \<open>
  \<^verbatim>\<open>Number::toString\<close> of an integer: all its digits below \<^verbatim>\<open>2 ** 53\<close>, where
  every integer is a floating-point value of its own (a time value returned by
  \<^verbatim>\<open>Date.now()\<close> and an array index are in that range); the platform's text
  from there on.
\<close>

definition number_text :: "platform \<Rightarrow> int \<Rightarrow> string" where
  "number_text pf n =
     (if \<bar>n\<bar> < 9007199254740992 then show_int n else largeNumberToString pf n)"

fun join_strings :: "string \<Rightarrow> string list \<Rightarrow> string" where
  "join_strings sep [] = []"
| "join_strings sep [x] = x"
| "join_strings sep (x # y # ys) = x @ sep @ join_strings sep (y # ys)"

text \<open>
  \<^verbatim>\<open>ToString\<close>, as template literals, string concatenation and property keys apply it.
  An array converts by joining its elements with a comma, \<^verbatim>\<open>null\<close> and \<^verbatim>\<open>undefined\<close>
  elements giving the empty string.  An object is converted by calling its
  \<^verbatim>\<open>toString\<close> and then its \<^verbatim>\<open>valueOf\<close>: the inherited \<^verbatim>\<open>toString\<close> gives
  \<^verbatim>\<open>[object Object]\<close>; an own property \<^verbatim>\<open>toString\<close> is data, hence not callable and
  skipped, and \<^verbatim>\<open>valueOf\<close> (inherited: returns the object itself; own: not callable)
  never gives a primitive, so the conversion raises \<^verbatim>\<open>TypeError\<close>.
\<close>

fun to_string :: "platform \<Rightarrow> jsval \<Rightarrow> error + string"
  and element_strings :: "platform \<Rightarrow> jsval list \<Rightarrow> error + string list" where
  "to_string pf JUndefined = Inr ''undefined''"
| "to_string pf JNull = Inr ''null''"
| "to_string pf (JBool b) = Inr (if b then ''true'' else ''false'')"
| "to_string pf (JNum n) = Inr (number_text pf n)"
| "to_string pf (JStr s) = Inr s"
| "to_string pf (JArr xs) =
     (case element_strings pf xs of Inl e \<Rightarrow> Inl e | Inr ss \<Rightarrow> Inr (join_strings '','' ss))"
| "to_string pf (JObj p) =
     (if map_of p ''toString'' = None then Inr ''[object Object]'' else Inl TypeError)"
| "to_string pf (JFunction name arity) = Inr (''function '' @ name @ ''() { [native code] }'')"
| "element_strings pf [] = Inr []"
| "element_strings pf (x # xs) =
     (case (case x of JUndefined \<Rightarrow> Inr [] | JNull \<Rightarrow> Inr [] | _ \<Rightarrow> to_string pf x) of
        Inl e \<Rightarrow> Inl e
      | Inr s \<Rightarrow> (case element_strings pf xs of Inl e \<Rightarrow> Inl e | Inr ss \<Rightarrow> Inr (s # ss)))"

text \<open>\<^verbatim>\<open>Array.prototype.join(sep)\<close>.\<close>

definition array_join :: "platform \<Rightarrow> string \<Rightarrow> jsval list \<Rightarrow> error + string" where
  "array_join pf sep xs =
     (case element_strings pf xs of Inl e \<Rightarrow> Inl e | Inr ss \<Rightarrow> Inr (join_strings sep ss))"

text \<open>
  \<^verbatim>\<open>v.toLocaleString()\<close> for a value \<open>v\<close>.  Numbers use the locale, strings return
  themselves, booleans and functions inherit \<^verbatim>\<open>Object.prototype.toLocaleString\<close>, which
  calls \<^verbatim>\<open>toString\<close>; an array joins the \<^verbatim>\<open>toLocaleString()\<close> of its elements.  On an
  object the call raises when the object has an own (data) property \<^verbatim>\<open>toLocaleString\<close>
  or, through the inherited method, an own property \<^verbatim>\<open>toString\<close>.  On \<^verbatim>\<open>undefined\<close>
  and \<^verbatim>\<open>null\<close> the property read itself raises.
\<close>

fun locale_string :: "platform \<Rightarrow> jsval \<Rightarrow> error + string"
  and locale_elements :: "platform \<Rightarrow> jsval list \<Rightarrow> error + string list" where
  "locale_string pf JUndefined = Inl TypeError"
| "locale_string pf JNull = Inl TypeError"
| "locale_string pf (JBool b) = Inr (if b then ''true'' else ''false'')"
| "locale_string pf (JNum n) = Inr (numberToLocaleString pf n)"
| "locale_string pf (JStr s) = Inr s"
| "locale_string pf (JArr xs) =
     (case locale_elements pf xs of
        Inl e \<Rightarrow> Inl e
      | Inr ss \<Rightarrow> Inr (join_strings (listSeparator pf) ss))"
| "locale_string pf (JObj p) =
     (if map_of p ''toLocaleString'' = None \<and> map_of p ''toString'' = None
      then Inr ''[object Object]'' else Inl TypeError)"
| "locale_string pf (JFunction name arity) = Inr (''function '' @ name @ ''() { [native code] }'')"
| "locale_elements pf [] = Inr []"
| "locale_elements pf (x # xs) =
     (case (case x of JUndefined \<Rightarrow> Inr [] | JNull \<Rightarrow> Inr [] | _ \<Rightarrow> locale_string pf x) of
        Inl e \<Rightarrow> Inl e
      | Inr s \<Rightarrow> (case locale_elements pf xs of Inl e \<Rightarrow> Inl e | Inr ss \<Rightarrow> Inr (s # ss)))"

subsection \<open>Truthiness, \<^verbatim>\<open>||\<close>, \<^verbatim>\<open>&&\<close>, \<^verbatim>\<open>===\<close>\<close>

fun truthy :: "jsval \<Rightarrow> bool" where
  "truthy JUndefined = False"
| "truthy JNull = False"
| "truthy (JBool b) = b"
| "truthy (JNum n) = (n \<noteq> 0)"
| "truthy (JStr s) = (s \<noteq> [])"
| "truthy (JArr xs) = True"
| "truthy (JObj p) = True"
| "truthy (JFunction name arity) = True"

text \<open>\<^verbatim>\<open>a || b\<close> and \<^verbatim>\<open>a && b\<close> return one of their operands, not a boolean.\<close>

definition js_or :: "jsval \<Rightarrow> jsval \<Rightarrow> jsval" where
  "js_or a b = (if truthy a then a else b)"

definition js_and :: "jsval \<Rightarrow> jsval \<Rightarrow> jsval" where
  "js_and a b = (if truthy a then b else a)"

text \<open>
  Strict equality compares primitives by value and arrays and objects by identity.
  In the by-value model two occurrences of an array or object are two objects, as they
  are in data read from JSON, so they are never strictly equal.  The same comparison
  (\<^verbatim>\<open>SameValueZero\<close>) is what \<^verbatim>\<open>Array.prototype.includes\<close> uses.
\<close>

fun is_reference :: "jsval \<Rightarrow> bool" where
  "is_reference (JArr xs) = True"
| "is_reference (JObj p) = True"
| "is_reference v = False"

definition strict_eq :: "jsval \<Rightarrow> jsval \<Rightarrow> bool" where
  "strict_eq a b = (\<not> is_reference a \<and> a = b)"

definition array_includes :: "jsval list \<Rightarrow> jsval \<Rightarrow> bool" where
  "array_includes xs v = list_ex (\<lambda>x. strict_eq x v) xs"

subsection \<open>Property reads\<close>

text \<open>
  A property read on a plain object (an object literal of the source, or an object of
  the input) takes the object's own property and otherwise walks to
  \<^verbatim>\<open>Object.prototype\<close>, whose properties are all truthy: eleven built-in functions
  and the accessor \<^verbatim>\<open>__proto__\<close>, which yields \<^verbatim>\<open>Object.prototype\<close> itself (an object
  without enumerable properties, written \<open>JObj []\<close>).
\<close>

definition Object_prototype :: props where
  "Object_prototype =
     [(''constructor'', JFunction ''Object'' 1),
      (''__defineGetter__'', JFunction ''__defineGetter__'' 2),
      (''__defineSetter__'', JFunction ''__defineSetter__'' 2),
      (''hasOwnProperty'', JFunction ''hasOwnProperty'' 1),
      (''__lookupGetter__'', JFunction ''__lookupGetter__'' 1),
      (''__lookupSetter__'', JFunction ''__lookupSetter__'' 1),
      (''isPrototypeOf'', JFunction ''isPrototypeOf'' 1),
      (''propertyIsEnumerable'', JFunction ''propertyIsEnumerable'' 1),
      (''toString'', JFunction ''toString'' 0),
      (''valueOf'', JFunction ''valueOf'' 0),
      (''__proto__'', JObj []),
      (''toLocaleString'', JFunction ''toLocaleString'' 0)]"

definition js_get :: "props \<Rightarrow> string \<Rightarrow> jsval" where
  "js_get obj key =
     (case map_of obj key of
        Some v \<Rightarrow> v
      | None \<Rightarrow> (case map_of Object_prototype key of Some v \<Rightarrow> v | None \<Rightarrow> JUndefined))"

text \<open>
  \<^verbatim>\<open>table[key]\<close>: the key is converted to a string first, which can raise.
\<close>

definition table_lookup :: "platform \<Rightarrow> props \<Rightarrow> jsval \<Rightarrow> error + jsval" where
  "table_lookup pf table key = and_then (to_string pf key) (\<lambda>name. Inr (js_get table name))"

text \<open>\<^verbatim>\<open>v?.label\<close>: only an object can carry the property.\<close>

fun optional_label :: "jsval \<Rightarrow> jsval" where
  "optional_label (JObj p) = js_get p ''label''"
| "optional_label v = JUndefined"

text \<open>
  \<^verbatim>\<open>v > 0\<close> for a value \<open>v\<close>: an array, object or function is converted to a string
  first (which can raise), and a string to a number.
\<close>

fun gt_zero :: "platform \<Rightarrow> jsval \<Rightarrow> error + bool" where
  "gt_zero pf JUndefined = Inr False"
| "gt_zero pf JNull = Inr False"
| "gt_zero pf (JBool b) = Inr b"
| "gt_zero pf (JNum n) = Inr (0 < n)"
| "gt_zero pf (JStr s) = Inr (stringPositive pf s)"
| "gt_zero pf v = and_then (to_string pf v) (\<lambda>s. Inr (stringPositive pf s))"

text \<open>
  \<^verbatim>\<open>v.length === 0\<close> and \<^verbatim>\<open>v.length > 0\<close>.  The exporter reads \<^verbatim>\<open>.length\<close> only
  behind a truthiness test of \<open>v\<close>, so the read never meets \<^verbatim>\<open>undefined\<close> or
  \<^verbatim>\<open>null\<close> (where it would raise); numbers and booleans have no such property.
\<close>

fun length_is_zero :: "jsval \<Rightarrow> bool" where
  "length_is_zero (JArr xs) = (xs = [])"
| "length_is_zero (JStr s) = (s = [])"
| "length_is_zero (JObj p) = strict_eq (js_get p ''length'') (JNum 0)"
| "length_is_zero (JFunction name arity) = (arity = 0)"
| "length_is_zero v = False"

fun length_positive :: "platform \<Rightarrow> jsval \<Rightarrow> error + bool" where
  "length_positive pf (JArr xs) = Inr (xs \<noteq> [])"
| "length_positive pf (JStr s) = Inr (s \<noteq> [])"
| "length_positive pf (JObj p) = gt_zero pf (js_get p ''length'')"
| "length_positive pf (JFunction name arity) = Inr (0 < arity)"
| "length_positive pf v = Inr False"

text \<open>
  Method calls on a value of the input.  \<^verbatim>\<open>includes\<close> exists on arrays (membership)
  and on strings (substring); \<^verbatim>\<open>join\<close> exists on arrays only.  Calling a method that
  the receiver lacks raises \<^verbatim>\<open>TypeError\<close>.  The exporter passes string literals to
  \<^verbatim>\<open>includes\<close>.
\<close>

fun is_substring :: "string \<Rightarrow> string \<Rightarrow> bool" where
  "is_substring pat [] = (pat = [])"
| "is_substring pat (c # cs) = (take (length pat) (c # cs) = pat \<or> is_substring pat cs)"

fun method_includes :: "jsval \<Rightarrow> string \<Rightarrow> error + bool" where
  "method_includes (JArr xs) pat = Inr (array_includes xs (JStr pat))"
| "method_includes (JStr s) pat = Inr (is_substring pat s)"
| "method_includes r pat = Inl TypeError"

fun method_join :: "platform \<Rightarrow> jsval \<Rightarrow> string \<Rightarrow> error + string" where
  "method_join pf (JArr xs) sep = array_join pf sep xs"
| "method_join pf r sep = Inl TypeError"

subsection \<open>The store and the clock\<close>

text \<open>
  \<^verbatim>\<open>sanitizeAnswers\<close> deletes properties, so the object it works on and the answers
  object it is given are kept in a store: \<open>heap\<close> is the list of allocated objects and
  a reference is an index into it.  \<^verbatim>\<open>Date.now()\<close> and \<^verbatim>\<open>Math.random()\<close> are reads
  of the outside world: the \<open>n\<close>-th read of the clock returns \<open>time_source n\<close>, and
  the \<open>n\<close>-th random suffix (\<^verbatim>\<open>Math.random().toString(36).substr(2, 9)\<close>) is
  \<open>random_source n\<close>.
\<close>

record world =
  heap :: "props list"
  time_source :: "nat \<Rightarrow> int"
  clock_reads :: nat
  random_source :: "nat \<Rightarrow> string"
  random_reads :: nat

definition Date_now :: "world \<Rightarrow> int \<times> world" where
  "Date_now w = (time_source w (clock_reads w), w\<lparr>clock_reads := Suc (clock_reads w)\<rparr>)"

definition random_suffix :: "world \<Rightarrow> string \<times> world" where
  "random_suffix w =
     (random_source w (random_reads w), w\<lparr>random_reads := Suc (random_reads w)\<rparr>)"

text \<open>\<^verbatim>\<open>{ ...obj }\<close>: a new object with the own enumerable properties of \<open>obj\<close>.\<close>

definition spread_copy :: "nat \<Rightarrow> world \<Rightarrow> nat \<times> world" where
  "spread_copy obj w = (length (heap w), w\<lparr>heap := heap w @ [heap w ! obj]\<rparr>)"

text \<open>\<^verbatim>\<open>delete obj.key\<close>.\<close>

definition delete_property :: "nat \<Rightarrow> string \<Rightarrow> world \<Rightarrow> world" where
  "delete_property obj key w =
     w\<lparr>heap := (heap w)[obj := filter (\<lambda>kv. fst kv \<noteq> key) (heap w ! obj)]\<rparr>"

text \<open>
  A method that reads or writes the world and can raise maps the world to its
  outcome (\<open>Inl\<close> the exception, \<open>Inr\<close> the value returned) and the world it leaves:
  what was written before an exception stays written.  \<open>run_then\<close> sequences two
  steps, \<open>pure_step\<close> is a step that leaves the world alone, \<open>total\<close> a step that
  cannot raise, and \<open>properties_of\<close> reads the properties of the object behind a
  reference.
\<close>

definition run_then ::
    "(world \<Rightarrow> (error + 'a) \<times> world) \<Rightarrow> ('a \<Rightarrow> world \<Rightarrow> (error + 'b) \<times> world)
     \<Rightarrow> world \<Rightarrow> (error + 'b) \<times> world" where
  "run_then m f w =
     (case m w of (Inl e, w1) \<Rightarrow> (Inl e, w1) | (Inr x, w1) \<Rightarrow> f x w1)"

definition pure_step :: "error + 'a \<Rightarrow> world \<Rightarrow> (error + 'a) \<times> world" where
  "pure_step r w = (r, w)"

definition total :: "(world \<Rightarrow> 'a \<times> world) \<Rightarrow> world \<Rightarrow> (error + 'a) \<times> world" where
  "total m w = (case m w of (x, w1) \<Rightarrow> (Inr x, w1))"

definition properties_of :: "nat \<Rightarrow> world \<Rightarrow> (error + props) \<times> world" where
  "properties_of obj w = (Inr (heap w ! obj), w)"

text \<open>
  \<^verbatim>\<open>array.map((x, index) => f(x, index))\<close>: an exception raised by \<open>f\<close> ends the loop.
\<close>

fun map_indexed ::
    "('a \<Rightarrow> nat \<Rightarrow> world \<Rightarrow> (error + 'b) \<times> world) \<Rightarrow> 'a list \<Rightarrow> nat
     \<Rightarrow> world \<Rightarrow> (error + 'b list) \<times> world" where
  "map_indexed f [] i w = (Inr [], w)"
| "map_indexed f (x # xs) i w =
     (case f x i w of
        (Inl e, w1) \<Rightarrow> (Inl e, w1)
      | (Inr y, w1) \<Rightarrow>
          (case map_indexed f xs (Suc i) w1 of
             (Inl e, w2) \<Rightarrow> (Inl e, w2)
           | (Inr ys, w2) \<Rightarrow> (Inr (y # ys), w2)))"

section \<open>The exporter\<close>

subsection \<open>Input\<close>

text \<open>
  \<^verbatim>\<open>results\<close> is an object whose \<^verbatim>\<open>violations\<close> and \<^verbatim>\<open>recommendations\<close> are arrays
  of objects (the exporter calls \<^verbatim>\<open>filter\<close> and \<^verbatim>\<open>map\<close> on them and reads properties
  of their elements); the other properties are arbitrary values.  A violation, a
  recommendation and the answers are objects with arbitrary properties.
\<close>

record results =
  score :: jsval
  riskLevel :: jsval
  violations :: "props list"
  totalFines :: jsval
  recommendations :: "props list"
  complianceMatrix :: jsval

subsection \<open>The constructor\<close>

text \<open>
  The constructor sets \<^verbatim>\<open>this.version\<close> and \<^verbatim>\<open>this.product\<close>; no method assigns to
  them.
\<close>

definition this_version :: string where
  "this_version = ''1.6.0''"

definition this_product :: props where
  "this_product =
     [(''name'', JStr ''Tikun13 Compliance Checker''),
      (''vendor_name'', JStr ''Amendment 13 Assessment Tool''),
      (''version'', JStr ''1.0.0'')]"

subsection \<open>Hebrew literals of the source, as UTF-8 bytes\<close>

definition risk_label_critical :: string where
  "risk_label_critical =
    [CHR 0xD7, CHR 0xA7, CHR 0xD7, CHR 0xA8, CHR 0xD7, CHR 0x99, CHR 0xD7,
     CHR 0x98, CHR 0xD7, CHR 0x99]"

definition risk_label_very_high :: string where
  "risk_label_very_high =
    [CHR 0xD7, CHR 0x92, CHR 0xD7, CHR 0x91, CHR 0xD7, CHR 0x95, CHR 0xD7,
     CHR 0x94, CHR 0x20, CHR 0xD7, CHR 0x9E, CHR 0xD7, CHR 0x90, CHR 0xD7,
     CHR 0x95, CHR 0xD7, CHR 0x93]"

definition risk_label_high :: string where
  "risk_label_high =
    [CHR 0xD7, CHR 0x92, CHR 0xD7, CHR 0x91, CHR 0xD7, CHR 0x95, CHR 0xD7,
     CHR 0x94]"

definition risk_label_medium :: string where
  "risk_label_medium =
    [CHR 0xD7, CHR 0x91, CHR 0xD7, CHR 0x99, CHR 0xD7, CHR 0xA0, CHR 0xD7,
     CHR 0x95, CHR 0xD7, CHR 0xA0, CHR 0xD7, CHR 0x99]"

definition risk_label_low :: string where
  "risk_label_low =
    [CHR 0xD7, CHR 0xA0, CHR 0xD7, CHR 0x9E, CHR 0xD7, CHR 0x95, CHR 0xD7,
     CHR 0x9A]"

definition risk_label_minimal :: string where
  "risk_label_minimal =
    [CHR 0xD7, CHR 0x9E, CHR 0xD7, CHR 0x99, CHR 0xD7, CHR 0xA0, CHR 0xD7,
     CHR 0x99, CHR 0xD7, CHR 0x9E, CHR 0xD7, CHR 0x9C, CHR 0xD7, CHR 0x99]"

definition text_law_section :: string where
  "text_law_section =
    [CHR 0x2E, CHR 0x20, CHR 0xD7, CHR 0xA1, CHR 0xD7, CHR 0xA2, CHR 0xD7,
     CHR 0x99, CHR 0xD7, CHR 0xA3, CHR 0x20, CHR 0xD7, CHR 0x97, CHR 0xD7,
     CHR 0x95, CHR 0xD7, CHR 0xA7, CHR 0x3A, CHR 0x20]"

definition text_general :: string where
  "text_general =
    [CHR 0xD7, CHR 0x9B, CHR 0xD7, CHR 0x9C, CHR 0xD7, CHR 0x9C, CHR 0xD7,
     CHR 0x99]"

definition text_category :: string where
  "text_category =
    [CHR 0x2E, CHR 0x20, CHR 0xD7, CHR 0xA7, CHR 0xD7, CHR 0x98, CHR 0xD7,
     CHR 0x92, CHR 0xD7, CHR 0x95, CHR 0xD7, CHR 0xA8, CHR 0xD7, CHR 0x99,
     CHR 0xD7, CHR 0x94, CHR 0x3A, CHR 0x20]"

definition text_potential_fine :: string where
  "text_potential_fine =
    [CHR 0x2E, CHR 0x20, CHR 0xD7, CHR 0xA7, CHR 0xD7, CHR 0xA0, CHR 0xD7,
     CHR 0xA1, CHR 0x20, CHR 0xD7, CHR 0xA4, CHR 0xD7, CHR 0x95, CHR 0xD7,
     CHR 0x98, CHR 0xD7, CHR 0xA0, CHR 0xD7, CHR 0xA6, CHR 0xD7, CHR 0x99,
     CHR 0xD7, CHR 0x90, CHR 0xD7, CHR 0x9C, CHR 0xD7, CHR 0x99, CHR 0x3A,
     CHR 0x20, CHR 0xE2, CHR 0x82, CHR 0xAA]"

definition text_fix_violation :: string where
  "text_fix_violation =
    [CHR 0xD7, CHR 0x99, CHR 0xD7, CHR 0xA9, CHR 0x20, CHR 0xD7, CHR 0x9C,
     CHR 0xD7, CHR 0xAA, CHR 0xD7, CHR 0xA7, CHR 0xD7, CHR 0x9F, CHR 0x20,
     CHR 0xD7, CHR 0x90, CHR 0xD7, CHR 0xAA, CHR 0x20, CHR 0xD7, CHR 0x94,
     CHR 0xD7, CHR 0x94, CHR 0xD7, CHR 0xA4, CHR 0xD7, CHR 0xA8, CHR 0xD7,
     CHR 0x94, CHR 0x20, CHR 0xD7, CHR 0x91, CHR 0xD7, CHR 0x94, CHR 0xD7,
     CHR 0xAA, CHR 0xD7, CHR 0x90, CHR 0xD7, CHR 0x9D, CHR 0x20, CHR 0xD7,
     CHR 0x9C, CHR 0xD7, CHR 0x93, CHR 0xD7, CHR 0xA8, CHR 0xD7, CHR 0x99,
     CHR 0xD7, CHR 0xA9, CHR 0xD7, CHR 0x95, CHR 0xD7, CHR 0xAA, CHR 0x20]"

definition text_amendment_13 :: string where
  "text_amendment_13 =
    [CHR 0xD7, CHR 0xAA, CHR 0xD7, CHR 0x99, CHR 0xD7, CHR 0xA7, CHR 0xD7,
     CHR 0x95, CHR 0xD7, CHR 0x9F, CHR 0x20, CHR 0x31, CHR 0x33]"

definition org_public :: string where
  "org_public =
    [CHR 0xD7, CHR 0x92, CHR 0xD7, CHR 0x95, CHR 0xD7, CHR 0xA3, CHR 0x20,
     CHR 0xD7, CHR 0xA6, CHR 0xD7, CHR 0x99, CHR 0xD7, CHR 0x91, CHR 0xD7,
     CHR 0x95, CHR 0xD7, CHR 0xA8, CHR 0xD7, CHR 0x99]"

definition org_private :: string where
  "org_private =
    [CHR 0xD7, CHR 0x97, CHR 0xD7, CHR 0x91, CHR 0xD7, CHR 0xA8, CHR 0xD7,
     CHR 0x94, CHR 0x20, CHR 0xD7, CHR 0xA4, CHR 0xD7, CHR 0xA8, CHR 0xD7,
     CHR 0x98, CHR 0xD7, CHR 0x99, CHR 0xD7, CHR 0xAA]"

definition org_databroker :: string where
  "org_databroker =
    [CHR 0xD7, CHR 0xA1, CHR 0xD7, CHR 0x95, CHR 0xD7, CHR 0x97, CHR 0xD7,
     CHR 0xA8, CHR 0x20, CHR 0xD7, CHR 0xA0, CHR 0xD7, CHR 0xAA, CHR 0xD7,
     CHR 0x95, CHR 0xD7, CHR 0xA0, CHR 0xD7, CHR 0x99, CHR 0xD7, CHR 0x9D]"

definition org_security :: string where
  "org_security =
    [CHR 0xD7, CHR 0x92, CHR 0xD7, CHR 0x95, CHR 0xD7, CHR 0xA3, CHR 0x20,
     CHR 0xD7, CHR 0x91, CHR 0xD7, CHR 0x99, CHR 0xD7, CHR 0x98, CHR 0xD7,
     CHR 0x97, CHR 0xD7, CHR 0x95, CHR 0xD7, CHR 0xA0, CHR 0xD7, CHR 0x99]"

definition org_financial :: string where
  "org_financial =
    [CHR 0xD7, CHR 0x9E, CHR 0xD7, CHR 0x95, CHR 0xD7, CHR 0xA1, CHR 0xD7,
     CHR 0x93, CHR 0x20, CHR 0xD7, CHR 0xA4, CHR 0xD7, CHR 0x99, CHR 0xD7,
     CHR 0xA0, CHR 0xD7, CHR 0xA0, CHR 0xD7, CHR 0xA1, CHR 0xD7, CHR 0x99]"

definition org_healthcare :: string where
  "org_healthcare =
    [CHR 0xD7, CHR 0x9E, CHR 0xD7, CHR 0x95, CHR 0xD7, CHR 0xA1, CHR 0xD7,
     CHR 0x93, CHR 0x20, CHR 0xD7, CHR 0xA8, CHR 0xD7, CHR 0xA4, CHR 0xD7,
     CHR 0x95, CHR 0xD7, CHR 0x90, CHR 0xD7, CHR 0x99]"

definition org_default :: string where
  "org_default =
    [CHR 0xD7, CHR 0x90, CHR 0xD7, CHR 0xA8, CHR 0xD7, CHR 0x92, CHR 0xD7,
     CHR 0x95, CHR 0xD7, CHR 0x9F]"

definition text_sensitive_info :: string where
  "text_sensitive_info =
    [CHR 0x2E, CHR 0x20, CHR 0xD7, CHR 0x9E, CHR 0xD7, CHR 0x99, CHR 0xD7,
     CHR 0x93, CHR 0xD7, CHR 0xA2, CHR 0x20, CHR 0xD7, CHR 0xA8, CHR 0xD7,
     CHR 0x92, CHR 0xD7, CHR 0x99, CHR 0xD7, CHR 0xA9, CHR 0x3A, CHR 0x20]"

definition text_subjects_scale :: string where
  "text_subjects_scale =
    [CHR 0x2E, CHR 0x20, CHR 0xD7, CHR 0x94, CHR 0xD7, CHR 0x99, CHR 0xD7,
     CHR 0xA7, CHR 0xD7, CHR 0xA3, CHR 0x20, CHR 0xD7, CHR 0xA0, CHR 0xD7,
     CHR 0x95, CHR 0xD7, CHR 0xA9, CHR 0xD7, CHR 0x90, CHR 0xD7, CHR 0x99,
     CHR 0x20, CHR 0xD7, CHR 0x9E, CHR 0xD7, CHR 0x99, CHR 0xD7, CHR 0x93,
     CHR 0xD7, CHR 0xA2, CHR 0x3A, CHR 0x20]"
subsection \<open>Mapping functions\<close>

text \<open>
  Each table is an object literal read with a computed key, \<^verbatim>\<open>mapping[key] || default\<close>.
\<close>

definition mapSeverity :: "platform \<Rightarrow> jsval \<Rightarrow> error + jsval" where
  "mapSeverity pf severity =
     (let mapping =
        [(''critical'', JNum 5),
         (''high'', JNum 4),
         (''medium'', JNum 3),
         (''low'', JNum 2),
         (''info'', JNum 1)]
      in and_then (table_lookup pf mapping severity) (\<lambda>found. Inr (js_or found (JNum 0))))"

definition mapImpact :: "platform \<Rightarrow> jsval \<Rightarrow> error + jsval" where
  "mapImpact pf severity =
     (let mapping =
        [(''critical'', JNum 4),
         (''high'', JNum 3),
         (''medium'', JNum 2),
         (''low'', JNum 1),
         (''info'', JNum 0)]
      in and_then (table_lookup pf mapping severity) (\<lambda>found. Inr (js_or found (JNum 0))))"

definition mapRiskLevel :: "platform \<Rightarrow> jsval \<Rightarrow> error + jsval" where
  "mapRiskLevel pf riskLabel =
     (let mapping =
        [(risk_label_critical, JNum 4),
         (risk_label_very_high, JNum 4),
         (risk_label_high, JNum 3),
         (risk_label_medium, JNum 2),
         (risk_label_low, JNum 1),
         (risk_label_minimal, JNum 0)]
      in and_then (table_lookup pf mapping riskLabel) (\<lambda>found. Inr (js_or found (JNum 0))))"

subsection \<open>Helper functions\<close>

text \<open>\<^verbatim>\<open>violation.fine?.toLocaleString() || '0'\<close>\<close>

definition fine_text :: "platform \<Rightarrow> jsval \<Rightarrow> error + jsval" where
  "fine_text pf fine =
     (case fine of
        JUndefined \<Rightarrow> Inr (js_or JUndefined (JStr ''0''))
      | JNull \<Rightarrow> Inr (js_or JUndefined (JStr ''0''))
      | _ \<Rightarrow> and_then (locale_string pf fine) (\<lambda>s. Inr (js_or (JStr s) (JStr ''0''))))"

text \<open>
  A template literal converts its substitutions from left to right.
\<close>

definition getDetailedDescription :: "platform \<Rightarrow> props \<Rightarrow> error + string" where
  "getDetailedDescription pf violation =
     and_then (to_string pf (js_get violation ''description'')) (\<lambda>description.
     and_then (to_string pf (js_or (js_get violation ''law_reference'') (JStr text_general))) (\<lambda>law.
     and_then (to_string pf (js_get violation ''category'')) (\<lambda>category.
     and_then (fine_text pf (js_get violation ''fine'')) (\<lambda>fine.
     and_then (to_string pf fine) (\<lambda>fine_string.
       Inr (description @ text_law_section @ law @ text_category @ category
            @ text_potential_fine @ fine_string))))))"

definition getRemediationText :: "platform \<Rightarrow> props \<Rightarrow> props list \<Rightarrow> error + string" where
  "getRemediationText pf violation recs =
     (let relevantRecs =
        filter (\<lambda>r. strict_eq (js_get r ''category'') (js_get violation ''category'')) recs
      in if 0 < length relevantRecs
         then array_join pf ''; '' (map (\<lambda>r. js_get r ''action'') relevantRecs)
         else and_then
                (to_string pf (js_or (js_get violation ''law_reference'') (JStr text_amendment_13)))
                (\<lambda>law. Inr (text_fix_violation @ law)))"

definition getKnowledgeBaseArticles :: "platform \<Rightarrow> jsval \<Rightarrow> error + jsval" where
  "getKnowledgeBaseArticles pf category =
     (let articles =
        [(''dpo'', JArr [JStr ''https://www.gov.il/he/departments/guides/data_protection_officer'']),
         (''registration'', JArr [JStr ''https://www.gov.il/he/service/database_registration'']),
         (''security'', JArr [JStr ''https://www.gov.il/he/departments/guides/data_security_regulations'']),
         (''consent'', JArr [JStr ''https://www.gov.il/he/departments/guides/consent_management'']),
         (''access_rights'', JArr [JStr ''https://www.gov.il/he/departments/guides/data_subject_rights'']),
         (''privacy_notice'', JArr [JStr ''https://www.gov.il/he/departments/guides/privacy_policy_requirements''])]
      in and_then (table_lookup pf articles category) (\<lambda>found.
           if truthy found then Inr found
           else and_then (to_string pf category)
                  (\<lambda>name. Inr (JArr [JStr (''tikun13-'' @ name @ ''-guide'')]))))"

definition getOrganizationType :: "platform \<Rightarrow> jsval \<Rightarrow> error + jsval" where
  "getOrganizationType pf orgType =
     (let types =
        [(''public'', JStr org_public),
         (''private'', JStr org_private),
         (''databroker'', JStr org_databroker),
         (''security'', JStr org_security),
         (''financial'', JStr org_financial),
         (''healthcare'', JStr org_healthcare)]
      in and_then (table_lookup pf types orgType) (\<lambda>found. Inr (js_or found (JStr org_default))))"

definition getDataScale :: "platform \<Rightarrow> jsval \<Rightarrow> error + jsval" where
  "getDataScale pf dataSubjectsCount =
     (let scales =
        [(''less_10k'', JStr ''Small (<10K)''),
         (''10k_100k'', JStr ''Medium (10K-100K)''),
         (''100k_500k'', JStr ''Large (100K-500K)''),
         (''500k_1m'', JStr ''Very Large (500K-1M)''),
         (''over_1m'', JStr ''Enterprise (>1M)'')]
      in and_then (table_lookup pf scales dataSubjectsCount)
           (\<lambda>found. Inr (js_or found (JStr ''Unknown''))))"

definition getDataSecurityCategory :: "platform \<Rightarrow> jsval \<Rightarrow> error + jsval" where
  "getDataSecurityCategory pf violationCategory =
     (let categories =
        [(''consent'', JStr ''Consent Management''),
         (''data_subjects'', JStr ''Data Subject Rights''),
         (''access_rights'', JStr ''Access Control''),
         (''data_minimization'', JStr ''Data Minimization''),
         (''privacy_notice'', JStr ''Privacy Notice''),
         (''third_party'', JStr ''Third Party Sharing'')]
      in and_then (table_lookup pf categories violationCategory)
           (\<lambda>found. Inr (js_or found (JStr ''Privacy Violation''))))"

definition getConfidentialityLevel :: "jsval \<Rightarrow> error + jsval" where
  "getConfidentialityLevel sensitiveData =
     (if \<not> truthy sensitiveData \<or> length_is_zero sensitiveData then Inr (JNum 1)
      else
        (case method_includes sensitiveData ''medical'' of
           Inl e \<Rightarrow> Inl e
         | Inr medical \<Rightarrow>
        (case (if medical then Inr True
               else method_includes sensitiveData ''biometric'') of
           Inl e \<Rightarrow> Inl e
         | Inr secret \<Rightarrow>
        if secret then Inr (JNum 4)
        else
        (case method_includes sensitiveData ''financial'' of
           Inl e \<Rightarrow> Inl e
         | Inr financial \<Rightarrow>
        (case (if financial then Inr True
               else method_includes sensitiveData ''criminal'') of
           Inl e \<Rightarrow> Inl e
         | Inr confidential \<Rightarrow>
        if confidential then Inr (JNum 3)
        else Inr (JNum 2))))))"

text \<open>
  \<^verbatim>\<open>a && a.length > 0\<close>: the value of \<open>a\<close> when it is falsy, the boolean of the
  comparison otherwise.
\<close>

definition and_length_positive :: "platform \<Rightarrow> jsval \<Rightarrow> error + jsval" where
  "and_length_positive pf a =
     (if truthy a then and_then (length_positive pf a) (\<lambda>positive. Inr (JBool positive))
      else Inr a)"

text \<open>
  \<^verbatim>\<open>desc += `...`\<close> evaluates the template on the right first and then converts
  \<open>desc\<close> for the concatenation.
\<close>

definition getDataViolationDescription :: "platform \<Rightarrow> props \<Rightarrow> props \<Rightarrow> error + jsval" where
  "getDataViolationDescription pf violation answers =
     (let desc = js_get violation ''description'' in
      and_then (and_length_positive pf (js_get answers ''sensitive_data'')) (\<lambda>has_sensitive.
      and_then
        (if truthy has_sensitive
         then and_then (method_join pf (js_get answers ''sensitive_data'') '', '') (\<lambda>joined.
              and_then (to_string pf desc) (\<lambda>text.
                Inr (JStr (text @ text_sensitive_info @ joined))))
         else Inr desc) (\<lambda>desc1.
      if truthy (js_get answers ''data_subjects_count'')
      then and_then (getDataScale pf (js_get answers ''data_subjects_count'')) (\<lambda>scale.
           and_then (to_string pf scale) (\<lambda>scale_text.
           and_then (to_string pf desc1) (\<lambda>text.
             Inr (JStr (text @ text_subjects_scale @ scale_text)))))
      else Inr desc1)))"

text \<open>
  \<^verbatim>\<open>resources\<close> is a fresh local array; each \<^verbatim>\<open>push\<close> appends to it.
\<close>

definition getAffectedResources :: "props \<Rightarrow> props \<Rightarrow> jsval" where
  "getAffectedResources violation answers =
     (let resources = [];
          resources =
            (if strict_eq (js_get violation ''category'') (JStr ''data_subjects'')
                \<or> strict_eq (js_get violation ''category'') (JStr ''consent'')
             then resources @
                  [JObj [(''type'', JStr ''Database''),
                         (''name'', JStr ''Personal Data Repository''),
                         (''uid'', JStr ''pdr-001''),
                         (''criticality'',
                            if truthy (js_get answers ''sensitive_data'') then JNum 4 else JNum 2)]]
             else resources);
          resources =
            (if strict_eq (js_get violation ''category'') (JStr ''third_party'')
             then resources @
                  [JObj [(''type'', JStr ''Third Party Integration''),
                         (''name'', JStr ''External Data Processors''),
                         (''uid'', JStr ''ext-proc-001''),
                         (''criticality'', JNum 3)]]
             else resources)
      in JArr resources)"

text \<open>
  \<^verbatim>\<open>a || b || (s && s.length > 0 && c)\<close>: the right operand of each operator is
  evaluated only when the left one does not decide.
\<close>

definition requiresDPO :: "platform \<Rightarrow> props \<Rightarrow> error + jsval" where
  "requiresDPO pf answers =
     (let org =
        js_or (JBool (strict_eq (js_get answers ''org_type'') (JStr ''public'')))
              (JBool (strict_eq (js_get answers ''org_type'') (JStr ''databroker'')))
      in if truthy org then Inr org
         else and_then (and_length_positive pf (js_get answers ''sensitive_data'')) (\<lambda>sensitive.
                Inr (js_and sensitive
                       (JBool (array_includes
                                 [JStr ''100k_500k'', JStr ''500k_1m'', JStr ''over_1m'']
                                 (js_get answers ''data_subjects_count''))))))"

text \<open>
  \<^verbatim>\<open>sanitizeAnswers\<close> receives a reference to the answers object, allocates the copy,
  deletes the two properties from the copy and returns the reference to the copy.
\<close>

definition sanitizeAnswers :: "nat \<Rightarrow> world \<Rightarrow> nat \<times> world" where
  "sanitizeAnswers answers w =
     (case spread_copy answers w of (sanitized, w1) \<Rightarrow>
        (sanitized,
         delete_property sanitized ''contact_details''
           (delete_property sanitized ''organization_name'' w1)))"

text \<open>
  The value of \<^verbatim>\<open>this.sanitizeAnswers(answers)\<close> where it is embedded in a finding: the
  call, then the properties of the object it returned.
\<close>

definition sanitized_answers :: "nat \<Rightarrow> world \<Rightarrow> (error + props) \<times> world" where
  "sanitized_answers answers = run_then (total (sanitizeAnswers answers)) properties_of"

definition generateUID :: "platform \<Rightarrow> world \<Rightarrow> string \<times> world" where
  "generateUID pf w =
     (case Date_now w of (now, w1) \<Rightarrow>
      case random_suffix w1 of (suffix, w2) \<Rightarrow>
        (''tikun13-'' @ number_text pf now @ ''-'' @ suffix, w2))"

subsection \<open>Findings\<close>

text \<open>
  \<^verbatim>\<open>createComplianceFinding\<close> reads the clock and evaluates the properties of the
  object literal from top to bottom; \<open>answers\<close> is the reference to the answers
  object.  The steps below are the evaluations that read the world or can raise, in
  the order of the source; \<^verbatim>\<open>sanitizeAnswers\<close> comes last, so a call that raises has
  allocated nothing.  The finding is a value: its \<^verbatim>\<open>assessment_answers\<close> are the
  properties of the sanitized copy, to which nothing writes after
  \<^verbatim>\<open>sanitizeAnswers\<close> has returned.
\<close>

definition createComplianceFinding ::
    "platform \<Rightarrow> props \<Rightarrow> nat \<Rightarrow> results \<Rightarrow> nat \<Rightarrow> world \<Rightarrow> (error + jsval) \<times> world" where
  "createComplianceFinding pf violation index res answers =
     run_then (total Date_now) (\<lambda>timestamp.
     run_then (pure_step (mapSeverity pf (js_get violation ''severity''))) (\<lambda>severity_id.
     run_then (pure_step (getDetailedDescription pf violation)) (\<lambda>desc.
     run_then (pure_step (mapRiskLevel pf (optional_label (riskLevel res)))) (\<lambda>risk_level_id.
     run_then (pure_step (mapImpact pf (js_get violation ''severity''))) (\<lambda>impact_id.
     run_then (pure_step (getRemediationText pf violation (recommendations res))) (\<lambda>remediation.
     run_then (pure_step (getKnowledgeBaseArticles pf (js_get violation ''category''))) (\<lambda>kb_articles.
     run_then (properties_of answers) (\<lambda>answers_now.
     run_then (pure_step (getOrganizationType pf (js_get answers_now ''org_type''))) (\<lambda>name.
     run_then (pure_step (getDataScale pf (js_get answers_now ''data_subjects_count''))) (\<lambda>ou_name.
     run_then (sanitized_answers answers) (\<lambda>sanitized.
     pure_step (Inr (JObj
          [(''activity_id'', JNum 1),
           (''category_uid'', JNum 2),
           (''class_uid'', JNum 2003),
           (''time'', JNum timestamp),
           (''severity_id'', severity_id),
           (''type_uid'', JNum 200301),
           (''compliance'', JObj
              [(''requirements'', JArr [JStr ''Israeli Privacy Protection Law - Amendment 13'']),
               (''control'', js_or (js_get violation ''law_reference'') (JStr ''General Requirement'')),
               (''standards'', JArr [JStr ''IL-PPL-Amendment-13-2025'']),
               (''status'', JStr ''Non-Compliant''),
               (''status_detail'', js_get violation ''description'')]),
           (''finding_info'', JObj
              [(''title'', js_get violation ''description''),
               (''uid'', JStr (''tikun13-'' @ number_text pf timestamp @ ''-''
                               @ number_text pf (int index))),
               (''desc'', JStr desc),
               (''types'', JArr [js_get violation ''category'']),
               (''created_time'', JNum timestamp),
               (''modified_time'', JNum timestamp),
               (''product_uid'', JStr ''tikun13-checker'')]),
           (''risk_level_id'', risk_level_id),
           (''impact_id'', impact_id),
           (''confidence_id'', JNum 3),
           (''status_id'', JNum 1),
           (''disposition_id'', JNum 99),
           (''remediation'', JObj
              [(''desc'', JStr remediation),
               (''kb_articles'', kb_articles)]),
           (''impact_score'', js_or (js_get violation ''fine'') (JNum 0)),
           (''metadata'', JObj
              [(''version'', JStr this_version),
               (''product'', JObj this_product),
               (''original_time'', JStr (toISOString pf timestamp)),
               (''processed_time'', JNum timestamp),
               (''log_name'', JStr ''Amendment13ComplianceAssessment''),
               (''log_provider'', JStr ''Tikun13Checker'')]),
           (''organization'', JObj
              [(''name'', name),
               (''ou_name'', ou_name)]),
           (''unmapped'', JObj
              [(''fine_amount_ils'', js_get violation ''fine''),
               (''violation_category'', js_get violation ''category''),
               (''sensitive_data_types'',
                  js_or (js_get answers_now ''sensitive_data'') (JArr [])),
               (''compliance_score'', score res),
               (''assessment_answers'', JObj sanitized)])])))))))))))))"

text \<open>
  \<^verbatim>\<open>createDataSecurityFinding\<close> only reads the answers, so it receives their
  properties.  Again the steps are the evaluations that can raise, in the order of
  the object literal.
\<close>

definition createDataSecurityFinding ::
    "platform \<Rightarrow> props \<Rightarrow> nat \<Rightarrow> results \<Rightarrow> props \<Rightarrow> world \<Rightarrow> (error + jsval) \<times> world" where
  "createDataSecurityFinding pf violation index res answers =
     run_then (total Date_now) (\<lambda>timestamp.
     let isSuspectedBreach =
           array_includes [JStr ''consent'', JStr ''data_subjects''] (js_get violation ''category'')
     in
     run_then (pure_step (mapSeverity pf (js_get violation ''severity''))) (\<lambda>severity_id.
     run_then (pure_step (getDataSecurityCategory pf (js_get violation ''category''))) (\<lambda>category_name.
     run_then (pure_step (getConfidentialityLevel (js_get answers ''sensitive_data''))) (\<lambda>confidentiality.
     run_then (pure_step (getDataViolationDescription pf violation answers)) (\<lambda>description.
     run_then (pure_step (mapImpact pf (js_get violation ''severity''))) (\<lambda>impact_id.
     run_then (pure_step (mapRiskLevel pf (optional_label (riskLevel res)))) (\<lambda>risk_level_id.
     pure_step (Inr (JObj
          [(''activity_id'', JNum 2),
           (''category_uid'', JNum 2),
           (''class_uid'', JNum 2006),
           (''time'', JNum timestamp),
           (''severity_id'', severity_id),
           (''type_uid'', JNum 200602),
           (''data_security'', JObj
              [(''category_name'', category_name),
               (''confidentiality_id'', confidentiality),
               (''detection_system'', JStr ''Amendment 13 Compliance Assessment''),
               (''policy'', js_or (js_get violation ''law_reference'') (JStr ''Privacy Protection Policy''))]),
           (''finding_info'', JObj
              [(''title'', js_get violation ''description''),
               (''uid'', JStr (''tikun13-data-'' @ number_text pf timestamp @ ''-''
                               @ number_text pf (int index))),
               (''desc'', description),
               (''types'', JArr [JStr ''Privacy Violation'', js_get violation ''category'']),
               (''created_time'', JNum timestamp),
               (''product_uid'', JStr ''tikun13-checker'')]),
           (''is_suspected_breach'', JBool isSuspectedBreach),
           (''impact_id'', impact_id),
           (''risk_level_id'', risk_level_id),
           (''disposition_id'', if isSuspectedBreach then JNum 2 else JNum 99),
           (''status_id'', JNum 1),
           (''resources'', getAffectedResources violation answers),
           (''metadata'', JObj
              [(''version'', JStr this_version),
               (''product'', JObj this_product),
               (''original_time'', JStr (toISOString pf timestamp)),
               (''processed_time'', JNum timestamp)]),
           (''unmapped'', JObj
              [(''data_subjects_count'', js_get answers ''data_subjects_count''),
               (''sensitive_data_types'', js_or (js_get answers ''sensitive_data'') (JArr [])),
               (''violation_details'', JObj violation)])])))))))))"

subsection \<open>Exports\<close>

definition exportComplianceFindings ::
    "platform \<Rightarrow> results \<Rightarrow> nat \<Rightarrow> world \<Rightarrow> (error + jsval) \<times> world" where
  "exportComplianceFindings pf res answers =
     run_then
       (map_indexed (\<lambda>violation index. createComplianceFinding pf violation index res answers)
          (violations res) 0)
       (\<lambda>findings.
          pure_step (Inr (JObj
            [(''version'', JStr this_version),
             (''metadata'', JObj
                [(''version'', JStr this_version),
                 (''profiles'', JArr [JStr ''compliance'', JStr ''privacy'']),
                 (''extension'', JObj
                    [(''name'', JStr ''Israeli Privacy Law Amendment 13''),
                     (''version'', JStr ''2025'')])]),
             (''findings'', JArr findings)])))"

definition dataCategories :: "jsval list" where
  "dataCategories =
     [JStr ''data_subjects'', JStr ''consent'', JStr ''access_rights'',
      JStr ''data_minimization'', JStr ''privacy_notice'', JStr ''third_party'']"

definition exportDataSecurityFindings ::
    "platform \<Rightarrow> results \<Rightarrow> props \<Rightarrow> world \<Rightarrow> (error + jsval) \<times> world" where
  "exportDataSecurityFindings pf res answers =
     (let dataViolations =
            filter (\<lambda>v. array_includes dataCategories (js_get v ''category'')) (violations res)
      in if length dataViolations = 0
         then pure_step (Inr (JObj [(''version'', JStr this_version), (''findings'', JArr [])]))
         else
           run_then
             (map_indexed
                (\<lambda>violation index. createDataSecurityFinding pf violation index res answers)
                dataViolations 0)
             (\<lambda>findings.
                pure_step (Inr (JObj
                  [(''version'', JStr this_version),
                   (''metadata'', JObj
                      [(''version'', JStr this_version),
                       (''profiles'', JArr [JStr ''data_security'', JStr ''privacy'']),
                       (''extension'', JObj
                          [(''name'', JStr ''Israeli Privacy Law Data Protection''),
                           (''version'', JStr ''2025'')])]),
                   (''findings'', JArr findings)]))))"

definition exportRecommendations ::
    "platform \<Rightarrow> props list \<Rightarrow> world \<Rightarrow> (error + jsval) \<times> world" where
  "exportRecommendations pf recs =
     run_then
       (map_indexed
          (\<lambda>rec index.
             run_then (total Date_now) (\<lambda>now.
             pure_step (Inr (JObj
                  [(''priority'', js_get rec ''priority''),
                   (''category'', js_get rec ''category''),
                   (''action'', js_get rec ''action''),
                   (''description'', js_get rec ''description''),
                   (''timeline'', js_get rec ''timeline''),
                   (''reference'', js_or (js_get rec ''reference'') (JStr ''Amendment 13 Requirements'')),
                   (''uid'', JStr (''rec-'' @ number_text pf now @ ''-''
                                   @ number_text pf (int index)))]))))
          recs 0)
       (\<lambda>mapped. pure_step (Inr (JArr mapped)))"

text \<open>
  The object literal of \<^verbatim>\<open>exportCombinedReport\<close> is evaluated top to bottom: the
  report metadata and the summary first, then the three exports, each starting in
  the world the one before it left.
\<close>

definition exportCombinedReport ::
    "platform \<Rightarrow> results \<Rightarrow> nat \<Rightarrow> world \<Rightarrow> (error + jsval) \<times> world" where
  "exportCombinedReport pf res answers =
     run_then (total Date_now) (\<lambda>timestamp.
     run_then (properties_of answers) (\<lambda>answers_now.
     run_then (pure_step (getOrganizationType pf (js_get answers_now ''org_type''))) (\<lambda>organization_type.
     run_then (pure_step (getDataScale pf (js_get answers_now ''data_subjects_count''))) (\<lambda>data_scale.
     run_then (pure_step (requiresDPO pf answers_now)) (\<lambda>requires_dpo.
     run_then (pure_step (and_length_positive pf (js_get answers_now ''sensitive_data''))) (\<lambda>has_sensitive_data.
     run_then (exportComplianceFindings pf res answers) (\<lambda>compliance_findings.
     run_then (properties_of answers) (\<lambda>answers_then.
     run_then (exportDataSecurityFindings pf res answers_then) (\<lambda>data_security_findings.
     run_then (exportRecommendations pf (recommendations res)) (\<lambda>recs.
     pure_step (Inr (JObj
          [(''version'', JStr this_version),
           (''report_metadata'', JObj
              [(''generated_at'', JStr (toISOString pf timestamp)),
               (''assessment_type'', JStr ''Amendment 13 Compliance Assessment''),
               (''organization_type'', organization_type),
               (''data_scale'', data_scale)]),
           (''summary'', JObj
              [(''compliance_score'', score res),
               (''risk_level'', js_or (optional_label (riskLevel res)) (JStr ''Unknown'')),
               (''total_violations'', JNum (int (length (violations res)))),
               (''total_fines'', totalFines res),
               (''critical_violations'',
                  JNum (int (length (filter (\<lambda>v. strict_eq (js_get v ''severity'') (JStr ''critical''))
                                       (violations res))))),
               (''high_violations'',
                  JNum (int (length (filter (\<lambda>v. strict_eq (js_get v ''severity'') (JStr ''high''))
                                       (violations res))))),
               (''requires_dpo'', requires_dpo),
               (''has_sensitive_data'', has_sensitive_data)]),
           (''compliance_findings'', compliance_findings),
           (''data_security_findings'', data_security_findings),
           (''recommendations'', recs),
           (''compliance_matrix'', complianceMatrix res)]))))))))))))"

subsection \<open>Reading the output\<close>

text \<open>
  The own property \<open>key\<close> of an output object, \<open>None\<close> when the object literal has
  no such property; \<open>at_path\<close> follows a path of own properties.
\<close>

fun own_property :: "jsval \<Rightarrow> string \<Rightarrow> jsval option" where
  "own_property (JObj p) key = map_of p key"
| "own_property v key = None"

fun at_path :: "jsval \<Rightarrow> string list \<Rightarrow> jsval option" where
  "at_path v [] = Some v"
| "at_path v (key # keys) =
     (case own_property v key of None \<Rightarrow> None | Some v1 \<Rightarrow> at_path v1 keys)"

fun findings_of :: "jsval \<Rightarrow> jsval list" where
  "findings_of doc = (case own_property doc ''findings'' of Some (JArr fs) \<Rightarrow> fs | _ \<Rightarrow> [])"

subsection \<open>A fixed clock\<close>

text \<open>
  A clock is fixed at \<open>t\<close> when every read of it returns \<open>t\<close>.  Two worlds give the
  exporter the same view when their clocks are fixed at the same instant and the two
  references to the answers are allocated and lead to objects with the same
  properties; nothing is said about the rest of the two stores, the number of clock
  reads so far, or the random sources.
\<close>

definition frozen_clock :: "int \<Rightarrow> world \<Rightarrow> bool" where
  "frozen_clock t w = (\<forall>n. time_source w n = t)"

definition same_view :: "int \<Rightarrow> nat \<Rightarrow> nat \<Rightarrow> world \<Rightarrow> world \<Rightarrow> bool" where
  "same_view t a1 a2 w1 w2 =
     (frozen_clock t w1 \<and> frozen_clock t w2
      \<and> a1 < length (heap w1) \<and> a2 < length (heap w2)
      \<and> heap w1 ! a1 = heap w2 ! a2)"

subsection \<open>Primitive property values\<close>

text \<open>
  \<open>primitive_fields keys obj\<close>: the properties \<open>keys\<close> of \<open>obj\<close> are neither arrays
  nor objects (they are strings, numbers, booleans, \<^verbatim>\<open>null\<close> or missing), so their
  conversions cannot raise.
\<close>

definition primitive_fields :: "string list \<Rightarrow> props \<Rightarrow> bool" where
  "primitive_fields keys obj = list_all (\<lambda>key. \<not> is_reference (js_get obj key)) keys"

subsection \<open>Frame conditions\<close>

text \<open>
  A method preserves a property of the world when the world it leaves has the
  property whenever the world it started in had it, whether it returns or raises.
  \<open>extends_heap w w0\<close>: every object allocated in \<open>w\<close> is in \<open>w0\<close> at the same
  reference with the same properties.
\<close>

definition preserves :: "(world \<Rightarrow> bool) \<Rightarrow> (world \<Rightarrow> 'a \<times> world) \<Rightarrow> bool" where
  "preserves I m = (\<forall>w. I w \<longrightarrow> I (snd (m w)))"

definition extends_heap :: "world \<Rightarrow> world \<Rightarrow> bool" where
  "extends_heap w w0 =
     (length (heap w) \<le> length (heap w0) \<and> take (length (heap w)) (heap w0) = heap w)"

subsection \<open>Sample input\<close>

text \<open>
  A platform, a world holding one answers object, and the results of an assessment
  with three violations; the examples below run the exporter on them.
\<close>

definition sample_platform :: platform where
  "sample_platform =
     \<lparr>toISOString = (\<lambda>t. ''T'' @ show_int t),
      numberToLocaleString = show_int,
      listSeparator = '','',
      stringPositive = (\<lambda>s. False),
      largeNumberToString = (\<lambda>n. ''1e+21'')\<rparr>"

definition sample_answers :: props where
  "sample_answers =
     [(''org_type'', JStr ''public''),
      (''organization_name'', JStr ''Example Ltd''),
      (''contact_details'', JStr ''dpo@example.org''),
      (''sensitive_data'', JArr [JStr ''medical'', JStr ''financial'']),
      (''data_subjects_count'', JStr ''over_1m'')]"

definition sample_world :: world where
  "sample_world =
     \<lparr>heap = [sample_answers],
      time_source = (\<lambda>n. 1700000000000),
      clock_reads = 0,
      random_source = (\<lambda>n. ''k3j9x0a1b''),
      random_reads = 0\<rparr>"

definition sample_results :: results where
  "sample_results =
     \<lparr>score = JNum 62,
      riskLevel = JObj [(''label'', JStr risk_label_high)],
      violations =
        [[(''description'', JStr ''No consent records''),
          (''category'', JStr ''consent''),
          (''severity'', JStr ''critical''),
          (''fine'', JNum 50000)],
         [(''description'', JStr ''No data protection officer''),
          (''category'', JStr ''dpo''),
          (''severity'', JStr ''high''),
          (''law_reference'', JStr ''17B'')],
         [(''description'', JStr ''Processor without agreement''),
          (''category'', JStr ''third_party''),
          (''severity'', JStr ''medium'')]],
      totalFines = JNum 50000,
      recommendations =
        [[(''priority'', JNum 1), (''category'', JStr ''dpo''), (''action'', JStr ''Appoint a DPO'')]],
      complianceMatrix = JNull\<rparr>"

section \<open>Properties of the exporter\<close>

subsection \<open>Auxiliary facts\<close>

declare show_nat.simps [simp del]

lemma map_of_without_two:
  "map_of (filter (\<lambda>kv. fst kv \<noteq> a \<and> fst kv \<noteq> b) xs) k =
     (if k = a \<or> k = b then None else map_of xs k)"
  by (induction xs) auto

lemma and_then_simps [simp]:
  "and_then (Inr x) f = f x"
  "and_then (Inl e) f = Inl e"
  by (simp_all add: and_then_def)

lemma run_then_eq_Inr:
  "(run_then m f w = (Inr y, w')) = (\<exists>x w1. m w = (Inr x, w1) \<and> f x w1 = (Inr y, w'))"
  by (auto simp: run_then_def split: prod.splits sum.splits)

lemma pure_step_eq [simp]:
  "(pure_step r w = (r', w')) = (r' = r \<and> w' = w)"
  by (auto simp: pure_step_def)

lemma properties_of_eq [simp]:
  "(properties_of obj w = (r, w')) = (r = Inr (heap w ! obj) \<and> w' = w)"
  by (auto simp: properties_of_def)

lemma total_Date_now_eq [simp]:
  "(total Date_now w = (r, w')) =
     (r = Inr (time_source w (clock_reads w)) \<and> w' = w\<lparr>clock_reads := Suc (clock_reads w)\<rparr>)"
  by (auto simp: total_def Date_now_def)

lemma run_then_pure_step:
  "run_then (pure_step m) f w = (case m of Inl e \<Rightarrow> (Inl e, w) | Inr x \<Rightarrow> f x w)"
  by (simp add: run_then_def pure_step_def split: sum.splits)

lemma run_then_Date_now:
  "run_then (total Date_now) f w =
     f (time_source w (clock_reads w)) (w\<lparr>clock_reads := Suc (clock_reads w)\<rparr>)"
  by (simp add: run_then_def total_def Date_now_def)

lemma run_then_properties_of:
  "run_then (properties_of obj) f w = f (heap w ! obj) w"
  by (simp add: run_then_def properties_of_def)

lemma run_then_known:
  "m w = (r, w1) \<Longrightarrow> run_then m f w = (case r of Inl e \<Rightarrow> (Inl e, w1) | Inr x \<Rightarrow> f x w1)"
  by (simp add: run_then_def split: sum.splits)

lemmas run_steps = run_then_pure_step run_then_Date_now run_then_properties_of

lemma map_indexed_nth:
  assumes step: "\<And>x i w r w1. I w \<Longrightarrow> f x i w = (r, w1) \<Longrightarrow> I w1 \<and> (\<forall>y. r = Inr y \<longrightarrow> P x i y)"
    and "I w" and "map_indexed f xs i w = (r, w')"
  shows "I w' \<and> (\<forall>ys. r = Inr ys \<longrightarrow>
           length ys = length xs \<and> (\<forall>j<length xs. P (xs ! j) (i + j) (ys ! j)))"
  using assms(2,3)
proof (induction xs arbitrary: i w r w')
  case Nil
  then show ?case by auto
next
  case (Cons x xs)
  obtain r1 w1 where f: "f x i w = (r1, w1)" by (cases "f x i w")
  from step[OF Cons.prems(1) f] have I1: "I w1" and Py: "\<forall>y. r1 = Inr y \<longrightarrow> P x i y" by auto
  show ?case
  proof (cases r1)
    case (Inl e)
    with f Cons.prems(2) have "r = Inl e" and "w' = w1" by auto
    with I1 show ?thesis by simp
  next
    case (Inr y)
    obtain r2 w2 where m: "map_indexed f xs (Suc i) w1 = (r2, w2)"
      by (cases "map_indexed f xs (Suc i) w1")
    from Cons.IH[OF I1 m] have I2: "I w2"
      and IH: "\<forall>zs. r2 = Inr zs \<longrightarrow>
              length zs = length xs \<and> (\<forall>j<length xs. P (xs ! j) (Suc i + j) (zs ! j))"
      by auto
    show ?thesis
    proof (cases r2)
      case (Inl e)
      with f Inr m Cons.prems(2) have "r = Inl e" and "w' = w2" by auto
      with I2 show ?thesis by simp
    next
      case inner: (Inr zs)
      with f Inr m Cons.prems(2) have r: "r = Inr (y # zs)" and w': "w' = w2" by auto
      from IH inner have len: "length zs = length xs"
        and all: "\<forall>j<length xs. P (xs ! j) (Suc i + j) (zs ! j)" by auto
      from Py Inr have "P x i y" by simp
      with all have "\<forall>j<length (x # xs). P ((x # xs) ! j) (i + j) ((y # zs) ! j)"
        by (auto simp: nth_Cons split: nat.splits)
      with r w' I2 len show ?thesis by simp
    qed
  qed
qed

lemma map_indexed_returns:
  assumes step: "\<And>x i w. x \<in> set xs \<Longrightarrow> I w \<Longrightarrow> \<exists>y w1. f x i w = (Inr y, w1) \<and> I w1"
    and "I w"
  shows "\<exists>ys w'. map_indexed f xs i w = (Inr ys, w') \<and> I w'"
  using assms
proof (induction xs arbitrary: i w)
  case Nil
  then show ?case by simp
next
  case (Cons x xs)
  from Cons.prems(1)[of x w i] Cons.prems(2) obtain y w1 where
    f: "f x i w = (Inr y, w1)" and I1: "I w1" by auto
  have "\<exists>ys w'. map_indexed f xs (Suc i) w1 = (Inr ys, w') \<and> I w'"
    by (rule Cons.IH) (use Cons.prems(1) I1 in auto)
  with f show ?case by auto
qed

lemma sanitizeAnswers_heap:
  assumes "answers < length (heap w)" and "sanitizeAnswers answers w = (sanitized, w1)"
  shows "sanitized = length (heap w)"
    and "heap w1 = heap w @
           [filter (\<lambda>kv. fst kv \<noteq> ''organization_name'' \<and> fst kv \<noteq> ''contact_details'')
              (heap w ! answers)]"
    and "time_source w1 = time_source w" and "clock_reads w1 = clock_reads w"
    and "random_source w1 = random_source w" and "random_reads w1 = random_reads w"
  using assms
  by (auto simp: sanitizeAnswers_def spread_copy_def delete_property_def nth_append
      intro: filter_cong)

lemma array_includes_primitives:
  "list_all (\<lambda>x. \<not> is_reference x) xs \<Longrightarrow> array_includes xs v = (v \<in> set xs)"
  by (induction xs) (auto simp: array_includes_def strict_eq_def)

lemma in_dataCategories:
  "array_includes dataCategories c =
     (c \<in> {JStr ''data_subjects'', JStr ''consent'', JStr ''access_rights'',
            JStr ''data_minimization'', JStr ''privacy_notice'', JStr ''third_party''})"
  by (subst array_includes_primitives) (simp_all add: dataCategories_def)

lemma sanitized_answers_outcome:
  assumes "answers < length (heap w)"
    and "sanitized_answers answers w = (r, w1)"
  shows "r = Inr (filter (\<lambda>kv. fst kv \<noteq> ''organization_name'' \<and> fst kv \<noteq> ''contact_details'')
                    (heap w ! answers))"
    and "heap w1 = heap w @
           [filter (\<lambda>kv. fst kv \<noteq> ''organization_name'' \<and> fst kv \<noteq> ''contact_details'')
              (heap w ! answers)]"
    and "time_source w1 = time_source w" and "clock_reads w1 = clock_reads w"
proof -
  obtain s u where s: "sanitizeAnswers answers w = (s, u)" by (cases "sanitizeAnswers answers w")
  note h = sanitizeAnswers_heap[OF assms(1) s]
  from assms(2) s have r: "r = Inr (heap u ! s)" and w1: "w1 = u"
    by (auto simp: sanitized_answers_def run_then_def total_def)
  from r h(1,2) show "r = Inr (filter (\<lambda>kv. fst kv \<noteq> ''organization_name'' \<and> fst kv \<noteq> ''contact_details'')
                    (heap w ! answers))" by simp
  from w1 h show "heap w1 = heap w @
           [filter (\<lambda>kv. fst kv \<noteq> ''organization_name'' \<and> fst kv \<noteq> ''contact_details'')
              (heap w ! answers)]"
    and "time_source w1 = time_source w" and "clock_reads w1 = clock_reads w" by simp_all
qed

lemma snd_run_then_final:
  "snd (run_then m (\<lambda>x. pure_step (g x)) w) = snd (m w)"
  by (simp add: run_then_def pure_step_def split: prod.splits sum.splits)

text \<open>
  How \<^verbatim>\<open>createComplianceFinding\<close> leaves the world: it raises after the clock read
  with nothing allocated, or it reaches \<^verbatim>\<open>sanitizeAnswers\<close>.
\<close>

lemma createComplianceFinding_world:
  "snd (createComplianceFinding pf v i res answers w) = w\<lparr>clock_reads := Suc (clock_reads w)\<rparr>
   \<or> snd (createComplianceFinding pf v i res answers w) =
       snd (sanitized_answers answers (w\<lparr>clock_reads := Suc (clock_reads w)\<rparr>))"
  by (simp add: createComplianceFinding_def run_steps snd_run_then_final split: sum.splits)

lemma createComplianceFinding_returned:
  assumes "createComplianceFinding pf v i res answers w = (Inr f, w1)"
  shows "\<exists>s. sanitized_answers answers (w\<lparr>clock_reads := Suc (clock_reads w)\<rparr>) = (Inr s, w1)
           \<and> at_path f [''unmapped'', ''assessment_answers''] = Some (JObj s)"
  using assms
  by (auto simp: createComplianceFinding_def run_then_eq_Inr)

lemma createComplianceFinding_heap:
  assumes "answers < length (heap w)"
    and "createComplianceFinding pf v i res answers w = (r, w1)"
  shows "heap w1 = heap w
       \<or> heap w1 = heap w @
           [filter (\<lambda>kv. fst kv \<noteq> ''organization_name'' \<and> fst kv \<noteq> ''contact_details'')
              (heap w ! answers)]"
    and "\<And>f. r = Inr f \<Longrightarrow>
           at_path f [''unmapped'', ''assessment_answers''] =
             Some (JObj (filter (\<lambda>kv. fst kv \<noteq> ''organization_name'' \<and> fst kv \<noteq> ''contact_details'')
                (heap w ! answers)))"
proof -
  let ?u = "w\<lparr>clock_reads := Suc (clock_reads w)\<rparr>"
  from assms(1) have a: "answers < length (heap ?u)" by simp
  show "heap w1 = heap w
       \<or> heap w1 = heap w @
           [filter (\<lambda>kv. fst kv \<noteq> ''organization_name'' \<and> fst kv \<noteq> ''contact_details'')
              (heap w ! answers)]"
    using createComplianceFinding_world[of pf v i res answers w] assms(2)
      sanitized_answers_outcome(2)[OF a, of "fst (sanitized_answers answers ?u)"
        "snd (sanitized_answers answers ?u)"]
    by auto
  show "at_path f [''unmapped'', ''assessment_answers''] =
             Some (JObj (filter (\<lambda>kv. fst kv \<noteq> ''organization_name'' \<and> fst kv \<noteq> ''contact_details'')
                (heap w ! answers)))" if "r = Inr f" for f
    using createComplianceFinding_returned[of pf v i res answers w f w1] assms(2) that
      sanitized_answers_outcome(1)[OF a] by auto
qed

lemma createComplianceFinding_fields:
  assumes "createComplianceFinding pf v i res answers w = (Inr f, w1)"
  shows "own_property f ''class_uid'' = Some (JNum 2003)"
    and "at_path f [''unmapped'', ''violation_category''] = Some (js_get v ''category'')"
    and "at_path f [''finding_info'', ''title''] = Some (js_get v ''description'')"
    and "at_path f [''metadata'', ''version''] = Some (JStr ''1.6.0'')"
    and "at_path f [''metadata'', ''product''] = Some (JObj this_product)"
    and "at_path f [''finding_info'', ''uid''] =
           Some (JStr (''tikun13-'' @ number_text pf (time_source w (clock_reads w)) @ ''-''
                       @ number_text pf (int i)))"
  using assms
  by (auto simp: createComplianceFinding_def run_then_eq_Inr this_version_def)

lemma createDataSecurityFinding_world:
  "snd (createDataSecurityFinding pf v i res answers w) = w\<lparr>clock_reads := Suc (clock_reads w)\<rparr>"
  by (simp add: createDataSecurityFinding_def run_steps Let_def pure_step_def split: sum.splits)

lemma createDataSecurityFinding_fields:
  assumes "createDataSecurityFinding pf v i res answers w = (Inr f, w1)"
  shows "own_property f ''class_uid'' = Some (JNum 2006)"
    and "own_property f ''is_suspected_breach'' =
           Some (JBool (js_get v ''category'' = JStr ''consent'' \<or> js_get v ''category'' = JStr ''data_subjects''))"
    and "own_property f ''disposition_id'' =
           Some (JNum (if js_get v ''category'' = JStr ''consent'' \<or> js_get v ''category'' = JStr ''data_subjects''
                       then 2 else 99))"
    and "own_property f ''resources'' = Some (getAffectedResources v answers)"
    and "at_path f [''unmapped'', ''violation_details''] = Some (JObj v)"
    and "at_path f [''metadata'', ''version''] = Some (JStr ''1.6.0'')"
    and "at_path f [''metadata'', ''product''] = Some (JObj this_product)"
  using assms
  by (auto simp: createDataSecurityFinding_def run_then_eq_Inr this_version_def Let_def
      array_includes_def strict_eq_def)

subsection \<open>Conversions of primitive values return\<close>

lemma to_string_primitive:
  "\<not> is_reference v \<Longrightarrow> \<exists>s. to_string pf v = Inr s"
  by (cases v) simp_all

lemma element_strings_primitive:
  "list_all (\<lambda>x. \<not> is_reference x) xs \<Longrightarrow> \<exists>ss. element_strings pf xs = Inr ss"
proof (induction xs)
  case Nil
  then show ?case by simp
next
  case (Cons x xs)
  then obtain ss where "element_strings pf xs = Inr ss" by auto
  moreover from Cons.prems obtain s where "to_string pf x = Inr s"
    using to_string_primitive[of x pf] by auto
  ultimately show ?case by (cases x) auto
qed

lemma array_join_primitive:
  "list_all (\<lambda>x. \<not> is_reference x) xs \<Longrightarrow> \<exists>s. array_join pf sep xs = Inr s"
  using element_strings_primitive[of xs pf] by (auto simp: array_join_def)

lemma fine_text_primitive:
  "\<not> is_reference fine \<Longrightarrow> \<exists>t. fine_text pf fine = Inr t \<and> \<not> is_reference t"
  by (cases fine) (auto simp: fine_text_def js_or_def)

lemma mapping_functions_primitive:
  assumes "\<not> is_reference key"
  shows "\<exists>v. mapSeverity pf key = Inr v"
    and "\<exists>v. mapImpact pf key = Inr v"
    and "\<exists>v. mapRiskLevel pf key = Inr v"
    and "\<exists>v. getOrganizationType pf key = Inr v"
    and "\<exists>v. getDataSecurityCategory pf key = Inr v"
    and "\<exists>v. getKnowledgeBaseArticles pf key = Inr v"
proof -
  from to_string_primitive[OF assms, of pf] obtain s where s: "to_string pf key = Inr s" by blast
  then show "\<exists>v. mapSeverity pf key = Inr v"
    and "\<exists>v. mapImpact pf key = Inr v"
    and "\<exists>v. mapRiskLevel pf key = Inr v"
    and "\<exists>v. getOrganizationType pf key = Inr v"
    and "\<exists>v. getDataSecurityCategory pf key = Inr v"
    and "\<exists>v. getKnowledgeBaseArticles pf key = Inr v"
    by (simp_all add: mapSeverity_def mapImpact_def mapRiskLevel_def getOrganizationType_def
        getDataSecurityCategory_def getKnowledgeBaseArticles_def table_lookup_def Let_def)
qed

lemma getDataScale_primitive:
  assumes "\<not> is_reference key"
  shows "\<exists>v. getDataScale pf key = Inr v \<and> (\<exists>s. to_string pf v = Inr s)"
proof -
  from assms obtain name where n: "to_string pf key = Inr name"
    using to_string_primitive by blast
  have "\<exists>s. to_string pf
          (js_or (js_get
             [(''less_10k'', JStr ''Small (<10K)''),
              (''10k_100k'', JStr ''Medium (10K-100K)''),
              (''100k_500k'', JStr ''Large (100K-500K)''),
              (''500k_1m'', JStr ''Very Large (500K-1M)''),
              (''over_1m'', JStr ''Enterprise (>1M)'')] name) (JStr ''Unknown'')) = Inr s"
    by (auto simp: js_get_def js_or_def Object_prototype_def split: option.splits)
  with n show ?thesis by (simp add: getDataScale_def table_lookup_def)
qed

lemma getDetailedDescription_primitive:
  assumes "primitive_fields [''description'', ''law_reference'', ''category'', ''fine''] v"
  shows "\<exists>s. getDetailedDescription pf v = Inr s"
proof -
  from assms have d: "\<not> is_reference (js_get v ''description'')"
    and l: "\<not> is_reference (js_get v ''law_reference'')"
    and c: "\<not> is_reference (js_get v ''category'')"
    and f: "\<not> is_reference (js_get v ''fine'')"
    by (simp_all add: primitive_fields_def)
  from l have l': "\<not> is_reference (js_or (js_get v ''law_reference'') (JStr text_general))"
    by (simp add: js_or_def)
  from fine_text_primitive[OF f, of pf] obtain t where
    t: "fine_text pf (js_get v ''fine'') = Inr t" and t': "\<not> is_reference t" by blast
  from to_string_primitive[OF d, of pf] to_string_primitive[OF l', of pf]
    to_string_primitive[OF c, of pf] to_string_primitive[OF t', of pf] t
  show ?thesis by (auto simp: getDetailedDescription_def)
qed

lemma getRemediationText_primitive:
  assumes "\<not> is_reference (js_get v ''law_reference'')"
    and "list_all (primitive_fields [''action'']) recs"
  shows "\<exists>s. getRemediationText pf v recs = Inr s"
proof -
  let ?rel = "filter (\<lambda>r. strict_eq (js_get r ''category'') (js_get v ''category'')) recs"
  from assms(2) have "list_all (\<lambda>x. \<not> is_reference x) (map (\<lambda>r. js_get r ''action'') ?rel)"
    by (induction recs) (auto simp: primitive_fields_def)
  from array_join_primitive[OF this, of pf "''; ''"] obtain s where
    j: "array_join pf ''; '' (map (\<lambda>r. js_get r ''action'') ?rel) = Inr s" by blast
  from assms(1) have "\<not> is_reference (js_or (js_get v ''law_reference'') (JStr text_amendment_13))"
    by (simp add: js_or_def)
  from to_string_primitive[OF this, of pf] j show ?thesis
    by (auto simp: getRemediationText_def Let_def)
qed

lemma run_then_sanitized_answers:
  "run_then (sanitized_answers answers) f w =
     (case sanitizeAnswers answers w of (s, u) \<Rightarrow> f (heap u ! s) u)"
  by (simp add: sanitized_answers_def run_then_def total_def properties_of_def split: prod.splits)

lemma createComplianceFinding_returns:
  assumes "primitive_fields [''severity'', ''description'', ''law_reference'', ''category'', ''fine''] v"
    and "list_all (primitive_fields [''action'']) (recommendations res)"
    and "\<not> is_reference (optional_label (riskLevel res))"
    and "primitive_fields [''org_type'', ''data_subjects_count''] (heap w ! answers)"
  shows "\<exists>f w1. createComplianceFinding pf v i res answers w = (Inr f, w1)"
proof -
  from assms(1) have s: "\<not> is_reference (js_get v ''severity'')"
    and l: "\<not> is_reference (js_get v ''law_reference'')"
    and c: "\<not> is_reference (js_get v ''category'')"
    and d: "primitive_fields [''description'', ''law_reference'', ''category'', ''fine''] v"
    by (simp_all add: primitive_fields_def)
  from assms(4) have o: "\<not> is_reference (js_get (heap w ! answers) ''org_type'')"
    and n: "\<not> is_reference (js_get (heap w ! answers) ''data_subjects_count'')"
    by (simp_all add: primitive_fields_def)
  from mapping_functions_primitive(1)[OF s, of pf] obtain v1 where
    1: "mapSeverity pf (js_get v ''severity'') = Inr v1" by blast
  from mapping_functions_primitive(2)[OF s, of pf] obtain v2 where
    2: "mapImpact pf (js_get v ''severity'') = Inr v2" by blast
  from mapping_functions_primitive(3)[OF assms(3), of pf] obtain v3 where
    3: "mapRiskLevel pf (optional_label (riskLevel res)) = Inr v3" by blast
  from mapping_functions_primitive(6)[OF c, of pf] obtain v4 where
    4: "getKnowledgeBaseArticles pf (js_get v ''category'') = Inr v4" by blast
  from mapping_functions_primitive(4)[OF o, of pf] obtain v5 where
    5: "getOrganizationType pf (js_get (heap w ! answers) ''org_type'') = Inr v5" by blast
  from getDataScale_primitive[OF n, of pf] obtain v6 where
    6: "getDataScale pf (js_get (heap w ! answers) ''data_subjects_count'') = Inr v6" by blast
  from getDetailedDescription_primitive[OF d, of pf] obtain v7 where
    7: "getDetailedDescription pf v = Inr v7" by blast
  from getRemediationText_primitive[OF l assms(2), of pf] obtain v8 where
    8: "getRemediationText pf v (recommendations res) = Inr v8" by blast
  show ?thesis
    by (simp add: createComplianceFinding_def run_steps run_then_sanitized_answers
        1 2 3 4 5 6 7 8 pure_step_def split: prod.splits)
qed

subsection \<open>Frame conditions of the exports\<close>

lemma preservesD:
  "preserves I m \<Longrightarrow> I w \<Longrightarrow> m w = (r, w') \<Longrightarrow> I w'"
  by (auto simp: preserves_def)

lemma preserves_run_then:
  assumes "preserves I m" and "\<And>x. preserves I (f x)"
  shows "preserves I (run_then m f)"
  using assms
  by (auto simp: preserves_def run_then_def split: prod.splits sum.splits)

lemma preserves_pure_step: "preserves I (pure_step r)"
  by (simp add: preserves_def pure_step_def)

lemma preserves_properties_of: "preserves I (properties_of obj)"
  by (simp add: preserves_def properties_of_def)

lemma preserves_Date_now:
  assumes "\<And>w n. I w \<Longrightarrow> I (w\<lparr>clock_reads := n\<rparr>)"
  shows "preserves I (total Date_now)"
  using assms by (simp add: preserves_def total_def Date_now_def)

lemma preserves_map_indexed:
  assumes "\<And>x i. preserves I (f x i)"
  shows "preserves I (map_indexed f xs i)"
proof -
  have "I (snd (map_indexed f xs i w))" if "I w" for w
    using that
  proof (induction xs arbitrary: i w)
    case Nil
    then show ?case by simp
  next
    case (Cons x xs)
    obtain r1 w1 where f: "f x i w = (r1, w1)" by (cases "f x i w")
    from preservesD[OF assms Cons.prems f] have I1: "I w1" .
    from Cons.IH[OF I1, of "Suc i"] f I1 show ?case
      by (auto split: sum.splits prod.splits)
  qed
  then show ?thesis by (simp add: preserves_def)
qed

lemma extends_heap_refl: "extends_heap w w"
  by (simp add: extends_heap_def)

lemma extends_heap_tick: "extends_heap w w0 \<Longrightarrow> extends_heap w (w0\<lparr>clock_reads := n\<rparr>)"
  by (simp add: extends_heap_def)

lemma extends_heap_nth:
  assumes "extends_heap w w0" and "a < length (heap w)"
  shows "heap w0 ! a = heap w ! a" and "a < length (heap w0)"
proof -
  from assms(1) have "take (length (heap w)) (heap w0) = heap w" by (simp add: extends_heap_def)
  with nth_take[OF assms(2), of "heap w0"] show "heap w0 ! a = heap w ! a" by (simp only:)
  from assms show "a < length (heap w0)" by (simp add: extends_heap_def)
qed

lemma preserves_sanitized_answers:
  "preserves (extends_heap w) (sanitized_answers answers)"
  by (auto simp: preserves_def sanitized_answers_def run_then_def total_def properties_of_def
      sanitizeAnswers_def spread_copy_def delete_property_def extends_heap_def
      split: prod.splits)

lemmas preserves_steps =
  preserves_run_then preserves_pure_step preserves_properties_of preserves_map_indexed
  preserves_Date_now[of "extends_heap w" for w, OF extends_heap_tick]
  preserves_sanitized_answers

lemma preserves_createComplianceFinding:
  "preserves (extends_heap w) (createComplianceFinding pf v i res answers)"
  unfolding createComplianceFinding_def by (intro preserves_steps)

lemma preserves_exportComplianceFindings:
  "preserves (extends_heap w) (exportComplianceFindings pf res answers)"
  unfolding exportComplianceFindings_def
  by (intro preserves_steps preserves_createComplianceFinding)

lemma preserves_createDataSecurityFinding:
  "preserves (extends_heap w) (createDataSecurityFinding pf v i res answers)"
  unfolding createDataSecurityFinding_def Let_def by (intro preserves_steps)

lemma preserves_exportDataSecurityFindings:
  "preserves (extends_heap w) (exportDataSecurityFindings pf res answers)"
  unfolding exportDataSecurityFindings_def Let_def
  by (auto intro!: preserves_steps preserves_createDataSecurityFinding)

lemma preserves_exportRecommendations:
  "preserves (extends_heap w) (exportRecommendations pf recs)"
  unfolding exportRecommendations_def by (intro preserves_steps)

lemma preserves_exportCombinedReport:
  "preserves (extends_heap w) (exportCombinedReport pf res answers)"
  unfolding exportCombinedReport_def
  by (intro preserves_steps preserves_exportComplianceFindings
      preserves_exportDataSecurityFindings preserves_exportRecommendations)

subsection \<open>The documents\<close>

lemma exportComplianceFindings_findings:
  assumes "I w"
    and step: "\<And>v i w0 r w1. I w0 \<Longrightarrow> createComplianceFinding pf v i res answers w0 = (r, w1)
                 \<Longrightarrow> I w1 \<and> (\<forall>f. r = Inr f \<longrightarrow> P v i f)"
    and "exportComplianceFindings pf res answers w = (r, w')"
  shows "I w' \<and> (\<forall>doc. r = Inr doc \<longrightarrow>
           length (findings_of doc) = length (violations res)
           \<and> (\<forall>j<length (violations res). P (violations res ! j) j (findings_of doc ! j)))"
proof -
  obtain rs w2 where m: "map_indexed (\<lambda>violation index. createComplianceFinding pf violation index res answers)
             (violations res) 0 w = (rs, w2)"
    by (cases "map_indexed (\<lambda>violation index. createComplianceFinding pf violation index res answers)
             (violations res) 0 w")
  with assms(3) have w': "w' = w2"
    and doc: "\<forall>doc. r = Inr doc \<longrightarrow> rs = Inr (findings_of doc)"
    by (auto simp: exportComplianceFindings_def run_then_def pure_step_def split: sum.splits)
  have "I w2 \<and> (\<forall>ys. rs = Inr ys \<longrightarrow>
           length ys = length (violations res)
           \<and> (\<forall>j<length (violations res). P (violations res ! j) (0 + j) (ys ! j)))"
    by (rule map_indexed_nth[where I = I and P = P, OF step assms(1) m])
  with doc w' show ?thesis by simp
qed

lemma exportComplianceFindings_document:
  assumes "exportComplianceFindings pf res answers w = (Inr doc, w')"
  shows "own_property doc ''version'' = Some (JStr ''1.6.0'')"
    and "at_path doc [''metadata'', ''version''] = Some (JStr ''1.6.0'')"
    and "at_path doc [''metadata'', ''product''] = None"
    and "own_property doc ''findings'' = Some (JArr (findings_of doc))"
  using assms
  by (auto simp: exportComplianceFindings_def run_then_eq_Inr this_version_def)

lemma exportComplianceFindings_empty:
  assumes "violations res = []"
  shows "exportComplianceFindings pf res answers w =
     (Inr (JObj
        [(''version'', JStr ''1.6.0''),
         (''metadata'', JObj
            [(''version'', JStr ''1.6.0''),
             (''profiles'', JArr [JStr ''compliance'', JStr ''privacy'']),
             (''extension'', JObj
                [(''name'', JStr ''Israeli Privacy Law Amendment 13''),
                 (''version'', JStr ''2025'')])]),
         (''findings'', JArr [])]),
      w)"
  using assms by (simp add: exportComplianceFindings_def this_version_def run_then_def pure_step_def)

lemma exportComplianceFindings_returns:
  assumes "answers < length (heap w)"
    and "list_all (primitive_fields [''severity'', ''description'', ''law_reference'', ''category'', ''fine''])
           (violations res)"
    and "list_all (primitive_fields [''action'']) (recommendations res)"
    and "\<not> is_reference (optional_label (riskLevel res))"
    and "primitive_fields [''org_type'', ''data_subjects_count''] (heap w ! answers)"
  shows "\<exists>doc w'. exportComplianceFindings pf res answers w = (Inr doc, w')"
proof -
  have "\<exists>ys w'. map_indexed (\<lambda>violation index. createComplianceFinding pf violation index res answers)
             (violations res) 0 w = (Inr ys, w') \<and> extends_heap w w'"
  proof (rule map_indexed_returns[where I = "extends_heap w"])
    show "extends_heap w w" by (rule extends_heap_refl)
    show "\<exists>y w1. createComplianceFinding pf x i res answers w0 = (Inr y, w1) \<and> extends_heap w w1"
      if "x \<in> set (violations res)" and "extends_heap w w0" for x i w0
    proof -
      from that(1) assms(2)
      have p: "primitive_fields [''severity'', ''description'', ''law_reference'', ''category'', ''fine''] x"
        by (simp add: list_all_iff)
      from extends_heap_nth(1)[OF that(2) assms(1)] assms(5)
      have a: "primitive_fields [''org_type'', ''data_subjects_count''] (heap w0 ! answers)" by simp
      from createComplianceFinding_returns[OF p assms(3,4) a, of pf i] obtain y w1 where
        c: "createComplianceFinding pf x i res answers w0 = (Inr y, w1)" by blast
      from preservesD[OF preserves_createComplianceFinding that(2) c] c show ?thesis by blast
    qed
  qed
  then show ?thesis
    by (auto simp: exportComplianceFindings_def run_then_def pure_step_def)
qed

lemma exportComplianceFindings_sanitized_answers:
  assumes "answers < length (heap w)"
    and "exportComplianceFindings pf res answers w = (r, w')"
  shows "heap w' ! answers = heap w ! answers"
    and "take (length (heap w)) (heap w') = heap w"
    and "\<And>doc. r = Inr doc \<Longrightarrow> length (findings_of doc) = length (violations res)"
    and "\<And>doc. r = Inr doc \<Longrightarrow>
         list_all
           (\<lambda>finding. \<exists>sanitized.
              at_path finding [''unmapped'', ''assessment_answers''] = Some (JObj sanitized)
              \<and> sanitized = filter (\<lambda>kv. fst kv \<noteq> ''organization_name'' \<and> fst kv \<noteq> ''contact_details'')
                               (heap w ! answers)
              \<and> (\<forall>key. map_of sanitized key =
                    (if key = ''organization_name'' \<or> key = ''contact_details'' then None
                     else map_of (heap w ! answers) key)))
           (findings_of doc)"
proof -
  let ?S = "filter (\<lambda>kv. fst kv \<noteq> ''organization_name'' \<and> fst kv \<noteq> ''contact_details'') (heap w ! answers)"
  let ?P = "\<lambda>v (i::nat) f. at_path f [''unmapped'', ''assessment_answers''] = Some (JObj ?S)"
  have step: "extends_heap w w1 \<and> (\<forall>f. r0 = Inr f \<longrightarrow> ?P v i f)"
    if "extends_heap w w0" and "createComplianceFinding pf v i res answers w0 = (r0, w1)"
    for v i w0 r0 w1
  proof -
    note a = extends_heap_nth[OF that(1) assms(1)]
    from createComplianceFinding_heap(2)[OF a(2) that(2)] a(1)
    have "\<forall>f. r0 = Inr f \<longrightarrow> ?P v i f" by simp
    with preservesD[OF preserves_createComplianceFinding that(1) that(2)] show ?thesis by simp
  qed
  have all: "extends_heap w w' \<and> (\<forall>doc. r = Inr doc \<longrightarrow>
           length (findings_of doc) = length (violations res)
           \<and> (\<forall>j<length (violations res). ?P (violations res ! j) j (findings_of doc ! j)))"
  proof (rule exportComplianceFindings_findings[where I = "extends_heap w" and P = ?P])
    show "extends_heap w w" by (rule extends_heap_refl)
    show "\<And>v i w0 r0 w1. extends_heap w w0 \<Longrightarrow> createComplianceFinding pf v i res answers w0 = (r0, w1)
                 \<Longrightarrow> extends_heap w w1 \<and> (\<forall>f. r0 = Inr f \<longrightarrow> ?P v i f)" by (rule step)
    show "exportComplianceFindings pf res answers w = (r, w')" by (rule assms(2))
  qed
  then have e: "extends_heap w w'" by simp
  from extends_heap_nth(1)[OF e assms(1)] show "heap w' ! answers = heap w ! answers" .
  from e show "take (length (heap w)) (heap w') = heap w" by (simp add: extends_heap_def)
  show "length (findings_of doc) = length (violations res)" if "r = Inr doc" for doc
    using all that by simp
  show "list_all
           (\<lambda>finding. \<exists>sanitized.
              at_path finding [''unmapped'', ''assessment_answers''] = Some (JObj sanitized)
              \<and> sanitized = ?S
              \<and> (\<forall>key. map_of sanitized key =
                    (if key = ''organization_name'' \<or> key = ''contact_details'' then None
                     else map_of (heap w ! answers) key)))
           (findings_of doc)" if "r = Inr doc" for doc
  proof -
    from all that have len: "length (findings_of doc) = length (violations res)"
      and nth: "\<forall>j<length (violations res). ?P (violations res ! j) j (findings_of doc ! j)"
      by simp_all
    from nth len have "list_all (\<lambda>f. at_path f [''unmapped'', ''assessment_answers''] = Some (JObj ?S))
        (findings_of doc)"
      by (simp add: list_all_length)
    moreover have "\<forall>key. map_of ?S key =
                    (if key = ''organization_name'' \<or> key = ''contact_details'' then None
                     else map_of (heap w ! answers) key)"
      by (simp add: map_of_without_two)
    ultimately show ?thesis by (simp add: list_all_iff)
  qed
qed

subsection \<open>Data security findings\<close>

lemma getDataViolationDescription_returns:
  assumes "\<not> is_reference (js_get v ''description'')"
    and "\<not> truthy (js_get answers ''sensitive_data'')
         \<or> (\<exists>xs. js_get answers ''sensitive_data'' = JArr xs \<and> list_all (\<lambda>x. \<not> is_reference x) xs)"
    and "\<not> is_reference (js_get answers ''data_subjects_count'')"
  shows "\<exists>d. getDataViolationDescription pf v answers = Inr d"
proof -
  from getDataScale_primitive[OF assms(3), of pf] obtain scale scale_text where
    g: "getDataScale pf (js_get answers ''data_subjects_count'') = Inr scale"
    and t: "to_string pf scale = Inr scale_text" by blast
  from to_string_primitive[OF assms(1), of pf] obtain dtext where
    d: "to_string pf (js_get v ''description'') = Inr dtext" by blast
  from assms(2) show ?thesis
  proof
    assume "\<not> truthy (js_get answers ''sensitive_data'')"
    with g t d show ?thesis
      by (simp add: getDataViolationDescription_def and_length_positive_def Let_def)
  next
    assume "\<exists>xs. js_get answers ''sensitive_data'' = JArr xs \<and> list_all (\<lambda>x. \<not> is_reference x) xs"
    then obtain xs where xs: "js_get answers ''sensitive_data'' = JArr xs"
      and p: "list_all (\<lambda>x. \<not> is_reference x) xs" by blast
    from array_join_primitive[OF p, of pf "'', ''"] obtain joined where
      j: "array_join pf '', '' xs = Inr joined" by blast
    from xs j g t d show ?thesis
      by (simp add: getDataViolationDescription_def and_length_positive_def Let_def)
  qed
qed

lemma getConfidentialityLevel_returns:
  assumes "\<not> truthy sd \<or> (\<exists>xs. sd = JArr xs)"
  shows "\<exists>c. getConfidentialityLevel sd = Inr c"
  using assms by (auto simp: getConfidentialityLevel_def)

lemma createDataSecurityFinding_returns:
  assumes "primitive_fields [''severity'', ''description'', ''category''] v"
    and "\<not> is_reference (optional_label (riskLevel res))"
    and "\<not> truthy (js_get answers ''sensitive_data'')
         \<or> (\<exists>xs. js_get answers ''sensitive_data'' = JArr xs \<and> list_all (\<lambda>x. \<not> is_reference x) xs)"
    and "\<not> is_reference (js_get answers ''data_subjects_count'')"
  shows "\<exists>f w1. createDataSecurityFinding pf v i res answers w = (Inr f, w1)"
proof -
  from assms(1) have s: "\<not> is_reference (js_get v ''severity'')"
    and d: "\<not> is_reference (js_get v ''description'')"
    and c: "\<not> is_reference (js_get v ''category'')"
    by (simp_all add: primitive_fields_def)
  from mapping_functions_primitive(1)[OF s, of pf] obtain v1 where
    1: "mapSeverity pf (js_get v ''severity'') = Inr v1" by blast
  from mapping_functions_primitive(2)[OF s, of pf] obtain v2 where
    2: "mapImpact pf (js_get v ''severity'') = Inr v2" by blast
  from mapping_functions_primitive(3)[OF assms(2), of pf] obtain v3 where
    3: "mapRiskLevel pf (optional_label (riskLevel res)) = Inr v3" by blast
  from mapping_functions_primitive(5)[OF c, of pf] obtain v4 where
    4: "getDataSecurityCategory pf (js_get v ''category'') = Inr v4" by blast
  from assms(3) have "\<not> truthy (js_get answers ''sensitive_data'')
         \<or> (\<exists>xs. js_get answers ''sensitive_data'' = JArr xs)" by blast
  from getConfidentialityLevel_returns[OF this] obtain v5 where
    5: "getConfidentialityLevel (js_get answers ''sensitive_data'') = Inr v5" by blast
  from getDataViolationDescription_returns[OF d assms(3,4), of pf] obtain v6 where
    6: "getDataViolationDescription pf v answers = Inr v6" by blast
  show ?thesis
    by (simp add: createDataSecurityFinding_def run_steps Let_def 1 2 3 4 5 6 pure_step_def)
qed

lemma exportDataSecurityFindings_none:
  assumes "filter (\<lambda>v. array_includes dataCategories (js_get v ''category'')) (violations res) = []"
  shows "exportDataSecurityFindings pf res answers w =
           (Inr (JObj [(''version'', JStr ''1.6.0''), (''findings'', JArr [])]), w)"
  using assms by (simp add: exportDataSecurityFindings_def this_version_def pure_step_def)

lemma exportDataSecurityFindings_findings:
  assumes "exportDataSecurityFindings pf res answers w = (Inr doc, w')"
    and step: "\<And>v i w0 f w1. createDataSecurityFinding pf v i res answers w0 = (Inr f, w1) \<Longrightarrow> P v i f"
  shows "length (findings_of doc) =
           length (filter (\<lambda>v. array_includes dataCategories (js_get v ''category'')) (violations res))
       \<and> (\<forall>j<length (filter (\<lambda>v. array_includes dataCategories (js_get v ''category'')) (violations res)).
             P (filter (\<lambda>v. array_includes dataCategories (js_get v ''category'')) (violations res) ! j) j
               (findings_of doc ! j))"
proof (cases "filter (\<lambda>v. array_includes dataCategories (js_get v ''category'')) (violations res) = []")
  case True
  with exportDataSecurityFindings_none[OF True, of pf answers w] assms(1) show ?thesis by auto
next
  case False
  let ?dv = "filter (\<lambda>v. array_includes dataCategories (js_get v ''category'')) (violations res)"
  from False assms(1) obtain fs u where
    m: "map_indexed (\<lambda>violation index. createDataSecurityFinding pf violation index res answers)
          ?dv 0 w = (Inr fs, u)"
    and doc: "findings_of doc = fs"
    by (auto simp: exportDataSecurityFindings_def Let_def run_then_eq_Inr)
  have st: "\<And>x i w0 r w1. True \<Longrightarrow> createDataSecurityFinding pf x i res answers w0 = (r, w1)
              \<Longrightarrow> True \<and> (\<forall>y. r = Inr y \<longrightarrow> P x i y)"
    using step by blast
  from map_indexed_nth[where I = "\<lambda>w0. True" and P = P, OF st TrueI m] doc
  show ?thesis by simp
qed

lemma exportDataSecurityFindings_returns:
  assumes "list_all (primitive_fields [''severity'', ''description'']) (violations res)"
    and "\<not> is_reference (optional_label (riskLevel res))"
    and "\<not> truthy (js_get answers ''sensitive_data'')
         \<or> (\<exists>xs. js_get answers ''sensitive_data'' = JArr xs \<and> list_all (\<lambda>x. \<not> is_reference x) xs)"
    and "\<not> is_reference (js_get answers ''data_subjects_count'')"
  shows "\<exists>doc w'. exportDataSecurityFindings pf res answers w = (Inr doc, w')"
proof -
  let ?dv = "filter (\<lambda>v. array_includes dataCategories (js_get v ''category'')) (violations res)"
  have "\<exists>ys w'. map_indexed (\<lambda>violation index. createDataSecurityFinding pf violation index res answers)
          ?dv 0 w = (Inr ys, w') \<and> True"
  proof (rule map_indexed_returns[where I = "\<lambda>w0. True"])
    show True ..
    show "\<exists>y w1. createDataSecurityFinding pf x i res answers w0 = (Inr y, w1) \<and> True"
      if "x \<in> set ?dv" for x i w0
    proof -
      from that assms(1) have "primitive_fields [''severity'', ''description''] x"
        by (simp add: list_all_iff)
      moreover from that have "\<not> is_reference (js_get x ''category'')"
        by (auto simp: in_dataCategories)
      ultimately have "primitive_fields [''severity'', ''description'', ''category''] x"
        by (simp add: primitive_fields_def)
      from createDataSecurityFinding_returns[OF this assms(2,3,4), of pf i w0] show ?thesis by simp
    qed
  qed
  then show ?thesis
    by (auto simp: exportDataSecurityFindings_def Let_def run_then_def pure_step_def)
qed

lemma exportDataSecurityFindings_document:
  assumes "exportDataSecurityFindings pf res answers w = (Inr doc, w')"
  shows "own_property doc ''version'' = Some (JStr ''1.6.0'')"
    and "own_property doc ''findings'' = Some (JArr (findings_of doc))"
    and "findings_of doc \<noteq> [] \<Longrightarrow> at_path doc [''metadata'', ''version''] = Some (JStr ''1.6.0'')"
    and "findings_of doc = [] \<Longrightarrow> own_property doc ''metadata'' = None"
    and "at_path doc [''metadata'', ''product''] = None"
proof -
  let ?dv = "filter (\<lambda>v. array_includes dataCategories (js_get v ''category'')) (violations res)"
  from exportDataSecurityFindings_findings[OF assms, where P = "\<lambda>v i f. True"]
  have len: "length (findings_of doc) = length ?dv" by simp
  show "own_property doc ''version'' = Some (JStr ''1.6.0'')"
    using assms
    by (auto simp: exportDataSecurityFindings_def this_version_def Let_def run_then_eq_Inr
        split: if_splits)
  show "own_property doc ''findings'' = Some (JArr (findings_of doc))"
    using assms
    by (auto simp: exportDataSecurityFindings_def this_version_def Let_def run_then_eq_Inr
        split: if_splits)
  show "at_path doc [''metadata'', ''product''] = None"
    using assms
    by (auto simp: exportDataSecurityFindings_def this_version_def Let_def run_then_eq_Inr
        split: if_splits)
  show "at_path doc [''metadata'', ''version''] = Some (JStr ''1.6.0'')" if "findings_of doc \<noteq> []"
  proof -
    from that len have "?dv \<noteq> []" by auto
    with assms show ?thesis
      by (auto simp: exportDataSecurityFindings_def this_version_def Let_def run_then_eq_Inr)
  qed
  show "own_property doc ''metadata'' = None" if "findings_of doc = []"
  proof -
    from that len have "?dv = []" by auto
    from exportDataSecurityFindings_none[OF this, of pf answers w] assms show ?thesis by auto
  qed
qed

lemma getAffectedResources_cases:
  "getAffectedResources violation answers =
     JArr (if js_get violation ''category'' = JStr ''data_subjects''
              \<or> js_get violation ''category'' = JStr ''consent''
           then [JObj [(''type'', JStr ''Database''),
                       (''name'', JStr ''Personal Data Repository''),
                       (''uid'', JStr ''pdr-001''),
                       (''criticality'',
                          JNum (if truthy (js_get answers ''sensitive_data'') then 4 else 2))]]
           else if js_get violation ''category'' = JStr ''third_party''
           then [JObj [(''type'', JStr ''Third Party Integration''),
                       (''name'', JStr ''External Data Processors''),
                       (''uid'', JStr ''ext-proc-001''),
                       (''criticality'', JNum 3)]]
           else [])"
  by (auto simp: getAffectedResources_def strict_eq_def Let_def)

lemma sample_data_violations:
  "filter (\<lambda>v. js_get v ''category'' \<in>
                  {JStr ''data_subjects'', JStr ''consent'', JStr ''access_rights'',
                   JStr ''data_minimization'', JStr ''privacy_notice'', JStr ''third_party''})
     (violations sample_results) =
     [[(''description'', JStr ''No consent records''),
       (''category'', JStr ''consent''),
       (''severity'', JStr ''critical''),
       (''fine'', JNum 50000)],
      [(''description'', JStr ''Processor without agreement''),
       (''category'', JStr ''third_party''),
       (''severity'', JStr ''medium'')]]"
  by (simp add: sample_results_def js_get_def)

lemma sample_sensitive_data:
  "js_get sample_answers ''sensitive_data'' = JArr [JStr ''medical'', JStr ''financial'']"
  by (simp add: sample_answers_def js_get_def)

text \<open>
  The sample input has no array and no object where the exporter converts a value to
  text, so both exports return on it.
\<close>

lemma sample_input_primitive:
  "list_all (primitive_fields [''severity'', ''description'', ''law_reference'', ''category'', ''fine''])
     (violations sample_results)"
  "list_all (primitive_fields [''severity'', ''description'']) (violations sample_results)"
  "list_all (primitive_fields [''action'']) (recommendations sample_results)"
  "\<not> is_reference (optional_label (riskLevel sample_results))"
  "primitive_fields [''org_type'', ''data_subjects_count''] sample_answers"
  "\<not> is_reference (js_get sample_answers ''data_subjects_count'')"
  "\<not> truthy (js_get sample_answers ''sensitive_data'')
   \<or> (\<exists>xs. js_get sample_answers ''sensitive_data'' = JArr xs \<and> list_all (\<lambda>x. \<not> is_reference x) xs)"
  by (simp_all add: sample_results_def sample_answers_def primitive_fields_def js_get_def
      Object_prototype_def)

lemma sample_data_security_export:
  "\<exists>doc w'. exportDataSecurityFindings sample_platform sample_results sample_answers w = (Inr doc, w')"
  by (rule exportDataSecurityFindings_returns) (rule sample_input_primitive)+

lemma at_path_append:
  "at_path v (ks @ ks') = (case at_path v ks of None \<Rightarrow> None | Some u \<Rightarrow> at_path u ks')"
  by (induction ks arbitrary: v) (auto split: option.splits)

lemma product_descriptor:
  assumes "at_path f [''metadata'', ''product''] = Some (JObj this_product)"
  shows "at_path f [''metadata'', ''product'', ''name''] = Some (JStr ''Tikun13 Compliance Checker'')
       \<and> at_path f [''metadata'', ''product'', ''vendor_name''] = Some (JStr ''Amendment 13 Assessment Tool'')
       \<and> at_path f [''metadata'', ''product'', ''version''] = Some (JStr ''1.0.0'')"
  using assms
    at_path_append[of f "[''metadata'', ''product'']" "[''name'']"]
    at_path_append[of f "[''metadata'', ''product'']" "[''vendor_name'']"]
    at_path_append[of f "[''metadata'', ''product'']" "[''version'']"]
  by (simp add: this_product_def)

subsection \<open>Compliance findings\<close>

text \<open>
  C7.  Whenever \<^verbatim>\<open>exportComplianceFindings\<close> returns a document, its \<^verbatim>\<open>findings\<close>
  array corresponds to \<^verbatim>\<open>results.violations\<close> position by position: the \<open>j\<close>-th
  finding has \<^verbatim>\<open>class_uid\<close> 2003, the description and the category of the \<open>j\<close>-th
  violation, and a \<^verbatim>\<open>uid\<close> ending in \<open>j\<close>.  With no violations the function
  returns, leaves the world as it is, and the findings of its document are the empty
  array.  With violations it can raise \<^verbatim>\<open>TypeError\<close>, when a value it converts to
  text is an object with an own property \<^verbatim>\<open>toString\<close> or \<^verbatim>\<open>toLocaleString\<close>.  It does
  return a document when the answers are allocated and the values it converts (the
  severity, description, law reference, category and fine of every violation, the
  action of every recommendation, the risk label, and \<^verbatim>\<open>org_type\<close> and
  \<^verbatim>\<open>data_subjects_count\<close> of the answers) are neither arrays nor objects.
\<close>

theorem exportComplianceFindings_one_finding_per_violation:
  "(\<forall>doc w'. exportComplianceFindings pf res answers w = (Inr doc, w') \<longrightarrow>
       own_property doc ''findings'' = Some (JArr (findings_of doc))
       \<and> list_all2
           (\<lambda>violation finding.
              own_property finding ''class_uid'' = Some (JNum 2003)
              \<and> at_path finding [''finding_info'', ''title''] = Some (js_get violation ''description'')
              \<and> at_path finding [''unmapped'', ''violation_category''] = Some (js_get violation ''category''))
           (violations res) (findings_of doc)
       \<and> (\<forall>j<length (violations res). \<exists>t.
             at_path (findings_of doc ! j) [''finding_info'', ''uid''] =
               Some (JStr (''tikun13-'' @ number_text pf t @ ''-'' @ number_text pf (int j)))))
   \<and> (violations res = [] \<longrightarrow>
         exportComplianceFindings pf res answers w =
           (Inr (JObj
               [(''version'', JStr ''1.6.0''),
                (''metadata'', JObj
                   [(''version'', JStr ''1.6.0''),
                    (''profiles'', JArr [JStr ''compliance'', JStr ''privacy'']),
                    (''extension'', JObj
                       [(''name'', JStr ''Israeli Privacy Law Amendment 13''),
                        (''version'', JStr ''2025'')])]),
                (''findings'', JArr [])]),
            w))
   \<and> (answers < length (heap w)
       \<and> list_all (primitive_fields [''severity'', ''description'', ''law_reference'', ''category'', ''fine''])
           (violations res)
       \<and> list_all (primitive_fields [''action'']) (recommendations res)
       \<and> \<not> is_reference (optional_label (riskLevel res))
       \<and> primitive_fields [''org_type'', ''data_subjects_count''] (heap w ! answers)
       \<longrightarrow> (\<exists>doc w'. exportComplianceFindings pf res answers w = (Inr doc, w')))"
proof (intro conjI allI impI)
  fix doc w'
  assume e: "exportComplianceFindings pf res answers w = (Inr doc, w')"
  let ?P = "\<lambda>violation (i::nat) finding.
              own_property finding ''class_uid'' = Some (JNum 2003)
              \<and> at_path finding [''finding_info'', ''title''] = Some (js_get violation ''description'')
              \<and> at_path finding [''unmapped'', ''violation_category''] = Some (js_get violation ''category'')
              \<and> (\<exists>t. at_path finding [''finding_info'', ''uid''] =
                     Some (JStr (''tikun13-'' @ number_text pf t @ ''-'' @ number_text pf (int i))))"
  have st: "True \<and> (\<forall>f. r = Inr f \<longrightarrow> ?P v i f)"
    if "True" and "createComplianceFinding pf v i res answers w0 = (r, w1)" for v i w0 r w1
  proof (intro conjI allI impI TrueI)
    fix f
    assume "r = Inr f"
    with that have c: "createComplianceFinding pf v i res answers w0 = (Inr f, w1)" by simp
    from createComplianceFinding_fields(6)[OF c]
    have "\<exists>t. at_path f [''finding_info'', ''uid''] =
                   Some (JStr (''tikun13-'' @ number_text pf t @ ''-'' @ number_text pf (int i)))"
      by (rule exI[of _ "time_source w0 (clock_reads w0)"])
    with createComplianceFinding_fields(1,2,3)[OF c]
    show "own_property f ''class_uid'' = Some (JNum 2003)"
      and "at_path f [''finding_info'', ''title''] = Some (js_get v ''description'')"
      and "at_path f [''unmapped'', ''violation_category''] = Some (js_get v ''category'')"
      and "\<exists>t. at_path f [''finding_info'', ''uid''] =
                   Some (JStr (''tikun13-'' @ number_text pf t @ ''-'' @ number_text pf (int i)))"
      by (simp_all only:)
  qed
  from exportComplianceFindings_findings[where I = "\<lambda>w0. True" and P = ?P, OF TrueI st e]
  have len: "length (findings_of doc) = length (violations res)"
    and all: "\<forall>j<length (violations res). ?P (violations res ! j) j (findings_of doc ! j)"
    by simp_all
  from exportComplianceFindings_document(4)[OF e]
  show "own_property doc ''findings'' = Some (JArr (findings_of doc))" .
  from len all show "list_all2
           (\<lambda>violation finding.
              own_property finding ''class_uid'' = Some (JNum 2003)
              \<and> at_path finding [''finding_info'', ''title''] = Some (js_get violation ''description'')
              \<and> at_path finding [''unmapped'', ''violation_category''] = Some (js_get violation ''category''))
           (violations res) (findings_of doc)"
    by (simp add: list_all2_conv_all_nth)
  fix j
  assume "j < length (violations res)"
  with all show "\<exists>t. at_path (findings_of doc ! j) [''finding_info'', ''uid''] =
               Some (JStr (''tikun13-'' @ number_text pf t @ ''-'' @ number_text pf (int j)))"
    by blast
next
  assume "violations res = []"
  then show "exportComplianceFindings pf res answers w =
           (Inr (JObj
               [(''version'', JStr ''1.6.0''),
                (''metadata'', JObj
                   [(''version'', JStr ''1.6.0''),
                    (''profiles'', JArr [JStr ''compliance'', JStr ''privacy'']),
                    (''extension'', JObj
                       [(''name'', JStr ''Israeli Privacy Law Amendment 13''),
                        (''version'', JStr ''2025'')])]),
                (''findings'', JArr [])]),
            w)"
    by (rule exportComplianceFindings_empty)
next
  assume "answers < length (heap w)
       \<and> list_all (primitive_fields [''severity'', ''description'', ''law_reference'', ''category'', ''fine''])
           (violations res)
       \<and> list_all (primitive_fields [''action'']) (recommendations res)
       \<and> \<not> is_reference (optional_label (riskLevel res))
       \<and> primitive_fields [''org_type'', ''data_subjects_count''] (heap w ! answers)"
  then show "\<exists>doc w'. exportComplianceFindings pf res answers w = (Inr doc, w')"
    by (intro exportComplianceFindings_returns) simp_all
qed

lemma sample_world_answers:
  "0 < length (heap sample_world)" "heap sample_world ! 0 = sample_answers"
  by (simp_all add: sample_world_def)

lemma sample_violations:
  "violations sample_results =
        [[(''description'', JStr ''No consent records''),
          (''category'', JStr ''consent''),
          (''severity'', JStr ''critical''),
          (''fine'', JNum 50000)],
         [(''description'', JStr ''No data protection officer''),
          (''category'', JStr ''dpo''),
          (''severity'', JStr ''high''),
          (''law_reference'', JStr ''17B'')],
         [(''description'', JStr ''Processor without agreement''),
          (''category'', JStr ''third_party''),
          (''severity'', JStr ''medium'')]]"
  by (simp add: sample_results_def)

theorem exportComplianceFindings_one_finding_per_violation_witness:
  "(\<exists>doc w'.
      exportComplianceFindings sample_platform sample_results 0 sample_world = (Inr doc, w')
      \<and> length (findings_of doc) = 3
      \<and> map (\<lambda>finding. own_property finding ''class_uid'') (findings_of doc)
          = [Some (JNum 2003), Some (JNum 2003), Some (JNum 2003)]
      \<and> map (\<lambda>finding. at_path finding [''unmapped'', ''violation_category'']) (findings_of doc)
          = [Some (JStr ''consent''), Some (JStr ''dpo''), Some (JStr ''third_party'')])
   \<and> exportComplianceFindings sample_platform (sample_results\<lparr>violations := []\<rparr>) 0 sample_world
      = (Inr (JObj
               [(''version'', JStr ''1.6.0''),
                (''metadata'', JObj
                   [(''version'', JStr ''1.6.0''),
                    (''profiles'', JArr [JStr ''compliance'', JStr ''privacy'']),
                    (''extension'', JObj
                       [(''name'', JStr ''Israeli Privacy Law Amendment 13''),
                        (''version'', JStr ''2025'')])]),
                (''findings'', JArr [])]),
         sample_world)"
proof -
  note t = exportComplianceFindings_one_finding_per_violation
             [of sample_platform sample_results 0 sample_world]
  from t sample_input_primitive(1,3,4,5) sample_world_answers obtain doc w' where
    e: "exportComplianceFindings sample_platform sample_results 0 sample_world = (Inr doc, w')"
    by auto
  with t have "list_all2
           (\<lambda>violation finding.
              own_property finding ''class_uid'' = Some (JNum 2003)
              \<and> at_path finding [''finding_info'', ''title''] = Some (js_get violation ''description'')
              \<and> at_path finding [''unmapped'', ''violation_category''] = Some (js_get violation ''category''))
           (violations sample_results) (findings_of doc)"
    by blast
  then have "length (findings_of doc) = 3
     \<and> map (\<lambda>finding. own_property finding ''class_uid'') (findings_of doc)
         = [Some (JNum 2003), Some (JNum 2003), Some (JNum 2003)]
     \<and> map (\<lambda>finding. at_path finding [''unmapped'', ''violation_category'']) (findings_of doc)
         = [Some (JStr ''consent''), Some (JStr ''dpo''), Some (JStr ''third_party'')]"
    unfolding sample_violations by (auto simp: list_all2_Cons1 js_get_def)
  with e have first: "\<exists>doc w'.
      exportComplianceFindings sample_platform sample_results 0 sample_world = (Inr doc, w')
      \<and> length (findings_of doc) = 3
      \<and> map (\<lambda>finding. own_property finding ''class_uid'') (findings_of doc)
          = [Some (JNum 2003), Some (JNum 2003), Some (JNum 2003)]
      \<and> map (\<lambda>finding. at_path finding [''unmapped'', ''violation_category'']) (findings_of doc)
          = [Some (JStr ''consent''), Some (JStr ''dpo''), Some (JStr ''third_party'')]"
    by (intro exI[of _ doc] exI[of _ w'] conjI) simp_all
  let ?r = "sample_results\<lparr>violations := []\<rparr>"
  have "violations ?r = []" by simp
  with exportComplianceFindings_one_finding_per_violation[of sample_platform ?r 0 sample_world]
  have "exportComplianceFindings sample_platform ?r 0 sample_world
      = (Inr (JObj
               [(''version'', JStr ''1.6.0''),
                (''metadata'', JObj
                   [(''version'', JStr ''1.6.0''),
                    (''profiles'', JArr [JStr ''compliance'', JStr ''privacy'']),
                    (''extension'', JObj
                       [(''name'', JStr ''Israeli Privacy Law Amendment 13''),
                        (''version'', JStr ''2025'')])]),
                (''findings'', JArr [])]),
         sample_world)"
    by blast
  with first show ?thesis by (simp only: simp_thms)
qed

subsection \<open>The findings of the data security export\<close>

text \<open>
  C3.  The findings of \<^verbatim>\<open>exportDataSecurityFindings\<close> correspond, position by
  position, to the violations it keeps.  In each of them \<^verbatim>\<open>is_suspected_breach\<close>
  is \<^verbatim>\<open>true\<close> exactly when the category of the violation is \<^verbatim>\<open>consent\<close> or
  \<^verbatim>\<open>data_subjects\<close>, and \<^verbatim>\<open>disposition_id\<close> is 2 when the flag is \<^verbatim>\<open>true\<close> and
  99 otherwise.
\<close>

theorem suspected_breach_and_disposition:
  assumes "exportDataSecurityFindings pf res answers w = (Inr doc, w')"
  shows "list_all2
           (\<lambda>violation finding.
              own_property finding ''is_suspected_breach'' =
                Some (JBool (js_get violation ''category'' = JStr ''consent''
                             \<or> js_get violation ''category'' = JStr ''data_subjects''))
              \<and> own_property finding ''disposition_id'' =
                  Some (JNum (if own_property finding ''is_suspected_breach'' = Some (JBool True)
                              then 2 else 99)))
           (filter (\<lambda>v. js_get v ''category'' \<in>
                          {JStr ''data_subjects'', JStr ''consent'', JStr ''access_rights'',
                           JStr ''data_minimization'', JStr ''privacy_notice'', JStr ''third_party''})
              (violations res))
           (findings_of doc)"
proof -
  let ?P = "\<lambda>violation (i::nat) finding.
              own_property finding ''is_suspected_breach'' =
                Some (JBool (js_get violation ''category'' = JStr ''consent''
                             \<or> js_get violation ''category'' = JStr ''data_subjects''))
              \<and> own_property finding ''disposition_id'' =
                  Some (JNum (if own_property finding ''is_suspected_breach'' = Some (JBool True)
                              then 2 else 99))"
  have "?P v i f" if "createDataSecurityFinding pf v i res answers w0 = (Inr f, w1)" for v i w0 f w1
    using createDataSecurityFinding_fields(2,3)[OF that] by simp
  from exportDataSecurityFindings_findings[OF assms, where P = ?P, OF this]
  show ?thesis
    by (simp add: list_all2_conv_all_nth in_dataCategories)
qed

theorem suspected_breach_and_disposition_witness:
  "\<exists>doc w'.
     exportDataSecurityFindings sample_platform sample_results sample_answers sample_world = (Inr doc, w')
     \<and> map (\<lambda>finding. at_path finding [''unmapped'', ''violation_details'', ''category'']) (findings_of doc)
         = [Some (JStr ''consent''), Some (JStr ''third_party'')]
     \<and> map (\<lambda>finding. own_property finding ''is_suspected_breach'') (findings_of doc)
         = [Some (JBool True), Some (JBool False)]
     \<and> map (\<lambda>finding. own_property finding ''disposition_id'') (findings_of doc)
         = [Some (JNum 2), Some (JNum 99)]"
proof -
  from sample_data_security_export[of sample_world]
  obtain doc w' where
    e: "exportDataSecurityFindings sample_platform sample_results sample_answers sample_world = (Inr doc, w')"
    by blast
  have d: "list_all2 (\<lambda>violation finding. at_path finding [''unmapped'', ''violation_details''] = Some (JObj violation))
     (filter (\<lambda>v. js_get v ''category'' \<in>
                  {JStr ''data_subjects'', JStr ''consent'', JStr ''access_rights'',
                   JStr ''data_minimization'', JStr ''privacy_notice'', JStr ''third_party''})
     (violations sample_results)) (findings_of doc)"
    using exportDataSecurityFindings_findings[OF e,
        where P = "\<lambda>v i f. at_path f [''unmapped'', ''violation_details''] = Some (JObj v)",
        OF createDataSecurityFinding_fields(5)]
    by (simp add: list_all2_conv_all_nth in_dataCategories)
  from suspected_breach_and_disposition[OF e] d e show ?thesis
    unfolding sample_data_violations
    by (auto simp: list_all2_Cons1 js_get_def split: option.splits)
qed

text \<open>
  C6.  When no violation has a category among the six data categories,
  \<^verbatim>\<open>exportDataSecurityFindings\<close> returns exactly the document with the properties
  \<^verbatim>\<open>version\<close> and \<^verbatim>\<open>findings\<close> (the empty array): it has no \<^verbatim>\<open>metadata\<close>.
  Whenever the function returns a document, every finding has \<^verbatim>\<open>class_uid\<close> 2006 and
  the violations embedded in the findings (\<^verbatim>\<open>unmapped.violation_details\<close>) are, in
  order, exactly the violations of the input whose category is one of the six.  With
  violations to export the function can raise \<^verbatim>\<open>TypeError\<close> (for a severity that is
  an object with an own \<^verbatim>\<open>toString\<close>, for a \<^verbatim>\<open>sensitive_data\<close> that is a non-empty
  string).  It does return a document when the severity and the description of every
  violation, the risk label and \<^verbatim>\<open>data_subjects_count\<close> are neither arrays nor
  objects and \<^verbatim>\<open>sensitive_data\<close> is falsy or an array of such values.
\<close>

theorem exportDataSecurityFindings_selects_data_categories:
  "(filter (\<lambda>v. js_get v ''category'' \<in>
                    {JStr ''data_subjects'', JStr ''consent'', JStr ''access_rights'',
                     JStr ''data_minimization'', JStr ''privacy_notice'', JStr ''third_party''})
       (violations res) = []
     \<longrightarrow> exportDataSecurityFindings pf res answers w =
           (Inr (JObj [(''version'', JStr ''1.6.0''), (''findings'', JArr [])]), w))
   \<and> (\<forall>doc w'. exportDataSecurityFindings pf res answers w = (Inr doc, w') \<longrightarrow>
          own_property doc ''findings'' = Some (JArr (findings_of doc))
          \<and> map (\<lambda>finding. at_path finding [''unmapped'', ''violation_details'']) (findings_of doc) =
              map (\<lambda>violation. Some (JObj violation))
                (filter (\<lambda>v. js_get v ''category'' \<in>
                    {JStr ''data_subjects'', JStr ''consent'', JStr ''access_rights'',
                     JStr ''data_minimization'', JStr ''privacy_notice'', JStr ''third_party''})
                   (violations res))
          \<and> list_all (\<lambda>finding. own_property finding ''class_uid'' = Some (JNum 2006)) (findings_of doc))
   \<and> (list_all (primitive_fields [''severity'', ''description'']) (violations res)
       \<and> \<not> is_reference (optional_label (riskLevel res))
       \<and> (\<not> truthy (js_get answers ''sensitive_data'')
            \<or> (\<exists>xs. js_get answers ''sensitive_data'' = JArr xs \<and> list_all (\<lambda>x. \<not> is_reference x) xs))
       \<and> \<not> is_reference (js_get answers ''data_subjects_count'')
       \<longrightarrow> (\<exists>doc w'. exportDataSecurityFindings pf res answers w = (Inr doc, w')))"
proof (intro conjI impI allI)
  assume "filter (\<lambda>v. js_get v ''category'' \<in>
                    {JStr ''data_subjects'', JStr ''consent'', JStr ''access_rights'',
                     JStr ''data_minimization'', JStr ''privacy_notice'', JStr ''third_party''})
       (violations res) = []"
  then have "filter (\<lambda>v. array_includes dataCategories (js_get v ''category'')) (violations res) = []"
    by (simp add: in_dataCategories)
  then show "exportDataSecurityFindings pf res answers w =
           (Inr (JObj [(''version'', JStr ''1.6.0''), (''findings'', JArr [])]), w)"
    by (rule exportDataSecurityFindings_none)
next
  fix doc w'
  assume e: "exportDataSecurityFindings pf res answers w = (Inr doc, w')"
  then show "own_property doc ''findings'' = Some (JArr (findings_of doc))"
    by (rule exportDataSecurityFindings_document(2))
  let ?P = "\<lambda>v (i::nat) f. at_path f [''unmapped'', ''violation_details''] = Some (JObj v)
                         \<and> own_property f ''class_uid'' = Some (JNum 2006)"
  have "?P v i f" if "createDataSecurityFinding pf v i res answers w0 = (Inr f, w1)" for v i w0 f w1
    using createDataSecurityFinding_fields(1,5)[OF that] by simp
  from exportDataSecurityFindings_findings[OF e, where P = ?P, OF this]
  have len: "length (findings_of doc) =
           length (filter (\<lambda>v. js_get v ''category'' \<in>
                    {JStr ''data_subjects'', JStr ''consent'', JStr ''access_rights'',
                     JStr ''data_minimization'', JStr ''privacy_notice'', JStr ''third_party''}) (violations res))"
    and all: "\<forall>j<length (findings_of doc).
             ?P (filter (\<lambda>v. js_get v ''category'' \<in>
                    {JStr ''data_subjects'', JStr ''consent'', JStr ''access_rights'',
                     JStr ''data_minimization'', JStr ''privacy_notice'', JStr ''third_party''}) (violations res) ! j) j
               (findings_of doc ! j)"
    by (simp_all add: in_dataCategories)
  from len all show "map (\<lambda>finding. at_path finding [''unmapped'', ''violation_details'']) (findings_of doc) =
              map (\<lambda>violation. Some (JObj violation))
                (filter (\<lambda>v. js_get v ''category'' \<in>
                    {JStr ''data_subjects'', JStr ''consent'', JStr ''access_rights'',
                     JStr ''data_minimization'', JStr ''privacy_notice'', JStr ''third_party''})
                   (violations res))"
    by (intro nth_equalityI) simp_all
  from all show "list_all (\<lambda>finding. own_property finding ''class_uid'' = Some (JNum 2006)) (findings_of doc)"
    by (simp add: list_all_length)
next
  assume "list_all (primitive_fields [''severity'', ''description'']) (violations res)
       \<and> \<not> is_reference (optional_label (riskLevel res))
       \<and> (\<not> truthy (js_get answers ''sensitive_data'')
            \<or> (\<exists>xs. js_get answers ''sensitive_data'' = JArr xs \<and> list_all (\<lambda>x. \<not> is_reference x) xs))
       \<and> \<not> is_reference (js_get answers ''data_subjects_count'')"
  then show "\<exists>doc w'. exportDataSecurityFindings pf res answers w = (Inr doc, w')"
    by (intro exportDataSecurityFindings_returns) simp_all
qed

theorem exportDataSecurityFindings_selects_data_categories_witness:
  "(\<exists>doc w'.
      exportDataSecurityFindings sample_platform sample_results sample_answers sample_world = (Inr doc, w')
      \<and> map (\<lambda>finding. at_path finding [''unmapped'', ''violation_details'', ''category'']) (findings_of doc)
          = [Some (JStr ''consent''), Some (JStr ''third_party'')])
   \<and> exportDataSecurityFindings sample_platform
        (sample_results\<lparr>violations := [[(''category'', JStr ''dpo'')], [(''category'', JStr ''security'')]]\<rparr>)
        sample_answers sample_world
      = (Inr (JObj [(''version'', JStr ''1.6.0''), (''findings'', JArr [])]), sample_world)
   \<and> own_property (JObj [(''version'', JStr ''1.6.0''), (''findings'', JArr [])]) ''metadata'' = None"
proof -
  note t = exportDataSecurityFindings_selects_data_categories
             [of sample_results sample_platform sample_answers sample_world]
  from t sample_input_primitive(2,4,6,7) obtain doc w' where
    e: "exportDataSecurityFindings sample_platform sample_results sample_answers sample_world = (Inr doc, w')"
    by auto
  with t have "map (\<lambda>finding. at_path finding [''unmapped'', ''violation_details'']) (findings_of doc) =
              map (\<lambda>violation. Some (JObj violation))
                (filter (\<lambda>v. js_get v ''category'' \<in>
                    {JStr ''data_subjects'', JStr ''consent'', JStr ''access_rights'',
                     JStr ''data_minimization'', JStr ''privacy_notice'', JStr ''third_party''})
                   (violations sample_results))"
    by blast
  then have "map (\<lambda>finding. at_path finding [''unmapped'', ''violation_details'', ''category'']) (findings_of doc)
          = [Some (JStr ''consent''), Some (JStr ''third_party'')]"
    unfolding sample_data_violations by (auto split: option.splits)
  with e have first: "\<exists>doc w'.
      exportDataSecurityFindings sample_platform sample_results sample_answers sample_world = (Inr doc, w')
      \<and> map (\<lambda>finding. at_path finding [''unmapped'', ''violation_details'', ''category'']) (findings_of doc)
          = [Some (JStr ''consent''), Some (JStr ''third_party'')]"
    by (intro exI[of _ doc] exI[of _ w'] conjI)
  let ?r = "sample_results\<lparr>violations := [[(''category'', JStr ''dpo'')], [(''category'', JStr ''security'')]]\<rparr>"
  have "filter (\<lambda>v. js_get v ''category'' \<in>
                    {JStr ''data_subjects'', JStr ''consent'', JStr ''access_rights'',
                     JStr ''data_minimization'', JStr ''privacy_notice'', JStr ''third_party''})
       (violations ?r) = []"
    by (simp add: js_get_def)
  with exportDataSecurityFindings_selects_data_categories[of ?r sample_platform sample_answers sample_world]
  have "exportDataSecurityFindings sample_platform ?r sample_answers sample_world
      = (Inr (JObj [(''version'', JStr ''1.6.0''), (''findings'', JArr [])]), sample_world)"
    by blast
  with first show ?thesis by simp
qed

text \<open>
  C10, as stated, fails: the criticality follows the truthiness of
  \<^verbatim>\<open>answers.sensitive_data\<close>, not its presence.  With \<^verbatim>\<open>sensitive_data\<close> present and
  \<^verbatim>\<open>null\<close> (or the empty string, \<^verbatim>\<open>false\<close>, 0) the database resource has
  criticality 2, also in the finding that \<^verbatim>\<open>exportDataSecurityFindings\<close> returns.
\<close>

theorem criticality_of_falsy_sensitive_data_counterexample:
  "map_of [(''sensitive_data'', JNull)] ''sensitive_data'' = Some JNull
   \<and> getAffectedResources [(''category'', JStr ''consent'')] [(''sensitive_data'', JNull)] =
       JArr [JObj [(''type'', JStr ''Database''),
                   (''name'', JStr ''Personal Data Repository''),
                   (''uid'', JStr ''pdr-001''),
                   (''criticality'', JNum 2)]]
   \<and> getAffectedResources [(''category'', JStr ''data_subjects'')] [(''sensitive_data'', JStr [])] =
       JArr [JObj [(''type'', JStr ''Database''),
                   (''name'', JStr ''Personal Data Repository''),
                   (''uid'', JStr ''pdr-001''),
                   (''criticality'', JNum 2)]]
   \<and> getAffectedResources [(''category'', JStr ''consent'')] [(''sensitive_data'', JBool False)] =
       JArr [JObj [(''type'', JStr ''Database''),
                   (''name'', JStr ''Personal Data Repository''),
                   (''uid'', JStr ''pdr-001''),
                   (''criticality'', JNum 2)]]
   \<and> getAffectedResources [(''category'', JStr ''consent'')] [(''sensitive_data'', JNum 0)] =
       JArr [JObj [(''type'', JStr ''Database''),
                   (''name'', JStr ''Personal Data Repository''),
                   (''uid'', JStr ''pdr-001''),
                   (''criticality'', JNum 2)]]
   \<and> map_sum id (\<lambda>doc. map (\<lambda>finding. own_property finding ''resources'') (findings_of doc))
        (fst (exportDataSecurityFindings sample_platform
                (sample_results\<lparr>violations := [[(''category'', JStr ''consent'')]]\<rparr>)
                [(''sensitive_data'', JNull)] sample_world)) =
       Inr [Some (JArr [JObj [(''type'', JStr ''Database''),
                              (''name'', JStr ''Personal Data Repository''),
                              (''uid'', JStr ''pdr-001''),
                              (''criticality'', JNum 2)]])]"
proof -
  have "getAffectedResources [(''category'', JStr ''consent'')] [(''sensitive_data'', JNull)] =
       JArr [JObj [(''type'', JStr ''Database''),
                   (''name'', JStr ''Personal Data Repository''),
                   (''uid'', JStr ''pdr-001''),
                   (''criticality'', JNum 2)]]"
    "getAffectedResources [(''category'', JStr ''data_subjects'')] [(''sensitive_data'', JStr [])] =
       JArr [JObj [(''type'', JStr ''Database''),
                   (''name'', JStr ''Personal Data Repository''),
                   (''uid'', JStr ''pdr-001''),
                   (''criticality'', JNum 2)]]"
    "getAffectedResources [(''category'', JStr ''consent'')] [(''sensitive_data'', JBool False)] =
       JArr [JObj [(''type'', JStr ''Database''),
                   (''name'', JStr ''Personal Data Repository''),
                   (''uid'', JStr ''pdr-001''),
                   (''criticality'', JNum 2)]]"
    "getAffectedResources [(''category'', JStr ''consent'')] [(''sensitive_data'', JNum 0)] =
       JArr [JObj [(''type'', JStr ''Database''),
                   (''name'', JStr ''Personal Data Repository''),
                   (''uid'', JStr ''pdr-001''),
                   (''criticality'', JNum 2)]]"
    by (simp_all add: getAffectedResources_cases js_get_def)
  moreover have "map_sum id (\<lambda>doc. map (\<lambda>finding. own_property finding ''resources'') (findings_of doc))
        (fst (exportDataSecurityFindings sample_platform
                (sample_results\<lparr>violations := [[(''category'', JStr ''consent'')]]\<rparr>)
                [(''sensitive_data'', JNull)] sample_world)) =
       Inr [Some (JArr [JObj [(''type'', JStr ''Database''),
                              (''name'', JStr ''Personal Data Repository''),
                              (''uid'', JStr ''pdr-001''),
                              (''criticality'', JNum 2)]])]"
  proof -
    let ?r = "sample_results\<lparr>violations := [[(''category'', JStr ''consent'')]]\<rparr>"
    let ?a = "[(''sensitive_data'', JNull)]"
    have "\<exists>doc w'. exportDataSecurityFindings sample_platform ?r ?a sample_world = (Inr doc, w')"
      by (rule exportDataSecurityFindings_returns)
         (simp_all add: primitive_fields_def js_get_def Object_prototype_def sample_results_def)
    then obtain doc w' where
      e: "exportDataSecurityFindings sample_platform ?r ?a sample_world = (Inr doc, w')" by blast
    from exportDataSecurityFindings_findings[OF e,
        where P = "\<lambda>v i f. own_property f ''resources'' = Some (getAffectedResources v ?a)",
        OF createDataSecurityFinding_fields(4)]
    have "map (\<lambda>finding. own_property finding ''resources'') (findings_of doc) =
            [Some (getAffectedResources [(''category'', JStr ''consent'')] ?a)]"
      unfolding in_dataCategories
      by (cases "findings_of doc") (simp_all add: js_get_def)
    with e show ?thesis by (simp add: getAffectedResources_cases js_get_def)
  qed
  ultimately show ?thesis by simp
qed

text \<open>
  C10, amended.  In every finding of \<^verbatim>\<open>exportDataSecurityFindings\<close> the \<^verbatim>\<open>resources\<close>
  are a function of the category of the violation and of the truthiness of
  \<^verbatim>\<open>answers.sensitive_data\<close>: one database resource for \<^verbatim>\<open>data_subjects\<close> and
  \<^verbatim>\<open>consent\<close>, with criticality 4 when \<^verbatim>\<open>sensitive_data\<close> is truthy and 2
  otherwise; one third-party resource with criticality 3 for \<^verbatim>\<open>third_party\<close>; no
  resource for any other category.  An array, also the empty one, is truthy;
  \<^verbatim>\<open>sensitive_data\<close> is falsy exactly when it is missing, \<^verbatim>\<open>undefined\<close>, \<^verbatim>\<open>null\<close>,
  \<^verbatim>\<open>false\<close>, 0 or the empty string.
\<close>

theorem affected_resources_by_category:
  assumes "exportDataSecurityFindings pf res answers w = (Inr doc, w')"
  shows "list_all2
           (\<lambda>violation finding.
              own_property finding ''resources'' =
                Some (JArr
                  (if js_get violation ''category'' = JStr ''data_subjects''
                      \<or> js_get violation ''category'' = JStr ''consent''
                   then [JObj [(''type'', JStr ''Database''),
                               (''name'', JStr ''Personal Data Repository''),
                               (''uid'', JStr ''pdr-001''),
                               (''criticality'',
                                  JNum (if truthy (js_get answers ''sensitive_data'') then 4 else 2))]]
                   else if js_get violation ''category'' = JStr ''third_party''
                   then [JObj [(''type'', JStr ''Third Party Integration''),
                               (''name'', JStr ''External Data Processors''),
                               (''uid'', JStr ''ext-proc-001''),
                               (''criticality'', JNum 3)]]
                   else [])))
           (filter (\<lambda>v. js_get v ''category'' \<in>
                          {JStr ''data_subjects'', JStr ''consent'', JStr ''access_rights'',
                           JStr ''data_minimization'', JStr ''privacy_notice'', JStr ''third_party''})
              (violations res))
           (findings_of doc)
       \<and> ((\<exists>xs. map_of answers ''sensitive_data'' = Some (JArr xs))
            \<longrightarrow> truthy (js_get answers ''sensitive_data''))
       \<and> (map_of answers ''sensitive_data'' = None
            \<longrightarrow> \<not> truthy (js_get answers ''sensitive_data''))
       \<and> (\<not> truthy (js_get answers ''sensitive_data'') \<longleftrightarrow>
            map_of answers ''sensitive_data'' = None
            \<or> map_of answers ''sensitive_data'' = Some JUndefined
            \<or> map_of answers ''sensitive_data'' = Some JNull
            \<or> map_of answers ''sensitive_data'' = Some (JBool False)
            \<or> map_of answers ''sensitive_data'' = Some (JNum 0)
            \<or> map_of answers ''sensitive_data'' = Some (JStr []))"
proof -
  let ?P = "\<lambda>violation (i::nat) finding.
              own_property finding ''resources'' = Some (getAffectedResources violation answers)"
  have "?P v i f" if "createDataSecurityFinding pf v i res answers w0 = (Inr f, w1)" for v i w0 f w1
    using createDataSecurityFinding_fields(4)[OF that] by simp
  from exportDataSecurityFindings_findings[OF assms, where P = ?P, OF this]
  have "list_all2 (\<lambda>violation finding.
              own_property finding ''resources'' = Some (getAffectedResources violation answers))
           (filter (\<lambda>v. js_get v ''category'' \<in>
                          {JStr ''data_subjects'', JStr ''consent'', JStr ''access_rights'',
                           JStr ''data_minimization'', JStr ''privacy_notice'', JStr ''third_party''})
              (violations res))
           (findings_of doc)"
    by (simp add: list_all2_conv_all_nth in_dataCategories)
  then have first: "list_all2
           (\<lambda>violation finding.
              own_property finding ''resources'' =
                Some (JArr
                  (if js_get violation ''category'' = JStr ''data_subjects''
                      \<or> js_get violation ''category'' = JStr ''consent''
                   then [JObj [(''type'', JStr ''Database''),
                               (''name'', JStr ''Personal Data Repository''),
                               (''uid'', JStr ''pdr-001''),
                               (''criticality'',
                                  JNum (if truthy (js_get answers ''sensitive_data'') then 4 else 2))]]
                   else if js_get violation ''category'' = JStr ''third_party''
                   then [JObj [(''type'', JStr ''Third Party Integration''),
                               (''name'', JStr ''External Data Processors''),
                               (''uid'', JStr ''ext-proc-001''),
                               (''criticality'', JNum 3)]]
                   else [])))
           (filter (\<lambda>v. js_get v ''category'' \<in>
                          {JStr ''data_subjects'', JStr ''consent'', JStr ''access_rights'',
                           JStr ''data_minimization'', JStr ''privacy_notice'', JStr ''third_party''})
              (violations res))
           (findings_of doc)"
    by (simp only: getAffectedResources_cases)
  have present: "(\<exists>xs. map_of answers ''sensitive_data'' = Some (JArr xs))
            \<longrightarrow> truthy (js_get answers ''sensitive_data'')"
    by (auto simp: js_get_def)
  have absent: "map_of answers ''sensitive_data'' = None
            \<longrightarrow> \<not> truthy (js_get answers ''sensitive_data'')"
    by (simp add: js_get_def Object_prototype_def)
  have falsy: "\<not> truthy (js_get answers ''sensitive_data'') \<longleftrightarrow>
            map_of answers ''sensitive_data'' = None
            \<or> map_of answers ''sensitive_data'' = Some JUndefined
            \<or> map_of answers ''sensitive_data'' = Some JNull
            \<or> map_of answers ''sensitive_data'' = Some (JBool False)
            \<or> map_of answers ''sensitive_data'' = Some (JNum 0)
            \<or> map_of answers ''sensitive_data'' = Some (JStr [])"
  proof (cases "map_of answers ''sensitive_data''")
    case None
    then show ?thesis by (simp add: js_get_def Object_prototype_def)
  next
    case (Some v)
    then show ?thesis by (cases v) (simp_all add: js_get_def)
  qed
  from first present absent falsy show ?thesis by (simp only: simp_thms)
qed

theorem affected_resources_by_category_witness:
  "(\<exists>doc w'.
      exportDataSecurityFindings sample_platform sample_results sample_answers sample_world = (Inr doc, w')
      \<and> map (\<lambda>finding. own_property finding ''resources'') (findings_of doc) =
          [Some (JArr [JObj [(''type'', JStr ''Database''),
                             (''name'', JStr ''Personal Data Repository''),
                             (''uid'', JStr ''pdr-001''),
                             (''criticality'', JNum 4)]]),
           Some (JArr [JObj [(''type'', JStr ''Third Party Integration''),
                             (''name'', JStr ''External Data Processors''),
                             (''uid'', JStr ''ext-proc-001''),
                             (''criticality'', JNum 3)]])])
   \<and> (\<exists>doc w'.
      exportDataSecurityFindings sample_platform sample_results [(''sensitive_data'', JArr [])] sample_world
        = (Inr doc, w')
      \<and> map (\<lambda>finding. own_property finding ''resources'') (findings_of doc) =
          [Some (JArr [JObj [(''type'', JStr ''Database''),
                             (''name'', JStr ''Personal Data Repository''),
                             (''uid'', JStr ''pdr-001''),
                             (''criticality'', JNum 4)]]),
           Some (JArr [JObj [(''type'', JStr ''Third Party Integration''),
                             (''name'', JStr ''External Data Processors''),
                             (''uid'', JStr ''ext-proc-001''),
                             (''criticality'', JNum 3)]])])
   \<and> (\<exists>doc w'.
      exportDataSecurityFindings sample_platform sample_results [(''sensitive_data'', JStr [])] sample_world
        = (Inr doc, w')
      \<and> map (\<lambda>finding. own_property finding ''resources'') (findings_of doc) =
          [Some (JArr [JObj [(''type'', JStr ''Database''),
                             (''name'', JStr ''Personal Data Repository''),
                             (''uid'', JStr ''pdr-001''),
                             (''criticality'', JNum 2)]]),
           Some (JArr [JObj [(''type'', JStr ''Third Party Integration''),
                             (''name'', JStr ''External Data Processors''),
                             (''uid'', JStr ''ext-proc-001''),
                             (''criticality'', JNum 3)]])])
   \<and> (\<exists>doc w'.
      exportDataSecurityFindings sample_platform sample_results [(''org_type'', JStr ''private'')] sample_world
        = (Inr doc, w')
      \<and> map (\<lambda>finding. own_property finding ''resources'') (findings_of doc) =
          [Some (JArr [JObj [(''type'', JStr ''Database''),
                             (''name'', JStr ''Personal Data Repository''),
                             (''uid'', JStr ''pdr-001''),
                             (''criticality'', JNum 2)]]),
           Some (JArr [JObj [(''type'', JStr ''Third Party Integration''),
                             (''name'', JStr ''External Data Processors''),
                             (''uid'', JStr ''ext-proc-001''),
                             (''criticality'', JNum 3)]])])"
proof -
  have run: "\<exists>doc w'.
      exportDataSecurityFindings sample_platform sample_results a sample_world = (Inr doc, w')
      \<and> map (\<lambda>finding. own_property finding ''resources'') (findings_of doc) =
          [Some (JArr [JObj [(''type'', JStr ''Database''),
                             (''name'', JStr ''Personal Data Repository''),
                             (''uid'', JStr ''pdr-001''),
                             (''criticality'', JNum (if truthy (js_get a ''sensitive_data'') then 4 else 2))]]),
           Some (JArr [JObj [(''type'', JStr ''Third Party Integration''),
                             (''name'', JStr ''External Data Processors''),
                             (''uid'', JStr ''ext-proc-001''),
                             (''criticality'', JNum 3)]])]"
    if "\<not> truthy (js_get a ''sensitive_data'')
         \<or> (\<exists>xs. js_get a ''sensitive_data'' = JArr xs \<and> list_all (\<lambda>x. \<not> is_reference x) xs)"
      and "\<not> is_reference (js_get a ''data_subjects_count'')" for a
  proof -
    from exportDataSecurityFindings_returns[OF sample_input_primitive(2,4) that, of sample_platform sample_world]
    obtain doc w' where
      e: "exportDataSecurityFindings sample_platform sample_results a sample_world = (Inr doc, w')"
      by blast
    from affected_resources_by_category[OF e]
    have "map (\<lambda>finding. own_property finding ''resources'') (findings_of doc) =
          [Some (JArr [JObj [(''type'', JStr ''Database''),
                             (''name'', JStr ''Personal Data Repository''),
                             (''uid'', JStr ''pdr-001''),
                             (''criticality'', JNum (if truthy (js_get a ''sensitive_data'') then 4 else 2))]]),
           Some (JArr [JObj [(''type'', JStr ''Third Party Integration''),
                             (''name'', JStr ''External Data Processors''),
                             (''uid'', JStr ''ext-proc-001''),
                             (''criticality'', JNum 3)]])]"
      unfolding sample_data_violations
      by (auto simp: list_all2_Cons1 js_get_def)
    with e show ?thesis by (intro exI[of _ doc] exI[of _ w'] conjI)
  qed
  have s1: "js_get sample_answers ''sensitive_data'' = JArr [JStr ''medical'', JStr ''financial'']"
    and c1: "\<not> is_reference (js_get sample_answers ''data_subjects_count'')"
    and s2: "js_get [(''sensitive_data'', JArr [])] ''sensitive_data'' = JArr []"
    and c2: "\<not> is_reference (js_get [(''sensitive_data'', JArr [])] ''data_subjects_count'')"
    and s3: "js_get [(''sensitive_data'', JStr [])] ''sensitive_data'' = JStr []"
    and c3: "\<not> is_reference (js_get [(''sensitive_data'', JStr [])] ''data_subjects_count'')"
    and s4: "js_get [(''org_type'', JStr ''private'')] ''sensitive_data'' = JUndefined"
    and c4: "\<not> is_reference (js_get [(''org_type'', JStr ''private'')] ''data_subjects_count'')"
    by (simp_all add: js_get_def sample_answers_def Object_prototype_def)
  from run[of sample_answers] run[of "[(''sensitive_data'', JArr [])]"]
    run[of "[(''sensitive_data'', JStr [])]"] run[of "[(''org_type'', JStr ''private'')]"]
  show ?thesis
    unfolding s1 s2 s3 s4 using c1 c2 c3 c4 by simp
qed

text \<open>
  C9, as stated, fails for the documents: the document that
  \<^verbatim>\<open>exportDataSecurityFindings\<close> returns when it keeps no violation has no
  \<^verbatim>\<open>metadata\<close> at all, and the \<^verbatim>\<open>metadata\<close> of the document of
  \<^verbatim>\<open>exportComplianceFindings\<close> has no \<^verbatim>\<open>product\<close>.
\<close>

theorem document_metadata_counterexample:
  "exportDataSecurityFindings sample_platform (sample_results\<lparr>violations := []\<rparr>) sample_answers sample_world
     = (Inr (JObj [(''version'', JStr ''1.6.0''), (''findings'', JArr [])]), sample_world)
   \<and> at_path (JObj [(''version'', JStr ''1.6.0''), (''findings'', JArr [])]) [''metadata'', ''version''] = None
   \<and> at_path (JObj [(''version'', JStr ''1.6.0''), (''findings'', JArr [])]) [''metadata'', ''product''] = None
   \<and> map_sum id (\<lambda>doc. at_path doc [''metadata'', ''product''])
        (fst (exportComplianceFindings sample_platform (sample_results\<lparr>violations := []\<rparr>) 0 sample_world))
      = Inr None"
  by (simp add: exportDataSecurityFindings_def exportComplianceFindings_def this_version_def
      run_then_def pure_step_def)

text \<open>
  C9, amended.  Every finding of class 2003 and of class 2006 carries
  \<^verbatim>\<open>metadata.version\<close> \<^verbatim>\<open>"1.6.0"\<close> and a \<^verbatim>\<open>metadata.product\<close> with \<^verbatim>\<open>name\<close>,
  \<^verbatim>\<open>vendor_name\<close> and \<^verbatim>\<open>version\<close>.  Every document carries the top-level
  \<^verbatim>\<open>version\<close> \<^verbatim>\<open>"1.6.0"\<close>; the \<^verbatim>\<open>metadata\<close> of a document carries the version but
  never a product, and the document of \<^verbatim>\<open>exportDataSecurityFindings\<close> has
  \<^verbatim>\<open>metadata\<close> exactly when it has findings.
\<close>

theorem findings_carry_version_and_product:
  "(\<forall>doc w'. exportComplianceFindings pf res answers w = (Inr doc, w') \<longrightarrow>
      own_property doc ''version'' = Some (JStr ''1.6.0'')
      \<and> at_path doc [''metadata'', ''version''] = Some (JStr ''1.6.0'')
      \<and> at_path doc [''metadata'', ''product''] = None
      \<and> list_all
          (\<lambda>finding.
             own_property finding ''class_uid'' = Some (JNum 2003)
             \<and> at_path finding [''metadata'', ''version''] = Some (JStr ''1.6.0'')
             \<and> at_path finding [''metadata'', ''product'', ''name''] = Some (JStr ''Tikun13 Compliance Checker'')
             \<and> at_path finding [''metadata'', ''product'', ''vendor_name''] = Some (JStr ''Amendment 13 Assessment Tool'')
             \<and> at_path finding [''metadata'', ''product'', ''version''] = Some (JStr ''1.0.0''))
          (findings_of doc))
   \<and> (\<forall>doc w'. exportDataSecurityFindings pf res props w = (Inr doc, w') \<longrightarrow>
      own_property doc ''version'' = Some (JStr ''1.6.0'')
      \<and> (findings_of doc \<noteq> [] \<longrightarrow> at_path doc [''metadata'', ''version''] = Some (JStr ''1.6.0''))
      \<and> (findings_of doc = [] \<longrightarrow> own_property doc ''metadata'' = None)
      \<and> at_path doc [''metadata'', ''product''] = None
      \<and> list_all
          (\<lambda>finding.
             own_property finding ''class_uid'' = Some (JNum 2006)
             \<and> at_path finding [''metadata'', ''version''] = Some (JStr ''1.6.0'')
             \<and> at_path finding [''metadata'', ''product'', ''name''] = Some (JStr ''Tikun13 Compliance Checker'')
             \<and> at_path finding [''metadata'', ''product'', ''vendor_name''] = Some (JStr ''Amendment 13 Assessment Tool'')
             \<and> at_path finding [''metadata'', ''product'', ''version''] = Some (JStr ''1.0.0''))
          (findings_of doc))"
proof (intro conjI allI impI)
  fix doc w'
  assume e: "exportComplianceFindings pf res answers w = (Inr doc, w')"
  show "own_property doc ''version'' = Some (JStr ''1.6.0'')"
    and "at_path doc [''metadata'', ''version''] = Some (JStr ''1.6.0'')"
    and "at_path doc [''metadata'', ''product''] = None"
    using exportComplianceFindings_document(1,2,3)[OF e] by blast+
  let ?P = "\<lambda>v (i::nat) finding.
             own_property finding ''class_uid'' = Some (JNum 2003)
             \<and> at_path finding [''metadata'', ''version''] = Some (JStr ''1.6.0'')
             \<and> at_path finding [''metadata'', ''product'', ''name''] = Some (JStr ''Tikun13 Compliance Checker'')
             \<and> at_path finding [''metadata'', ''product'', ''vendor_name''] = Some (JStr ''Amendment 13 Assessment Tool'')
             \<and> at_path finding [''metadata'', ''product'', ''version''] = Some (JStr ''1.0.0'')"
  have st: "True \<and> (\<forall>f. r = Inr f \<longrightarrow> ?P v i f)"
    if "True" and "createComplianceFinding pf v i res answers w0 = (r, w1)" for v i w0 r w1
  proof (intro conjI allI impI TrueI)
    fix f
    assume "r = Inr f"
    with that have c: "createComplianceFinding pf v i res answers w0 = (Inr f, w1)" by simp
    from createComplianceFinding_fields(1,4)[OF c]
      product_descriptor[OF createComplianceFinding_fields(5)[OF c]]
    show "own_property f ''class_uid'' = Some (JNum 2003)"
      and "at_path f [''metadata'', ''version''] = Some (JStr ''1.6.0'')"
      and "at_path f [''metadata'', ''product'', ''name''] = Some (JStr ''Tikun13 Compliance Checker'')"
      and "at_path f [''metadata'', ''product'', ''vendor_name''] = Some (JStr ''Amendment 13 Assessment Tool'')"
      and "at_path f [''metadata'', ''product'', ''version''] = Some (JStr ''1.0.0'')"
      by (simp_all only:)
  qed
  from exportComplianceFindings_findings[where I = "\<lambda>w0. True" and P = ?P, OF TrueI st e]
  show "list_all (\<lambda>finding. ?P undefined 0 finding) (findings_of doc)"
    by (simp add: list_all_length)
next
  fix doc w'
  assume e: "exportDataSecurityFindings pf res props w = (Inr doc, w')"
  show "own_property doc ''version'' = Some (JStr ''1.6.0'')"
    and "at_path doc [''metadata'', ''product''] = None"
    using exportDataSecurityFindings_document(1,5)[OF e] by blast+
  show "at_path doc [''metadata'', ''version''] = Some (JStr ''1.6.0'')" if "findings_of doc \<noteq> []"
    using exportDataSecurityFindings_document(3)[OF e that] .
  show "own_property doc ''metadata'' = None" if "findings_of doc = []"
    using exportDataSecurityFindings_document(4)[OF e that] .
  let ?P = "\<lambda>v (i::nat) finding.
             own_property finding ''class_uid'' = Some (JNum 2006)
             \<and> at_path finding [''metadata'', ''version''] = Some (JStr ''1.6.0'')
             \<and> at_path finding [''metadata'', ''product'', ''name''] = Some (JStr ''Tikun13 Compliance Checker'')
             \<and> at_path finding [''metadata'', ''product'', ''vendor_name''] = Some (JStr ''Amendment 13 Assessment Tool'')
             \<and> at_path finding [''metadata'', ''product'', ''version''] = Some (JStr ''1.0.0'')"
  have "?P v i f" if "createDataSecurityFinding pf v i res props w0 = (Inr f, w1)" for v i w0 f w1
    using createDataSecurityFinding_fields(1,6)[OF that]
      product_descriptor[OF createDataSecurityFinding_fields(7)[OF that]]
    by (simp only: simp_thms)
  from exportDataSecurityFindings_findings[OF e, where P = ?P, OF this]
  show "list_all (\<lambda>finding. ?P undefined 0 finding) (findings_of doc)"
    by (simp add: list_all_length)
qed

theorem findings_carry_version_and_product_witness:
  "(\<exists>doc w'.
        exportComplianceFindings sample_platform sample_results 0 sample_world = (Inr doc, w')
        \<and> length (findings_of doc) = 3
        \<and> list_all
            (\<lambda>finding.
               at_path finding [''metadata'', ''version''] = Some (JStr ''1.6.0'')
               \<and> at_path finding [''metadata'', ''product'', ''name''] = Some (JStr ''Tikun13 Compliance Checker''))
            (findings_of doc))
   \<and> (\<exists>doc w'.
        exportDataSecurityFindings sample_platform sample_results sample_answers sample_world = (Inr doc, w')
        \<and> length (findings_of doc) = 2
        \<and> at_path doc [''metadata'', ''version''] = Some (JStr ''1.6.0'')
        \<and> list_all
            (\<lambda>finding.
               at_path finding [''metadata'', ''version''] = Some (JStr ''1.6.0'')
               \<and> at_path finding [''metadata'', ''product'', ''name''] = Some (JStr ''Tikun13 Compliance Checker''))
            (findings_of doc))"
proof (intro conjI)
  have "\<exists>doc w'. exportComplianceFindings sample_platform sample_results 0 sample_world = (Inr doc, w')"
    by (rule exportComplianceFindings_returns)
       (simp_all add: sample_world_def sample_input_primitive)
  then obtain doc w' where
    e: "exportComplianceFindings sample_platform sample_results 0 sample_world = (Inr doc, w')"
    by blast
  from exportComplianceFindings_sanitized_answers(3)[OF sample_world_answers(1) e]
  have len: "length (findings_of doc) = 3" by (simp add: sample_violations)
  from findings_carry_version_and_product[of sample_platform sample_results 0 sample_world] e
  have "list_all
          (\<lambda>finding.
             own_property finding ''class_uid'' = Some (JNum 2003)
             \<and> at_path finding [''metadata'', ''version''] = Some (JStr ''1.6.0'')
             \<and> at_path finding [''metadata'', ''product'', ''name''] = Some (JStr ''Tikun13 Compliance Checker'')
             \<and> at_path finding [''metadata'', ''product'', ''vendor_name''] = Some (JStr ''Amendment 13 Assessment Tool'')
             \<and> at_path finding [''metadata'', ''product'', ''version''] = Some (JStr ''1.0.0''))
          (findings_of doc)"
    by fast
  then have "list_all
        (\<lambda>finding.
           at_path finding [''metadata'', ''version''] = Some (JStr ''1.6.0'')
           \<and> at_path finding [''metadata'', ''product'', ''name''] = Some (JStr ''Tikun13 Compliance Checker''))
        (findings_of doc)"
    by (simp add: list_all_iff)
  with e len show "\<exists>doc w'.
        exportComplianceFindings sample_platform sample_results 0 sample_world = (Inr doc, w')
        \<and> length (findings_of doc) = 3
        \<and> list_all
            (\<lambda>finding.
               at_path finding [''metadata'', ''version''] = Some (JStr ''1.6.0'')
               \<and> at_path finding [''metadata'', ''product'', ''name''] = Some (JStr ''Tikun13 Compliance Checker''))
            (findings_of doc)"
    by (intro exI[of _ doc] exI[of _ w'] conjI)
next
  from sample_data_security_export[of sample_world]
  obtain doc w' where
    e: "exportDataSecurityFindings sample_platform sample_results sample_answers sample_world = (Inr doc, w')"
    by blast
  from exportDataSecurityFindings_findings[OF e, where P = "\<lambda>v i f. True"]
  have len: "length (findings_of doc) = 2"
    unfolding in_dataCategories sample_data_violations by simp
  then have ne: "findings_of doc \<noteq> []" by auto
  note t = findings_carry_version_and_product[where pf = sample_platform and res = sample_results
      and props = sample_answers and w = sample_world and answers = 0]
  from t e ne have v: "at_path doc [''metadata'', ''version''] = Some (JStr ''1.6.0'')"
    by fast
  from t e have "list_all
          (\<lambda>finding.
             own_property finding ''class_uid'' = Some (JNum 2006)
             \<and> at_path finding [''metadata'', ''version''] = Some (JStr ''1.6.0'')
             \<and> at_path finding [''metadata'', ''product'', ''name''] = Some (JStr ''Tikun13 Compliance Checker'')
             \<and> at_path finding [''metadata'', ''product'', ''vendor_name''] = Some (JStr ''Amendment 13 Assessment Tool'')
             \<and> at_path finding [''metadata'', ''product'', ''version''] = Some (JStr ''1.0.0''))
          (findings_of doc)"
    by fast
  then have "list_all
            (\<lambda>finding.
               at_path finding [''metadata'', ''version''] = Some (JStr ''1.6.0'')
               \<and> at_path finding [''metadata'', ''product'', ''name''] = Some (JStr ''Tikun13 Compliance Checker''))
            (findings_of doc)"
    by (simp add: list_all_iff)
  with e len v show "\<exists>doc w'.
        exportDataSecurityFindings sample_platform sample_results sample_answers sample_world = (Inr doc, w')
        \<and> length (findings_of doc) = 2
        \<and> at_path doc [''metadata'', ''version''] = Some (JStr ''1.6.0'')
        \<and> list_all
            (\<lambda>finding.
               at_path finding [''metadata'', ''version''] = Some (JStr ''1.6.0'')
               \<and> at_path finding [''metadata'', ''product'', ''name''] = Some (JStr ''Tikun13 Compliance Checker''))
            (findings_of doc)"
    by (intro exI[of _ doc] exI[of _ w'] conjI)
qed

subsection \<open>Mapping functions and derived fields\<close>

lemma array_includes_member:
  "\<not> is_reference v \<Longrightarrow> array_includes xs v = (v \<in> set xs)"
  by (induction xs) (auto simp: array_includes_def strict_eq_def)

lemma mapSeverity_known:
  "mapSeverity pf (JStr ''critical'') = Inr (JNum 5)"
  "mapSeverity pf (JStr ''high'') = Inr (JNum 4)"
  "mapSeverity pf (JStr ''medium'') = Inr (JNum 3)"
  "mapSeverity pf (JStr ''low'') = Inr (JNum 2)"
  "mapSeverity pf (JStr ''info'') = Inr (JNum 1)"
  by (simp_all add: mapSeverity_def table_lookup_def js_get_def js_or_def)

lemma mapImpact_known:
  "mapImpact pf (JStr ''critical'') = Inr (JNum 4)"
  "mapImpact pf (JStr ''high'') = Inr (JNum 3)"
  "mapImpact pf (JStr ''medium'') = Inr (JNum 2)"
  "mapImpact pf (JStr ''low'') = Inr (JNum 1)"
  "mapImpact pf (JStr ''info'') = Inr (JNum 0)"
  by (simp_all add: mapImpact_def table_lookup_def js_get_def js_or_def)

lemma mapSeverity_unknown:
  assumes "to_string pf severity = Inr name"
    and "name \<notin> {''critical'', ''high'', ''medium'', ''low'', ''info''}"
    and "map_of Object_prototype name = None"
  shows "mapSeverity pf severity = Inr (JNum 0)"
  using assms by (auto simp: mapSeverity_def table_lookup_def js_get_def js_or_def)

lemma mapImpact_unknown:
  assumes "to_string pf severity = Inr name"
    and "name \<notin> {''critical'', ''high'', ''medium'', ''low'', ''info''}"
    and "map_of Object_prototype name = None"
  shows "mapImpact pf severity = Inr (JNum 0)"
  using assms by (auto simp: mapImpact_def table_lookup_def js_get_def js_or_def)

lemma mapSeverity_missing:
  "mapSeverity pf JUndefined = Inr (JNum 0)" "mapImpact pf JUndefined = Inr (JNum 0)"
  by (simp_all add: mapSeverity_def mapImpact_def table_lookup_def js_get_def js_or_def
      Object_prototype_def)

lemma mapSeverity_raises:
  "(mapSeverity pf severity = Inl TypeError) = (to_string pf severity = Inl TypeError)"
  "(mapImpact pf severity = Inl TypeError) = (to_string pf severity = Inl TypeError)"
  by (cases "to_string pf severity"; simp add: mapSeverity_def mapImpact_def table_lookup_def)+

text \<open>
  C2.  The two tables are object literals, so a lookup also finds what they inherit
  from \<^verbatim>\<open>Object.prototype\<close>.  For the severity \<^verbatim>\<open>'constructor'\<close> (or \<^verbatim>\<open>'toString'\<close>)
  \<^verbatim>\<open>mapSeverity\<close> and \<^verbatim>\<open>mapImpact\<close> return the inherited function, which is truthy,
  and not the fallback 0.  The lookup also converts its key to a property name first:
  for a severity that is an object with an own property \<^verbatim>\<open>toString\<close> (here
  \<^verbatim>\<open>{"toString": null}\<close>) the conversion raises \<^verbatim>\<open>TypeError\<close>, so the two functions do
  not return for every input either.  The lemmas before this one give what does hold:
  the five known severities map as tabulated, every other value whose string is not
  the name of a property of \<^verbatim>\<open>Object.prototype\<close> maps to 0, and the functions raise
  exactly when the conversion of the severity to a string does.
\<close>

theorem mapSeverity_inherited_property:
  "mapSeverity sample_platform (JStr ''constructor'') = Inr (JFunction ''Object'' 1)
   \<and> mapImpact sample_platform (JStr ''constructor'') = Inr (JFunction ''Object'' 1)
   \<and> mapSeverity sample_platform (JStr ''toString'') = Inr (JFunction ''toString'' 0)
   \<and> mapImpact sample_platform (JStr ''toString'') = Inr (JFunction ''toString'' 0)
   \<and> mapSeverity sample_platform (JObj [(''toString'', JNull)]) = Inl TypeError
   \<and> mapImpact sample_platform (JObj [(''toString'', JNull)]) = Inl TypeError"
  by (simp add: mapSeverity_def mapImpact_def table_lookup_def js_get_def js_or_def
      Object_prototype_def)

text \<open>
  C4.  \<^verbatim>\<open>getConfidentialityLevel\<close> returns 1 for a missing and for an empty
  \<^verbatim>\<open>sensitive_data\<close>; for a non-empty array it returns 4 when the array contains
  \<^verbatim>\<open>medical\<close> or \<^verbatim>\<open>biometric\<close>, otherwise 3 when it contains \<^verbatim>\<open>financial\<close> or
  \<^verbatim>\<open>criminal\<close>, otherwise 2.  It raises no exception on these inputs.
\<close>

theorem getConfidentialityLevel_levels:
  "getConfidentialityLevel JUndefined = Inr (JNum 1)
   \<and> getConfidentialityLevel (JArr []) = Inr (JNum 1)
   \<and> getConfidentialityLevel (JArr xs) =
       Inr (JNum (if xs = [] then 1
                  else if JStr ''medical'' \<in> set xs \<or> JStr ''biometric'' \<in> set xs then 4
                  else if JStr ''financial'' \<in> set xs \<or> JStr ''criminal'' \<in> set xs then 3
                  else 2))"
  by (simp add: getConfidentialityLevel_def array_includes_member)

theorem getConfidentialityLevel_levels_witness:
  "getConfidentialityLevel (JArr [JStr ''medical'']) = Inr (JNum 4)
   \<and> getConfidentialityLevel (JArr [JStr ''financial'']) = Inr (JNum 3)
   \<and> getConfidentialityLevel (JArr [JStr ''medical'', JStr ''financial'']) = Inr (JNum 4)
   \<and> getConfidentialityLevel (JArr [JStr ''financial'', JStr ''biometric'']) = Inr (JNum 4)
   \<and> getConfidentialityLevel (JArr [JStr ''criminal'']) = Inr (JNum 3)
   \<and> getConfidentialityLevel (JArr []) = Inr (JNum 1)
   \<and> getConfidentialityLevel (JArr [JStr ''other'']) = Inr (JNum 2)
   \<and> getConfidentialityLevel JUndefined = Inr (JNum 1)"
  using getConfidentialityLevel_levels[of "[JStr ''medical'']"]
    getConfidentialityLevel_levels[of "[JStr ''financial'']"]
    getConfidentialityLevel_levels[of "[JStr ''medical'', JStr ''financial'']"]
    getConfidentialityLevel_levels[of "[JStr ''financial'', JStr ''biometric'']"]
    getConfidentialityLevel_levels[of "[JStr ''criminal'']"]
    getConfidentialityLevel_levels[of "[JStr ''other'']"]
  by simp

text \<open>
  C5, as stated, fails: for a private organisation whose \<^verbatim>\<open>data_subjects_count\<close> is
  outside the three buckets and whose answers have no \<^verbatim>\<open>sensitive_data\<close>,
  \<^verbatim>\<open>requiresDPO\<close> returns \<^verbatim>\<open>undefined\<close> (the left operand of \<^verbatim>\<open>&&\<close>), not
  \<^verbatim>\<open>false\<close>.
\<close>

theorem requiresDPO_undefined_counterexample:
  "js_get [(''org_type'', JStr ''private''), (''data_subjects_count'', JStr ''less_10k'')] ''org_type''
     = JStr ''private''
   \<and> js_get [(''org_type'', JStr ''private''), (''data_subjects_count'', JStr ''less_10k'')]
        ''data_subjects_count'' \<notin> {JStr ''100k_500k'', JStr ''500k_1m'', JStr ''over_1m''}
   \<and> requiresDPO sample_platform
        [(''org_type'', JStr ''private''), (''data_subjects_count'', JStr ''less_10k'')] = Inr JUndefined
   \<and> requiresDPO sample_platform
        [(''org_type'', JStr ''private''), (''data_subjects_count'', JStr ''less_10k'')] \<noteq> Inr (JBool False)"
  by (simp add: requiresDPO_def and_length_positive_def js_get_def js_or_def js_and_def strict_eq_def
      Object_prototype_def array_includes_def)

text \<open>
  C5, amended.  \<^verbatim>\<open>requiresDPO\<close> returns \<^verbatim>\<open>true\<close> exactly when \<^verbatim>\<open>org_type\<close> is
  \<^verbatim>\<open>public\<close> or \<^verbatim>\<open>databroker\<close>, or \<^verbatim>\<open>sensitive_data\<close> is truthy with a positive
  length and \<^verbatim>\<open>data_subjects_count\<close> is one of the three buckets; any other value it
  returns is falsy.  It is \<^verbatim>\<open>true\<close> for \<^verbatim>\<open>public\<close> whatever the other properties
  are.  When \<^verbatim>\<open>sensitive_data\<close> is an array the result is the boolean of the
  condition (with "non-empty" for the array); when \<^verbatim>\<open>sensitive_data\<close> is missing and
  \<^verbatim>\<open>org_type\<close> is neither \<^verbatim>\<open>public\<close> nor \<^verbatim>\<open>databroker\<close>, the result is
  \<^verbatim>\<open>undefined\<close>.
\<close>

theorem requiresDPO_value:
  "(requiresDPO pf answers = Inr (JBool True) \<longleftrightarrow>
      js_get answers ''org_type'' = JStr ''public''
      \<or> js_get answers ''org_type'' = JStr ''databroker''
      \<or> (truthy (js_get answers ''sensitive_data'')
          \<and> length_positive pf (js_get answers ''sensitive_data'') = Inr True
          \<and> js_get answers ''data_subjects_count'' \<in> {JStr ''100k_500k'', JStr ''500k_1m'', JStr ''over_1m''}))
   \<and> (\<forall>v. requiresDPO pf answers = Inr v \<longrightarrow> (truthy v \<longleftrightarrow> v = JBool True))
   \<and> (js_get answers ''org_type'' = JStr ''public'' \<longrightarrow> requiresDPO pf answers = Inr (JBool True))
   \<and> (\<forall>xs. js_get answers ''sensitive_data'' = JArr xs \<longrightarrow>
         requiresDPO pf answers =
           Inr (JBool (js_get answers ''org_type'' = JStr ''public''
                  \<or> js_get answers ''org_type'' = JStr ''databroker''
                  \<or> (xs \<noteq> []
                      \<and> js_get answers ''data_subjects_count'' \<in>
                            {JStr ''100k_500k'', JStr ''500k_1m'', JStr ''over_1m''}))))
   \<and> (js_get answers ''sensitive_data'' = JUndefined \<longrightarrow>
         requiresDPO pf answers =
           Inr (if js_get answers ''org_type'' = JStr ''public''
               \<or> js_get answers ''org_type'' = JStr ''databroker''
            then JBool True else JUndefined))"
  by (cases "length_positive pf (js_get answers ''sensitive_data'')")
     (auto simp: requiresDPO_def and_length_positive_def js_or_def js_and_def strict_eq_def
        array_includes_def)

theorem requiresDPO_value_witness:
  "requiresDPO sample_platform sample_answers = Inr (JBool True)
   \<and> requiresDPO sample_platform [(''org_type'', JStr ''public'')] = Inr (JBool True)
   \<and> requiresDPO sample_platform
        [(''org_type'', JStr ''private''), (''sensitive_data'', JArr [JStr ''medical'']),
         (''data_subjects_count'', JStr ''500k_1m'')] = Inr (JBool True)
   \<and> requiresDPO sample_platform
        [(''org_type'', JStr ''private''), (''sensitive_data'', JArr []),
         (''data_subjects_count'', JStr ''500k_1m'')] = Inr (JBool False)
   \<and> requiresDPO sample_platform
        [(''org_type'', JStr ''private''), (''sensitive_data'', JArr [JStr ''medical'']),
         (''data_subjects_count'', JStr ''10k_100k'')] = Inr (JBool False)
   \<and> requiresDPO sample_platform
        [(''org_type'', JStr ''private''), (''data_subjects_count'', JStr ''500k_1m'')] = Inr JUndefined"
  using requiresDPO_value[of sample_platform sample_answers]
    requiresDPO_value[of sample_platform "[(''org_type'', JStr ''public'')]"]
    requiresDPO_value[of sample_platform "[(''org_type'', JStr ''private''), (''sensitive_data'', JArr [JStr ''medical'']),
         (''data_subjects_count'', JStr ''500k_1m'')]"]
    requiresDPO_value[of sample_platform "[(''org_type'', JStr ''private''), (''sensitive_data'', JArr []),
         (''data_subjects_count'', JStr ''500k_1m'')]"]
    requiresDPO_value[of sample_platform "[(''org_type'', JStr ''private''), (''sensitive_data'', JArr [JStr ''medical'']),
         (''data_subjects_count'', JStr ''10k_100k'')]"]
    requiresDPO_value[of sample_platform "[(''org_type'', JStr ''private''), (''data_subjects_count'', JStr ''500k_1m'')]"]
  by (simp add: js_get_def sample_answers_def Object_prototype_def)

subsection \<open>Determinism of the combined report\<close>

lemma run_then_related:
  assumes "rel_prod (=) R (m1 w1) (m2 w2)"
    and "\<And>x u1 u2. R u1 u2 \<Longrightarrow> rel_prod (=) R (f1 x u1) (f2 x u2)"
  shows "rel_prod (=) R (run_then m1 f1 w1) (run_then m2 f2 w2)"
proof -
  obtain r1 u1 where m1: "m1 w1 = (r1, u1)" by (cases "m1 w1")
  obtain r2 u2 where m2: "m2 w2 = (r2, u2)" by (cases "m2 w2")
  from assms(1) m1 m2 have r: "r1 = r2" and u: "R u1 u2" by simp_all
  show ?thesis
  proof (cases r2)
    case (Inl e)
    with m1 m2 r u show ?thesis by (simp add: run_then_def)
  next
    case (Inr x)
    with m1 m2 r assms(2)[OF u, of x] show ?thesis by (simp add: run_then_def)
  qed
qed

lemma pure_step_related:
  "R w1 w2 \<Longrightarrow> rel_prod (=) R (pure_step r w1) (pure_step r w2)"
  by (simp add: pure_step_def)

lemma map_indexed_related:
  assumes step: "\<And>x i u1 u2. R u1 u2 \<Longrightarrow> rel_prod (=) R (f1 x i u1) (f2 x i u2)"
    and "R w1 w2"
  shows "rel_prod (=) R (map_indexed f1 xs i w1) (map_indexed f2 xs i w2)"
  using assms(2)
proof (induction xs arbitrary: i w1 w2)
  case Nil
  then show ?case by simp
next
  case (Cons x xs)
  obtain r1 u1 where f1: "f1 x i w1 = (r1, u1)" by (cases "f1 x i w1")
  obtain r2 u2 where f2: "f2 x i w2 = (r2, u2)" by (cases "f2 x i w2")
  from step[OF Cons.prems, of x i] f1 f2 have r: "r1 = r2" and u: "R u1 u2" by simp_all
  show ?case
  proof (cases r2)
    case (Inl e)
    with f1 f2 r u show ?thesis by simp
  next
    case (Inr y)
    obtain s1 v1 where m1: "map_indexed f1 xs (Suc i) u1 = (s1, v1)"
      by (cases "map_indexed f1 xs (Suc i) u1")
    obtain s2 v2 where m2: "map_indexed f2 xs (Suc i) u2 = (s2, v2)"
      by (cases "map_indexed f2 xs (Suc i) u2")
    from Cons.IH[OF u, of "Suc i"] m1 m2 have "s1 = s2" and "R v1 v2" by simp_all
    with f1 f2 r Inr m1 m2 show ?thesis by (cases s2) simp_all
  qed
qed

lemma same_view_tick:
  "same_view t a1 a2 w1 w2 \<Longrightarrow>
   same_view t a1 a2 (w1\<lparr>clock_reads := n1\<rparr>) (w2\<lparr>clock_reads := n2\<rparr>)"
  by (simp add: same_view_def frozen_clock_def)

lemma Date_now_related:
  assumes "same_view t a1 a2 w1 w2"
  shows "rel_prod (=) (same_view t a1 a2) (total Date_now w1) (total Date_now w2)"
  using assms same_view_tick[OF assms]
  by (simp add: total_def Date_now_def same_view_def frozen_clock_def)

lemma properties_of_related:
  assumes "same_view t a1 a2 w1 w2"
  shows "rel_prod (=) (same_view t a1 a2) (properties_of a1 w1) (properties_of a2 w2)"
  using assms by (simp add: properties_of_def same_view_def)

lemma sanitized_answers_related:
  assumes "same_view t a1 a2 w1 w2"
  shows "rel_prod (=) (same_view t a1 a2) (sanitized_answers a1 w1) (sanitized_answers a2 w2)"
proof -
  from assms have a1: "a1 < length (heap w1)" and a2: "a2 < length (heap w2)"
    and eq: "heap w1 ! a1 = heap w2 ! a2"
    and f1: "frozen_clock t w1" and f2: "frozen_clock t w2"
    by (simp_all add: same_view_def)
  obtain r1 u1 where s1: "sanitized_answers a1 w1 = (r1, u1)" by (cases "sanitized_answers a1 w1")
  obtain r2 u2 where s2: "sanitized_answers a2 w2 = (r2, u2)" by (cases "sanitized_answers a2 w2")
  note h1 = sanitized_answers_outcome[OF a1 s1] and h2 = sanitized_answers_outcome[OF a2 s2]
  from h1(1) h2(1) eq have "r1 = r2" by simp
  moreover from h1(2,3) h2(2,3) eq a1 a2 f1 f2 have "same_view t a1 a2 u1 u2"
    by (simp add: same_view_def frozen_clock_def nth_append)
  ultimately show ?thesis using s1 s2 by simp
qed

lemmas related_steps =
  run_then_related pure_step_related map_indexed_related Date_now_related
  properties_of_related sanitized_answers_related

lemma createComplianceFinding_related:
  assumes "same_view t a1 a2 w1 w2"
  shows "rel_prod (=) (same_view t a1 a2)
           (createComplianceFinding pf v i res a1 w1) (createComplianceFinding pf v i res a2 w2)"
  unfolding createComplianceFinding_def
  by (intro related_steps assms | assumption)+

lemma exportComplianceFindings_related:
  assumes "same_view t a1 a2 w1 w2"
  shows "rel_prod (=) (same_view t a1 a2)
           (exportComplianceFindings pf res a1 w1) (exportComplianceFindings pf res a2 w2)"
  unfolding exportComplianceFindings_def
  by (intro related_steps createComplianceFinding_related assms | assumption)+

lemma createDataSecurityFinding_related:
  assumes "same_view t a1 a2 w1 w2"
  shows "rel_prod (=) (same_view t a1 a2)
           (createDataSecurityFinding pf v i res answers w1)
           (createDataSecurityFinding pf v i res answers w2)"
  unfolding createDataSecurityFinding_def Let_def
  by (intro related_steps assms | assumption)+

lemma exportDataSecurityFindings_related:
  assumes "same_view t a1 a2 w1 w2"
  shows "rel_prod (=) (same_view t a1 a2)
           (exportDataSecurityFindings pf res answers w1)
           (exportDataSecurityFindings pf res answers w2)"
proof (cases "filter (\<lambda>v. array_includes dataCategories (js_get v ''category'')) (violations res) = []")
  case True
  with assms show ?thesis by (simp add: exportDataSecurityFindings_def pure_step_def)
next
  case False
  have "rel_prod (=) (same_view t a1 a2)
     (run_then
             (map_indexed
                (\<lambda>violation index. createDataSecurityFinding pf violation index res answers)
                (filter (\<lambda>v. array_includes dataCategories (js_get v ''category'')) (violations res)) 0)
             (\<lambda>findings.
                pure_step (Inr (JObj
                  [(''version'', JStr this_version),
                   (''metadata'', JObj
                      [(''version'', JStr this_version),
                       (''profiles'', JArr [JStr ''data_security'', JStr ''privacy'']),
                       (''extension'', JObj
                          [(''name'', JStr ''Israeli Privacy Law Data Protection''),
                           (''version'', JStr ''2025'')])]),
                   (''findings'', JArr findings)]))) w1)
     (run_then
             (map_indexed
                (\<lambda>violation index. createDataSecurityFinding pf violation index res answers)
                (filter (\<lambda>v. array_includes dataCategories (js_get v ''category'')) (violations res)) 0)
             (\<lambda>findings.
                pure_step (Inr (JObj
                  [(''version'', JStr this_version),
                   (''metadata'', JObj
                      [(''version'', JStr this_version),
                       (''profiles'', JArr [JStr ''data_security'', JStr ''privacy'']),
                       (''extension'', JObj
                          [(''name'', JStr ''Israeli Privacy Law Data Protection''),
                           (''version'', JStr ''2025'')])]),
                   (''findings'', JArr findings)]))) w2)"
    by (intro related_steps createDataSecurityFinding_related assms | assumption)+
  with False show ?thesis by (simp add: exportDataSecurityFindings_def Let_def)
qed

lemma exportRecommendations_related:
  assumes "same_view t a1 a2 w1 w2"
  shows "rel_prod (=) (same_view t a1 a2)
           (exportRecommendations pf recs w1) (exportRecommendations pf recs w2)"
  unfolding exportRecommendations_def
  by (intro related_steps assms | assumption)+

lemma exportCombinedReport_related:
  assumes "same_view t a1 a2 w1 w2"
  shows "rel_prod (=) (same_view t a1 a2)
           (exportCombinedReport pf res a1 w1) (exportCombinedReport pf res a2 w2)"
  unfolding exportCombinedReport_def
  by (intro related_steps exportComplianceFindings_related exportDataSecurityFindings_related
      exportRecommendations_related assms | assumption)+

lemma exportRecommendations_returns:
  "\<exists>out w'. exportRecommendations pf recs w = (Inr out, w')"
proof -
  have "\<exists>ys w'. map_indexed
          (\<lambda>rec index.
             run_then (total Date_now) (\<lambda>now.
             pure_step (Inr (JObj
                  [(''priority'', js_get rec ''priority''),
                   (''category'', js_get rec ''category''),
                   (''action'', js_get rec ''action''),
                   (''description'', js_get rec ''description''),
                   (''timeline'', js_get rec ''timeline''),
                   (''reference'', js_or (js_get rec ''reference'') (JStr ''Amendment 13 Requirements'')),
                   (''uid'', JStr (''rec-'' @ number_text pf now @ ''-''
                                   @ number_text pf (int index)))]))))
          recs 0 w = (Inr ys, w') \<and> True"
    by (rule map_indexed_returns[where I = "\<lambda>w0. True"]) (simp_all add: run_steps pure_step_def)
  then show ?thesis
    by (auto simp: exportRecommendations_def run_then_def pure_step_def)
qed

text \<open>
  C8.  Run \<^verbatim>\<open>exportCombinedReport\<close> twice on the same \<^verbatim>\<open>results\<close>, in two worlds
  whose clocks are fixed at the same instant and with answers objects that have the
  same properties.  The two runs end alike: both raise the same exception or both
  return the same report, identifiers included.  The worlds may differ in everything
  else (the other objects of the store, earlier clock reads, the random source, which
  the report never reads).
\<close>

theorem exportCombinedReport_deterministic:
  assumes "frozen_clock t w1" and "frozen_clock t w2"
    and "answers1 < length (heap w1)" and "answers2 < length (heap w2)"
    and "heap w1 ! answers1 = heap w2 ! answers2"
  shows "fst (exportCombinedReport pf res answers1 w1) =
         fst (exportCombinedReport pf res answers2 w2)"
proof -
  from assms have "same_view t answers1 answers2 w1 w2" by (simp add: same_view_def)
  from exportCombinedReport_related[OF this, of pf res] show ?thesis
    by (simp add: rel_prod_sel)
qed

theorem exportCombinedReport_deterministic_witness:
  "frozen_clock 1700000000000 sample_world
   \<and> frozen_clock 1700000000000
        (sample_world\<lparr>heap := [[], sample_answers], clock_reads := 7,
                       random_source := (\<lambda>n. ''zzzzzzzzz''), random_reads := 3\<rparr>)
   \<and> (\<exists>report.
        fst (exportCombinedReport sample_platform sample_results 0 sample_world) = Inr report
        \<and> fst (exportCombinedReport sample_platform sample_results 1
               (sample_world\<lparr>heap := [[], sample_answers], clock_reads := 7,
                              random_source := (\<lambda>n. ''zzzzzzzzz''), random_reads := 3\<rparr>)) = Inr report
        \<and> at_path report [''summary'', ''total_violations''] = Some (JNum 3)
        \<and> at_path report [''summary'', ''requires_dpo''] = Some (JBool True))"
proof -
  let ?w2 = "sample_world\<lparr>heap := [[], sample_answers], clock_reads := 7,
                       random_source := (\<lambda>n. ''zzzzzzzzz''), random_reads := 3\<rparr>"
  have f1: "frozen_clock 1700000000000 sample_world"
    by (simp add: frozen_clock_def sample_world_def)
  have f2: "frozen_clock 1700000000000 ?w2"
    by (simp add: frozen_clock_def sample_world_def)
  have a1: "0 < length (heap sample_world)" by (simp add: sample_world_def)
  have a2: "1 < length (heap ?w2)" by simp
  have eq: "heap sample_world ! 0 = heap ?w2 ! 1" by (simp add: sample_world_def)
  note t = exportCombinedReport_deterministic[OF f1 f2 a1 a2 eq, of sample_platform sample_results]
  let ?u = "sample_world\<lparr>clock_reads := Suc (clock_reads sample_world)\<rparr>"
  have au: "0 < length (heap ?u)" and hu: "heap ?u ! 0 = sample_answers"
    by (simp_all add: sample_world_def)
  have "\<exists>doc w'. exportComplianceFindings sample_platform sample_results 0 ?u = (Inr doc, w')"
    by (rule exportComplianceFindings_returns)
       (simp_all add: sample_world_def sample_input_primitive)
  then obtain c x where c: "exportComplianceFindings sample_platform sample_results 0 ?u = (Inr c, x)"
    by blast
  from exportComplianceFindings_sanitized_answers(1)[OF au c] hu
  have hx: "heap x ! 0 = sample_answers" by simp
  from sample_data_security_export[of x]
  obtain ds y where d: "exportDataSecurityFindings sample_platform sample_results sample_answers x = (Inr ds, y)"
    by blast
  from exportRecommendations_returns[of sample_platform "recommendations sample_results" y]
  obtain r z where r: "exportRecommendations sample_platform (recommendations sample_results) y = (Inr r, z)"
    by blast
  from sample_input_primitive(5) have o: "\<not> is_reference (js_get sample_answers ''org_type'')"
    by (simp add: primitive_fields_def)
  from mapping_functions_primitive(4)[OF o, of sample_platform] obtain ot where
    ot: "getOrganizationType sample_platform (js_get sample_answers ''org_type'') = Inr ot" by blast
  from getDataScale_primitive[OF sample_input_primitive(6), of sample_platform] obtain sc where
    sc: "getDataScale sample_platform (js_get sample_answers ''data_subjects_count'') = Inr sc" by blast
  have dpo: "requiresDPO sample_platform sample_answers = Inr (JBool True)"
    by (simp add: requiresDPO_def sample_answers_def js_get_def js_or_def strict_eq_def)
  have hs: "and_length_positive sample_platform (js_get sample_answers ''sensitive_data'') = Inr (JBool True)"
    by (simp add: and_length_positive_def sample_sensitive_data)
  have n: "length (violations sample_results) = 3" by (simp add: sample_results_def)
  have "\<exists>report. fst (exportCombinedReport sample_platform sample_results 0 sample_world) = Inr report
        \<and> at_path report [''summary'', ''total_violations''] = Some (JNum 3)
        \<and> at_path report [''summary'', ''requires_dpo''] = Some (JBool True)"
    using hx hu n
    by (simp add: exportCombinedReport_def run_steps ot sc dpo hs
        run_then_known[where m = "exportComplianceFindings sample_platform sample_results 0", OF c]
        run_then_known[where m = "exportDataSecurityFindings sample_platform sample_results sample_answers", OF d]
        run_then_known[where m = "exportRecommendations sample_platform (recommendations sample_results)", OF r]
        pure_step_def)
  then obtain report where
    "fst (exportCombinedReport sample_platform sample_results 0 sample_world) = Inr report"
    "at_path report [''summary'', ''total_violations''] = Some (JNum 3)"
    "at_path report [''summary'', ''requires_dpo''] = Some (JBool True)"
    by blast
  with t f1 f2 show ?thesis
    by (intro conjI exI[of _ report]) simp_all
qed

subsection \<open>Sanitization\<close>

lemma exportCombinedReport_parts:
  assumes "exportCombinedReport pf res answers w = (Inr report, w')"
  shows "\<exists>doc w2. exportComplianceFindings pf res answers (w\<lparr>clock_reads := Suc (clock_reads w)\<rparr>)
                    = (Inr doc, w2)
           \<and> own_property report ''compliance_findings'' = Some doc"
  using assms
  by (auto simp: exportCombinedReport_def run_then_eq_Inr)

text \<open>
  C1.  Let \<open>answers\<close> refer to an allocated object.  However
  \<^verbatim>\<open>exportComplianceFindings\<close> ends, with a document or with an exception, the object
  still has the properties it had (indeed every object allocated before the call is
  unchanged).  When it returns a document, there is one finding per violation, and the
  \<^verbatim>\<open>unmapped.assessment_answers\<close> of every finding are the properties of the answers
  without \<^verbatim>\<open>organization_name\<close> and \<^verbatim>\<open>contact_details\<close>: every other key has the
  value it has in the answers.  The same holds for \<^verbatim>\<open>exportCombinedReport\<close> and the
  compliance findings inside the report.
\<close>

theorem exports_embed_sanitized_copy_of_answers:
  assumes "answers < length (heap w)"
  shows "(\<forall>r w'. exportComplianceFindings pf res answers w = (r, w') \<longrightarrow>
            heap w' ! answers = heap w ! answers
            \<and> take (length (heap w)) (heap w') = heap w
            \<and> (\<forall>doc. r = Inr doc \<longrightarrow>
                 length (findings_of doc) = length (violations res)
                 \<and> list_all
                     (\<lambda>finding. \<exists>sanitized.
                        at_path finding [''unmapped'', ''assessment_answers''] = Some (JObj sanitized)
                        \<and> sanitized =
                            filter (\<lambda>kv. fst kv \<noteq> ''organization_name'' \<and> fst kv \<noteq> ''contact_details'')
                              (heap w ! answers)
                        \<and> (\<forall>key. map_of sanitized key =
                              (if key = ''organization_name'' \<or> key = ''contact_details'' then None
                               else map_of (heap w ! answers) key)))
                     (findings_of doc)))
       \<and> (\<forall>r w'. exportCombinedReport pf res answers w = (r, w') \<longrightarrow>
            heap w' ! answers = heap w ! answers
            \<and> take (length (heap w)) (heap w') = heap w
            \<and> (\<forall>report. r = Inr report \<longrightarrow>
                 (\<exists>doc. own_property report ''compliance_findings'' = Some doc
                    \<and> length (findings_of doc) = length (violations res)
                    \<and> list_all
                        (\<lambda>finding. \<exists>sanitized.
                           at_path finding [''unmapped'', ''assessment_answers''] = Some (JObj sanitized)
                           \<and> sanitized =
                               filter (\<lambda>kv. fst kv \<noteq> ''organization_name'' \<and> fst kv \<noteq> ''contact_details'')
                                 (heap w ! answers)
                           \<and> (\<forall>key. map_of sanitized key =
                                 (if key = ''organization_name'' \<or> key = ''contact_details'' then None
                                  else map_of (heap w ! answers) key)))
                        (findings_of doc))))"
proof (intro conjI allI impI)
  fix r w'
  assume e: "exportComplianceFindings pf res answers w = (r, w')"
  note s = exportComplianceFindings_sanitized_answers[OF assms e]
  from s(1) show "heap w' ! answers = heap w ! answers" .
  from s(2) show "take (length (heap w)) (heap w') = heap w" .
  fix doc
  assume d: "r = Inr doc"
  from s(3)[OF d] show "length (findings_of doc) = length (violations res)" .
  from s(4)[OF d] show "list_all
                     (\<lambda>finding. \<exists>sanitized.
                        at_path finding [''unmapped'', ''assessment_answers''] = Some (JObj sanitized)
                        \<and> sanitized =
                            filter (\<lambda>kv. fst kv \<noteq> ''organization_name'' \<and> fst kv \<noteq> ''contact_details'')
                              (heap w ! answers)
                        \<and> (\<forall>key. map_of sanitized key =
                              (if key = ''organization_name'' \<or> key = ''contact_details'' then None
                               else map_of (heap w ! answers) key)))
                     (findings_of doc)" .
next
  fix r w'
  assume e: "exportCombinedReport pf res answers w = (r, w')"
  from preservesD[OF preserves_exportCombinedReport extends_heap_refl e]
  have x: "extends_heap w w'" .
  from extends_heap_nth(1)[OF x assms] show "heap w' ! answers = heap w ! answers" .
  from x show "take (length (heap w)) (heap w') = heap w" by (simp add: extends_heap_def)
  fix report
  assume "r = Inr report"
  with e have "exportCombinedReport pf res answers w = (Inr report, w')" by simp
  from exportCombinedReport_parts[OF this] obtain doc w2 where
    c: "exportComplianceFindings pf res answers (w\<lparr>clock_reads := Suc (clock_reads w)\<rparr>) = (Inr doc, w2)"
    and p: "own_property report ''compliance_findings'' = Some doc"
    by blast
  from assms have a: "answers < length (heap (w\<lparr>clock_reads := Suc (clock_reads w)\<rparr>))" by simp
  have hw: "heap (w\<lparr>clock_reads := Suc (clock_reads w)\<rparr>) = heap w" by simp
  note s = exportComplianceFindings_sanitized_answers(3,4)[OF a c refl, unfolded hw]
  from p s show "\<exists>doc. own_property report ''compliance_findings'' = Some doc
                    \<and> length (findings_of doc) = length (violations res)
                    \<and> list_all
                        (\<lambda>finding. \<exists>sanitized.
                           at_path finding [''unmapped'', ''assessment_answers''] = Some (JObj sanitized)
                           \<and> sanitized =
                               filter (\<lambda>kv. fst kv \<noteq> ''organization_name'' \<and> fst kv \<noteq> ''contact_details'')
                                 (heap w ! answers)
                           \<and> (\<forall>key. map_of sanitized key =
                                 (if key = ''organization_name'' \<or> key = ''contact_details'' then None
                                  else map_of (heap w ! answers) key)))
                        (findings_of doc)"
    by (intro exI[of _ doc] conjI)
qed

theorem exports_embed_sanitized_copy_of_answers_witness:
  "0 < length (heap sample_world)
   \<and> map_of sample_answers ''organization_name'' = Some (JStr ''Example Ltd'')
   \<and> map_of sample_answers ''contact_details'' = Some (JStr ''dpo@example.org'')
   \<and> (\<exists>doc w'.
        exportComplianceFindings sample_platform sample_results 0 sample_world = (Inr doc, w')
        \<and> heap w' ! 0 = sample_answers
        \<and> length (findings_of doc) = 3
        \<and> list_all
            (\<lambda>finding. at_path finding [''unmapped'', ''assessment_answers''] =
               Some (JObj [(''org_type'', JStr ''public''),
                           (''sensitive_data'', JArr [JStr ''medical'', JStr ''financial'']),
                           (''data_subjects_count'', JStr ''over_1m'')]))
            (findings_of doc))"
proof -
  have a: "0 < length (heap sample_world)" by (simp add: sample_world_def)
  have "\<exists>doc w'. exportComplianceFindings sample_platform sample_results 0 sample_world = (Inr doc, w')"
    by (rule exportComplianceFindings_returns)
       (simp_all add: sample_world_def sample_input_primitive)
  then obtain doc w' where
    e: "exportComplianceFindings sample_platform sample_results 0 sample_world = (Inr doc, w')"
    by blast
  have h: "heap sample_world ! 0 = sample_answers" by (simp add: sample_world_def)
  have f: "filter (\<lambda>kv. fst kv \<noteq> ''organization_name'' \<and> fst kv \<noteq> ''contact_details'') sample_answers =
            [(''org_type'', JStr ''public''),
                       (''sensitive_data'', JArr [JStr ''medical'', JStr ''financial'']),
                       (''data_subjects_count'', JStr ''over_1m'')]" by (simp add: sample_answers_def)
  have v: "length (violations sample_results) = 3" by (simp add: sample_results_def)
  have k: "map_of sample_answers ''organization_name'' = Some (JStr ''Example Ltd'')
         \<and> map_of sample_answers ''contact_details'' = Some (JStr ''dpo@example.org'')"
    by (simp add: sample_answers_def)
  from exports_embed_sanitized_copy_of_answers[OF a, of sample_platform sample_results] e
  have "heap w' ! 0 = heap sample_world ! 0
      \<and> length (findings_of doc) = length (violations sample_results)
      \<and> list_all
                (\<lambda>finding. \<exists>sanitized.
                   at_path finding [''unmapped'', ''assessment_answers''] = Some (JObj sanitized)
                   \<and> sanitized =
                       filter (\<lambda>kv. fst kv \<noteq> ''organization_name'' \<and> fst kv \<noteq> ''contact_details'')
                         (heap sample_world ! 0)
                   \<and> (\<forall>key. map_of sanitized key =
                         (if key = ''organization_name'' \<or> key = ''contact_details'' then None
                          else map_of (heap sample_world ! 0) key)))
                (findings_of doc)"
    by fast
  then have "heap w' ! 0 = sample_answers
        \<and> length (findings_of doc) = 3
        \<and> list_all
            (\<lambda>finding. at_path finding [''unmapped'', ''assessment_answers''] =
               Some (JObj [(''org_type'', JStr ''public''),
                           (''sensitive_data'', JArr [JStr ''medical'', JStr ''financial'']),
                           (''data_subjects_count'', JStr ''over_1m'')]))
            (findings_of doc)"
    unfolding h f v by (simp add: list_all_iff)
  with e a k show ?thesis
    by (intro conjI exI[of _ doc] exI[of _ w']) simp_all
qed

subsection \<open>Inputs on which the exports raise\<close>

text \<open>
  A violation whose \<^verbatim>\<open>severity\<close> is \<^verbatim>\<open>{"toString": null}\<close> makes \<^verbatim>\<open>mapSeverity\<close> raise
  at \<^verbatim>\<open>mapping[severity]\<close>; a \<^verbatim>\<open>fine\<close> that is \<^verbatim>\<open>{"toLocaleString": null}\<close> makes
  \<^verbatim>\<open>getDetailedDescription\<close> raise at \<^verbatim>\<open>violation.fine?.toLocaleString()\<close>.  Either way
  the export raises \<^verbatim>\<open>TypeError\<close> and returns no document.
\<close>

lemma createComplianceFinding_raises:
  "fst (createComplianceFinding pf [(''severity'', JObj [(''toString'', JNull)])] i res answers w)
     = Inl TypeError"
  "fst (createComplianceFinding pf [(''fine'', JObj [(''toLocaleString'', JNull)])] i res answers w)
     = Inl TypeError"
  by (simp_all add: createComplianceFinding_def run_steps mapSeverity_def table_lookup_def
      getDetailedDescription_def fine_text_def js_get_def js_or_def Object_prototype_def)

lemma exportComplianceFindings_raises:
  "fst (exportComplianceFindings pf
          (res\<lparr>violations := [[(''severity'', JObj [(''toString'', JNull)])]]\<rparr>) answers w)
     = Inl TypeError"
  "fst (exportComplianceFindings pf
          (res\<lparr>violations := [[(''fine'', JObj [(''toLocaleString'', JNull)])]]\<rparr>) answers w)
     = Inl TypeError"
proof -
  have first: "fst (exportComplianceFindings pf (res\<lparr>violations := [v]\<rparr>) answers w) = Inl TypeError"
    if "\<And>r. fst (createComplianceFinding pf v 0 r answers w) = Inl TypeError" for v
  proof -
    obtain r0 w0 where c: "createComplianceFinding pf v 0 (res\<lparr>violations := [v]\<rparr>) answers w = (r0, w0)"
      by (cases "createComplianceFinding pf v 0 (res\<lparr>violations := [v]\<rparr>) answers w")
    with that[of "res\<lparr>violations := [v]\<rparr>"] have "r0 = Inl TypeError" by simp
    with c show ?thesis by (simp add: exportComplianceFindings_def run_then_def)
  qed
  show "fst (exportComplianceFindings pf
          (res\<lparr>violations := [[(''severity'', JObj [(''toString'', JNull)])]]\<rparr>) answers w)
     = Inl TypeError"
    by (rule first) (rule createComplianceFinding_raises)
  show "fst (exportComplianceFindings pf
          (res\<lparr>violations := [[(''fine'', JObj [(''toLocaleString'', JNull)])]]\<rparr>) answers w)
     = Inl TypeError"
    by (rule first) (rule createComplianceFinding_raises)
qed

lemma exportDataSecurityFindings_raises:
  "fst (exportDataSecurityFindings pf
          (res\<lparr>violations :=
                 [[(''category'', JStr ''consent''), (''severity'', JObj [(''toString'', JNull)])]]\<rparr>)
          answers w)
     = Inl TypeError"
  by (simp add: exportDataSecurityFindings_def createDataSecurityFinding_def run_steps
      run_then_def Let_def mapSeverity_def table_lookup_def js_get_def dataCategories_def
      array_includes_def strict_eq_def split: prod.splits sum.splits)

end
